theory Spec2Isabelle
  imports Main
begin

section \<open>Data model\<close>

text \<open>
  The file under verification is \<^verbatim>\<open>aten/src/ATen/native/UnaryOps.cpp\<close>: the facade that
  derives, for every unary operation, the into-buffer form \<^verbatim>\<open>op_out(result, self)\<close>, the
  allocate-and-return form \<^verbatim>\<open>op(self)\<close> and the in-place form \<^verbatim>\<open>op_(self)\<close>.

  A \<^verbatim>\<open>Tensor&\<close> is a reference: the callee changes the caller's tensor.  The model
  therefore keeps every tensor in a store and passes references (indices into the store).
  A tensor is a view (dtype, layout, device, sizes, strides, offset) over a storage, and
  several views may share one storage.  A tensor made from a number carries the mark that
  \<^verbatim>\<open>set_wrapped_number\<close> sets.
\<close>

datatype ScalarType =
    kByte | kChar | kShort | kInt | kLong
  | kHalf | kFloat | kDouble
  | kComplexHalf | kComplexFloat | kComplexDouble
  | kBool | kBFloat16

datatype Layout = Strided | Sparse | Mkldnn

datatype DeviceType = CPU | CUDA | XLA

record TensorOptions =
  opt_dtype :: ScalarType
  opt_layout :: Layout
  opt_device :: DeviceType

record TensorImpl =
  scalar_type :: ScalarType
  layout :: Layout
  device :: DeviceType
  sizes :: "nat list"
  strides :: "nat list"
  storage_offset :: nat
  storage :: nat
  is_wrapped_number :: bool

type_synonym Tensor = nat

text \<open>
  The dispatch stubs of the file, one per \<^verbatim>\<open>DEFINE_DISPATCH\<close> line (lines 486--531), and
  \<open>mul_stub\<close>, the stub of the multiplication that \<^verbatim>\<open>rad2deg_out\<close> and \<^verbatim>\<open>deg2rad_out\<close>
  reach through \<^verbatim>\<open>at::mul_out\<close>.
\<close>

datatype stub_id =
    abs_stub | angle_stub | real_stub | imag_stub | conj_stub | acos_stub | acosh_stub
  | asinh_stub | atanh_stub | asin_stub | atan_stub | bitwise_not_stub | ceil_stub
  | clamp_stub | clamp_max_stub | clamp_min_stub | cos_stub | cosh_stub | digamma_stub
  | erf_stub | erfc_stub | erfinv_stub | exp_stub | expm1_stub | floor_stub | frac_stub
  | log_stub | log10_stub | log1p_stub | log2_stub | logical_not_stub | neg_stub
  | polygamma_stub | reciprocal_stub | round_stub | rsqrt_stub | sigmoid_stub | sign_stub
  | sin_stub | sinh_stub | sqrt_stub | tan_stub | tanh_stub | trigamma_stub | trunc_stub
  | lgamma_stub | mul_stub

text \<open>
  Every kernel invocation is recorded, so that "no kernel has run yet" is a property of
  the state.  Besides the stubs of this file, \<^verbatim>\<open>copy_\<close> and the comparison and
  reduction of \<^verbatim>\<open>mvlgamma_check\<close> run kernels.
\<close>

datatype kernel_id =
    StubKernel stub_id DeviceType
  | CopyKernel
  | CompareKernel
  | ReduceKernel

text \<open>
  A storage is a list of cells.  A tensor of a real dtype keeps the element with address
  \<open>a\<close> in cell \<open>a\<close>; a tensor of a complex dtype keeps it in the cells \<open>2 * a\<close> (real part)
  and \<open>2 * a + 1\<close> (imaginary part).  The numeric content of a cell is left abstract
  (type \<open>'r\<close>): the kernels are external to the file.
\<close>

datatype 'r elem = RealElem 'r | ComplexElem 'r 'r

record 'r state =
  impls :: "TensorImpl list"
  storages :: "'r list list"
  kernel_log :: "kernel_id list"

text \<open>
  The error taxonomy.  \<open>IncompatibleOutput\<close> stands for the plan builder's rejection of an
  output whose dtype or device does not fit the input; the facade never raises it.
\<close>

datatype error_kind =
    ShapeMismatch | UnsafeAliasing | UnsupportedDtype | UnsupportedDevice
  | UnsupportedLayout | InvalidCast | InvalidArgument | IncompatibleOutput

type_synonym error = "error_kind \<times> string"

type_synonym ('r, 'a) action = "'r state \<Rightarrow> (error + 'a) \<times> 'r state"

text \<open>
  A kernel maps one input element to one output element, given the input and the output
  dtype.  The result is a pair; a real output keeps only its first component.
\<close>

type_synonym 'r kernel = "ScalarType \<Rightarrow> ScalarType \<Rightarrow> 'r elem \<Rightarrow> 'r \<times> 'r"

text \<open>The extra arguments that the facade passes to a stub after the iterator.\<close>

datatype 'r stub_args = NoArgs | ClampArgs 'r 'r | ScalarArg 'r | OrderArg int

text \<open>
  The collaborators that the file calls and does not define are parameters of the model:
  the dispatch table, \<^verbatim>\<open>canCast\<close>, the conversion that \<^verbatim>\<open>copy_\<close> applies, the content
  of fresh memory, the comparison \<^verbatim>\<open>x > 0.5f * k\<close> on one element, \<^verbatim>\<open>at::pow\<close>,
  \<^verbatim>\<open>at::pow_out\<close>, and the arithmetic of \<^verbatim>\<open>mvlgamma\<close> after its check.  So are the two
  numeric constants of the file, as values of the abstract cell type, and the choice that
  the operator dispatcher makes between the per-device native functions of
  \<^verbatim>\<open>erfinv_out\<close> and \<^verbatim>\<open>lgamma_out\<close>, from the devices of the output and the input.
\<close>

record 'r env =
  stubs :: "stub_id \<Rightarrow> DeviceType \<Rightarrow> ('r stub_args \<Rightarrow> 'r kernel) option"
  canCast :: "ScalarType \<Rightarrow> ScalarType \<Rightarrow> bool"
  copy_cast :: "'r kernel"
  uninit :: 'r
  gt_half :: "'r elem \<Rightarrow> int \<Rightarrow> bool"
  at_pow :: "Tensor \<Rightarrow> int \<Rightarrow> ('r, Tensor) action"
  at_pow_out :: "Tensor \<Rightarrow> Tensor \<Rightarrow> int \<Rightarrow> ('r, Tensor) action"
  mvlgamma_terms :: "Tensor \<Rightarrow> int \<Rightarrow> ('r, Tensor) action"
  M_180_PI :: 'r
  M_PI_180 :: 'r
  backend :: "DeviceType \<Rightarrow> DeviceType \<Rightarrow> DeviceType"

section \<open>Errors as values\<close>

definition return_ok :: "'a \<Rightarrow> ('r, 'a) action" where
  "return_ok x st = (Inr x, st)"

definition throw :: "error \<Rightarrow> ('r, 'a) action" where
  "throw e st = (Inl e, st)"

definition and_then :: "('r, 'a) action \<Rightarrow> ('a \<Rightarrow> ('r, 'b) action) \<Rightarrow> ('r, 'b) action" where
  "and_then m f st = (case m st of (Inl e, st') \<Rightarrow> (Inl e, st') | (Inr x, st') \<Rightarrow> f x st')"

definition TORCH_CHECK :: "bool \<Rightarrow> error \<Rightarrow> ('r, unit) action" where
  "TORCH_CHECK c e st = (if c then (Inr (), st) else (Inl e, st))"

definition fails_with :: "error_kind \<Rightarrow> (error + 'a) \<times> 'r state \<Rightarrow> bool" where
  "fails_with k res = (case fst res of Inl e \<Rightarrow> fst e = k | Inr _ \<Rightarrow> False)"

section \<open>Dtypes\<close>

text \<open>
  Modelled from the spec: the dtype predicates and \<^verbatim>\<open>c10::toValueType\<close> live in c10,
  outside the file.  The spec's dtypes are "signed/unsigned integer widths, floating
  widths, boolean, complex-of-floating", and \<^verbatim>\<open>toValueType\<close> is "the real-valued
  counterpart of the input dtype".
\<close>

fun isComplexType :: "ScalarType \<Rightarrow> bool" where
  "isComplexType kComplexHalf = True"
| "isComplexType kComplexFloat = True"
| "isComplexType kComplexDouble = True"
| "isComplexType _ = False"

fun isFloatingType :: "ScalarType \<Rightarrow> bool" where
  "isFloatingType kHalf = True"
| "isFloatingType kFloat = True"
| "isFloatingType kDouble = True"
| "isFloatingType kBFloat16 = True"
| "isFloatingType _ = False"

fun toValueType :: "ScalarType \<Rightarrow> ScalarType" where
  "toValueType kComplexHalf = kHalf"
| "toValueType kComplexFloat = kFloat"
| "toValueType kComplexDouble = kDouble"
| "toValueType t = t"

section \<open>Tensors in the store\<close>

definition impl :: "'r state \<Rightarrow> Tensor \<Rightarrow> TensorImpl" where
  "impl st t = impls st ! t"

definition is_complex :: "'r state \<Rightarrow> Tensor \<Rightarrow> bool" where
  "is_complex st t = isComplexType (scalar_type (impl st t))"

definition options :: "'r state \<Rightarrow> Tensor \<Rightarrow> TensorOptions" where
  "options st t =
     \<lparr>opt_dtype = scalar_type (impl st t), opt_layout = layout (impl st t),
      opt_device = device (impl st t)\<rparr>"

definition numel :: "nat list \<Rightarrow> nat" where
  "numel sz = prod_list sz"

fun contiguous_strides :: "nat list \<Rightarrow> nat list" where
  "contiguous_strides [] = []"
| "contiguous_strides (n # ns) = prod_list ns # contiguous_strides ns"

text \<open>
  The element addresses of a view, in row-major order of the logical indices.  A view
  with fewer strides than sizes has no elements.
\<close>

fun addrs :: "nat list \<Rightarrow> nat list \<Rightarrow> nat \<Rightarrow> nat list" where
  "addrs [] ss off = [off]"
| "addrs (n # ns) [] off = []"
| "addrs (n # ns) (s # ss) off = concat (map (\<lambda>i. addrs ns ss (off + i * s)) [0..<n])"

definition addrs_of :: "TensorImpl \<Rightarrow> nat list" where
  "addrs_of im = addrs (sizes im) (strides im) (storage_offset im)"

definition cells_per :: "ScalarType \<Rightarrow> nat" where
  "cells_per d = (if isComplexType d then 2 else 1)"

definition load :: "ScalarType \<Rightarrow> 'r list \<Rightarrow> nat \<Rightarrow> 'r elem" where
  "load d cells a =
     (if isComplexType d then ComplexElem (cells ! (2 * a)) (cells ! (2 * a + 1))
      else RealElem (cells ! a))"

definition store_elem :: "ScalarType \<Rightarrow> 'r list \<Rightarrow> nat \<Rightarrow> 'r \<times> 'r \<Rightarrow> 'r list" where
  "store_elem d cells a v =
     (if isComplexType d then cells[2 * a := fst v, 2 * a + 1 := snd v]
      else cells[a := fst v])"

definition elem_of :: "ScalarType \<Rightarrow> 'r \<times> 'r \<Rightarrow> 'r elem" where
  "elem_of d v = (if isComplexType d then ComplexElem (fst v) (snd v) else RealElem (fst v))"

fun write_cells :: "ScalarType \<Rightarrow> nat list \<Rightarrow> ('r \<times> 'r) list \<Rightarrow> 'r list \<Rightarrow> 'r list" where
  "write_cells d (a # as) (v # vs) cells = write_cells d as vs (store_elem d cells a v)"
| "write_cells d _ _ cells = cells"

text \<open>Reading a tensor: its elements in logical order.\<close>

definition read_tensor :: "'r state \<Rightarrow> Tensor \<Rightarrow> 'r elem list" where
  "read_tensor st t =
     map (load (scalar_type (impl st t)) (storages st ! storage (impl st t)))
         (addrs_of (impl st t))"

text \<open>The cells that a view occupies.\<close>

definition cells_of :: "TensorImpl \<Rightarrow> nat list" where
  "cells_of im =
     concat (map (\<lambda>a. if isComplexType (scalar_type im) then [2 * a, 2 * a + 1] else [a])
                 (addrs_of im))"

definition elem_in_bounds :: "ScalarType \<Rightarrow> 'r list \<Rightarrow> nat \<Rightarrow> bool" where
  "elem_in_bounds d cells a =
     (if isComplexType d then 2 * a + 1 < length cells else a < length cells)"

text \<open>
  A reference denotes a tensor when it points into the store.  A tensor is well formed
  when, moreover, its storage exists, it has one stride per dimension, its elements lie
  inside the storage, and no two of its elements share an address (no internal overlap).
\<close>

definition is_tensor :: "'r state \<Rightarrow> Tensor \<Rightarrow> bool" where
  "is_tensor st t = (t < length (impls st))"

definition well_formed :: "'r state \<Rightarrow> Tensor \<Rightarrow> bool" where
  "well_formed st t =
     (t < length (impls st) \<and>
      storage (impl st t) < length (storages st) \<and>
      length (strides (impl st t)) = length (sizes (impl st t)) \<and>
      list_all (elem_in_bounds (scalar_type (impl st t)) (storages st ! storage (impl st t)))
        (addrs_of (impl st t)) \<and>
      distinct (addrs_of (impl st t)))"

section \<open>Allocation, resizing, copying\<close>

text \<open>
  Modelled from the spec: \<^verbatim>\<open>at::empty\<close> is the allocation interface
  "\<^verbatim>\<open>allocate(shape, dtype, device) -> Array View\<close> with zero-initialized or uninitialized
  storage".  The new tensor and its storage take the next free indices.
\<close>

definition at_empty :: "'r env \<Rightarrow> nat list \<Rightarrow> TensorOptions \<Rightarrow> ('r, Tensor) action" where
  "at_empty E sz opts st =
     (Inr (length (impls st)),
      st\<lparr>impls := impls st @
            [\<lparr>scalar_type = opt_dtype opts, layout = opt_layout opts,
              device = opt_device opts, sizes = sz, strides = contiguous_strides sz,
              storage_offset = 0, storage = length (storages st),
              is_wrapped_number = False\<rparr>],
         storages := storages st @
            [replicate (cells_per (opt_dtype opts) * numel sz) (uninit E)]\<rparr>)"

text \<open>
  Modelled from the spec: \<^verbatim>\<open>Tensor::resize_\<close> is step (3) of the complex-to-real
  policy, "resize the caller's output to the temporary's shape".  A tensor that already
  has the shape is left alone; otherwise it becomes contiguous and its storage grows
  when it is too short.
\<close>

definition resize_inplace :: "'r env \<Rightarrow> Tensor \<Rightarrow> nat list \<Rightarrow> ('r, Tensor) action" where
  "resize_inplace E t sz st =
     (let im = impl st t;
          cells = storages st ! storage im;
          need = cells_per (scalar_type im) * (storage_offset im + numel sz)
      in if sizes im = sz then (Inr t, st)
         else (Inr t,
               st\<lparr>impls := (impls st)[t := im\<lparr>sizes := sz, strides := contiguous_strides sz\<rparr>],
                  storages := (storages st)[storage im :=
                     cells @ replicate (need - length cells) (uninit E)]\<rparr>))"

text \<open>
  Modelled from the spec: "Broadcasting: shapes are right-aligned; two dimensions are
  compatible if equal or one is 1; incompatible shapes fail".  The broadcast of two
  shapes is computed on the reversed shapes, last dimension first; \<open>None\<close> stands for
  incompatible shapes.
\<close>

fun broadcast_rev :: "nat list \<Rightarrow> nat list \<Rightarrow> nat list option" where
  "broadcast_rev [] bs = Some bs"
| "broadcast_rev (a # as) [] = Some (a # as)"
| "broadcast_rev (a # as) (b # bs) =
     (if a = b \<or> a = 1 \<or> b = 1
      then map_option (\<lambda>cs. (if a = 1 then b else a) # cs) (broadcast_rev as bs)
      else None)"

definition broadcast_shapes :: "nat list \<Rightarrow> nat list \<Rightarrow> nat list option" where
  "broadcast_shapes A B = map_option rev (broadcast_rev (rev A) (rev B))"

text \<open>
  Modelled from the spec: in a plan of shape \<open>shape\<close>, "each input's effective stride is 0
  along any dimension where its own size was 1 and the broadcast size is >1"; a dimension
  that the input lacks is such a dimension.  Again last dimension first.
\<close>

fun expand_rev :: "nat list \<Rightarrow> nat list \<Rightarrow> nat list \<Rightarrow> nat list" where
  "expand_rev (n # ns) (s # ss) (b # bs) =
     (if n = 1 \<and> 1 < b then 0 else s) # expand_rev ns ss bs"
| "expand_rev ns ss (b # bs) = 0 # expand_rev [] [] bs"
| "expand_rev ns ss [] = []"

definition expand_strides :: "nat list \<Rightarrow> nat list \<Rightarrow> nat list \<Rightarrow> nat list" where
  "expand_strides sz ss shape = rev (expand_rev (rev sz) (rev ss) (rev shape))"

text \<open>The view of a tensor broadcast to \<open>shape\<close>, and its elements in logical order.\<close>

definition expanded :: "TensorImpl \<Rightarrow> nat list \<Rightarrow> TensorImpl" where
  "expanded im shape =
     im\<lparr>sizes := shape, strides := expand_strides (sizes im) (strides im) shape\<rparr>"

definition read_expanded :: "'r state \<Rightarrow> Tensor \<Rightarrow> nat list \<Rightarrow> 'r elem list" where
  "read_expanded st t shape =
     map (load (scalar_type (impl st t)) (storages st ! storage (impl st t)))
         (addrs_of (expanded (impl st t) shape))"

text \<open>
  Modelled from the spec: the kernel interface is "\<^verbatim>\<open>kernel(device_kind, plan,
  extra_args...) -> void\<close>, writing results into the plan's output view in place".
  The plan's shape is the shape of its output.  Every element of the input, broadcast to
  that shape, is read, the kernel is applied to it, and the results are written to the
  output's addresses in logical order.  The invocation is logged.
\<close>

definition run_kernel :: "kernel_id \<Rightarrow> 'r kernel \<Rightarrow> Tensor \<Rightarrow> Tensor \<Rightarrow> 'r state \<Rightarrow> 'r state" where
  "run_kernel kid k out inp st =
     (let o_im = impl st out;
          i_im = impl st inp;
          vals = map (k (scalar_type i_im) (scalar_type o_im))
                   (read_expanded st inp (sizes o_im))
      in st\<lparr>storages := (storages st)[storage o_im :=
                write_cells (scalar_type o_im) (addrs_of o_im) vals
                  (storages st ! storage o_im)],
            kernel_log := kernel_log st @ [kid]\<rparr>)"

text \<open>
  Modelled from the spec: \<^verbatim>\<open>Tensor::copy_\<close> is the cast/copy interface
  "\<^verbatim>\<open>copy_cast(dest_view, src_view)\<close>".  The file calls it on tensors of equal shape only;
  other shapes are rejected here.
\<close>

definition copy_inplace :: "'r env \<Rightarrow> Tensor \<Rightarrow> Tensor \<Rightarrow> ('r, Tensor) action" where
  "copy_inplace E dst src st =
     (if sizes (impl st dst) = sizes (impl st src)
      then (Inr dst, run_kernel CopyKernel (copy_cast E) dst src st)
      else (Inl (ShapeMismatch, ''copy_: shapes differ''), st))"

section \<open>The iteration plan builder and the dispatch table\<close>

record TensorIteratorConfig =
  check_all_same_dtype :: bool
  check_mem_overlap :: bool

text \<open>
  A plan names its output, its input and the target device.  Its logical shape is the
  shape that its output has once the plan is built, and the effective strides of its
  input are those of the input broadcast to that shape (\<open>expanded\<close>).
\<close>

record TensorIterator =
  iter_output :: Tensor
  iter_input :: Tensor
  device_type :: DeviceType

definition same_view :: "TensorImpl \<Rightarrow> TensorImpl \<Rightarrow> bool" where
  "same_view a b =
     (scalar_type a = scalar_type b \<and> sizes a = sizes b \<and> strides a = strides b \<and>
      storage_offset a = storage_offset b)"

text \<open>
  Modelled from the spec: the overlap that the builder refuses is "output storage and
  any input storage physically overlap in a way inconsistent with elementwise aliasing";
  "exact self-aliasing (output is literally the same view as the sole input) is always
  permitted".
\<close>

definition partial_overlap :: "'r state \<Rightarrow> Tensor \<Rightarrow> Tensor \<Rightarrow> bool" where
  "partial_overlap st out inp =
     (out \<noteq> inp \<and>
      storage (impl st out) = storage (impl st inp) \<and>
      \<not> same_view (impl st out) (impl st inp) \<and>
      list_ex (\<lambda>c. c \<in> set (cells_of (impl st inp))) (cells_of (impl st out)))"

text \<open>
  Modelled from the spec: \<^verbatim>\<open>TensorIteratorConfig().build()\<close> is the Iteration Plan
  Builder of section 4.1, for one output and one input.  It refuses an unsafe overlap
  when the check is requested, refuses an output whose dtype differs from the input's
  when all dtypes must be the same, and refuses an output on another device.  Then the
  shapes are reconciled.  The facade creates the outputs that it allocates as
  \<^verbatim>\<open>at::empty({0}, ...)\<close>: an output of shape \<open>[0]\<close> is the output that is still "absent",
  and "one is allocated with shape = broadcast of inputs", here the shape of the one
  input.  Any other output is a requested output of some shape \<open>B\<close>: "for all shapes \<open>A\<close>
  broadcastable to \<open>B\<close>, invoking an operation on an \<open>A\<close>-shaped input with a \<open>B\<close>-shaped
  requested output produces an output of shape \<open>B\<close>", so it keeps its shape when that is
  the broadcast of both shapes, and "incompatible shapes fail with a \<^verbatim>\<open>ShapeMismatch\<close>
  error".  The builder "performs no element computation".
\<close>

definition build ::
  "'r env \<Rightarrow> TensorIteratorConfig \<Rightarrow> Tensor \<Rightarrow> Tensor \<Rightarrow> ('r, TensorIterator) action" where
  "build E cfg out inp st =
     (if check_mem_overlap cfg \<and> partial_overlap st out inp
      then (Inl (UnsafeAliasing, ''unsupported operation: input and output overlap''), st)
      else if check_all_same_dtype cfg \<and>
              scalar_type (impl st out) \<noteq> scalar_type (impl st inp)
      then (Inl (IncompatibleOutput, ''output dtype differs from input dtype''), st)
      else if device (impl st out) \<noteq> device (impl st inp)
      then (Inl (IncompatibleOutput, ''output device differs from input device''), st)
      else if sizes (impl st out) = [0]
      then and_then (resize_inplace E out (sizes (impl st inp)))
             (\<lambda>_. return_ok \<lparr>iter_output = out, iter_input = inp,
                              device_type = device (impl st inp)\<rparr>) st
      else if broadcast_shapes (sizes (impl st inp)) (sizes (impl st out)) =
                Some (sizes (impl st out))
      then (Inr \<lparr>iter_output = out, iter_input = inp, device_type = device (impl st inp)\<rparr>, st)
      else (Inl (ShapeMismatch, ''shapes cannot be broadcast to the shape of the output''),
            st))"

text \<open>
  Modelled from the spec: \<^verbatim>\<open>TensorIterator::unary_op(result, self, check_mem_overlap)\<close>
  is outside the file.  It is the builder under the Direct strategy, "output dtype equals
  input dtype": every dtype is required to be the same (\<^verbatim>\<open>logical_not_out\<close> below
  switches that off by hand).
\<close>

definition TensorIterator_unary_op ::
  "'r env \<Rightarrow> Tensor \<Rightarrow> Tensor \<Rightarrow> bool \<Rightarrow> ('r, TensorIterator) action" where
  "TensorIterator_unary_op E out a cmo =
     build E \<lparr>check_all_same_dtype = True, check_mem_overlap = cmo\<rparr> out a"

text \<open>
  Modelled from the spec: calling a stub, \<^verbatim>\<open>stub(iter.device_type(), iter, args...)\<close>, is
  the Dispatch Table lookup of section 4.2 followed by the kernel.  The lookup "fails with
  \<^verbatim>\<open>UnsupportedDevice\<close> when no kernel is registered for that device kind".
\<close>

definition call_stub ::
  "'r env \<Rightarrow> stub_id \<Rightarrow> 'r stub_args \<Rightarrow> TensorIterator \<Rightarrow> ('r, unit) action" where
  "call_stub E s args iter st =
     (case stubs E s (device_type iter) of
        None \<Rightarrow> (Inl (UnsupportedDevice, ''no kernel registered for this device''), st)
      | Some k \<Rightarrow>
          (Inr (), run_kernel (StubKernel s (device_type iter)) (k args)
                     (iter_output iter) (iter_input iter) st))"

section \<open>The helper templates (lines 40--104)\<close>

text \<open>
  The \<^verbatim>\<open>at::\<close> entry points of the operations of this file are taken to reach the native
  functions of this file.
\<close>

definition unary_op_impl_out :: "'r env \<Rightarrow> Tensor \<Rightarrow> Tensor \<Rightarrow> stub_id \<Rightarrow> ('r, Tensor) action" where
  "unary_op_impl_out E result self stub =
     and_then (TensorIterator_unary_op E result self True) (\<lambda>iter.
     and_then (call_stub E stub NoArgs iter) (\<lambda>_.
     return_ok result))"

definition unary_op_impl_with_complex_to_float_out ::
  "'r env \<Rightarrow> Tensor \<Rightarrow> Tensor \<Rightarrow> stub_id \<Rightarrow> ('r, Tensor) action" where
  "unary_op_impl_with_complex_to_float_out E result self stub st =
     (if is_complex st self \<and> \<not> is_complex st result then
        (let float_type = toValueType (scalar_type (impl st self)) in
         and_then (TORCH_CHECK (canCast E float_type (scalar_type (impl st result)))
                     (InvalidCast, ''result type can't be cast to the desired output type''))
           (\<lambda>_.
         and_then (at_empty E [0] (options st self)) (\<lambda>complex_result.
         and_then (TensorIterator_unary_op E complex_result self True) (\<lambda>iter.
         and_then (call_stub E stub NoArgs iter) (\<lambda>_.
         and_then (\<lambda>s. resize_inplace E result (sizes (impl s complex_result)) s) (\<lambda>_.
         and_then (copy_inplace E result complex_result) (\<lambda>_.
         return_ok result)))))) st)
      else unary_op_impl_out E result self stub st)"

definition unary_op_impl ::
  "'r env \<Rightarrow> Tensor \<Rightarrow> (Tensor \<Rightarrow> Tensor \<Rightarrow> ('r, Tensor) action) \<Rightarrow> ('r, Tensor) action" where
  "unary_op_impl E self out_impl st =
     and_then (at_empty E [0] (options st self)) (\<lambda>result. out_impl result self) st"

definition unary_op_impl_with_complex_to_float ::
  "'r env \<Rightarrow> Tensor \<Rightarrow> (Tensor \<Rightarrow> Tensor \<Rightarrow> ('r, Tensor) action) \<Rightarrow> ('r, Tensor) action" where
  "unary_op_impl_with_complex_to_float E self out_impl st =
     (if is_complex st self then
        (let float_type = toValueType (scalar_type (impl st self)) in
         and_then (at_empty E [0] ((options st self)\<lparr>opt_dtype := float_type\<rparr>))
           (\<lambda>result. out_impl result self) st)
      else and_then (at_empty E [0] (options st self)) (\<lambda>result. out_impl result self) st)"

definition unary_op_impl_inplace ::
  "Tensor \<Rightarrow> (Tensor \<Rightarrow> Tensor \<Rightarrow> ('r, Tensor) action) \<Rightarrow> ('r, Tensor) action" where
  "unary_op_impl_inplace self out_impl = out_impl self self"

section \<open>The operations\<close>

subsection \<open>The operations that only name their stub\<close>

text \<open>
  Lines 106--108, 133--139, 179--184, 196--214, 226--292 and 297--307: each operation is
  \<^verbatim>\<open>unary_op_impl_out\<close> with its stub, and its other forms are derived by the templates.
  \<open>conj\<close> has no in-place form.
\<close>

definition acos_out :: "'r env \<Rightarrow> Tensor \<Rightarrow> Tensor \<Rightarrow> ('r, Tensor) action" where
  "acos_out E result self = unary_op_impl_out E result self acos_stub"

definition acos :: "'r env \<Rightarrow> Tensor \<Rightarrow> ('r, Tensor) action" where
  "acos E self = unary_op_impl E self (acos_out E)"

definition acos_inplace :: "'r env \<Rightarrow> Tensor \<Rightarrow> ('r, Tensor) action" where
  "acos_inplace E self = unary_op_impl_inplace self (acos_out E)"

definition asin_out :: "'r env \<Rightarrow> Tensor \<Rightarrow> Tensor \<Rightarrow> ('r, Tensor) action" where
  "asin_out E result self = unary_op_impl_out E result self asin_stub"

definition asin :: "'r env \<Rightarrow> Tensor \<Rightarrow> ('r, Tensor) action" where
  "asin E self = unary_op_impl E self (asin_out E)"

definition asin_inplace :: "'r env \<Rightarrow> Tensor \<Rightarrow> ('r, Tensor) action" where
  "asin_inplace E self = unary_op_impl_inplace self (asin_out E)"

definition atan_out :: "'r env \<Rightarrow> Tensor \<Rightarrow> Tensor \<Rightarrow> ('r, Tensor) action" where
  "atan_out E result self = unary_op_impl_out E result self atan_stub"

definition atan :: "'r env \<Rightarrow> Tensor \<Rightarrow> ('r, Tensor) action" where
  "atan E self = unary_op_impl E self (atan_out E)"

definition atan_inplace :: "'r env \<Rightarrow> Tensor \<Rightarrow> ('r, Tensor) action" where
  "atan_inplace E self = unary_op_impl_inplace self (atan_out E)"



definition bitwise_not_out :: "'r env \<Rightarrow> Tensor \<Rightarrow> Tensor \<Rightarrow> ('r, Tensor) action" where
  "bitwise_not_out E result self = unary_op_impl_out E result self bitwise_not_stub"

definition bitwise_not :: "'r env \<Rightarrow> Tensor \<Rightarrow> ('r, Tensor) action" where
  "bitwise_not E self = unary_op_impl E self (bitwise_not_out E)"

definition bitwise_not_inplace :: "'r env \<Rightarrow> Tensor \<Rightarrow> ('r, Tensor) action" where
  "bitwise_not_inplace E self = unary_op_impl_inplace self (bitwise_not_out E)"

definition exp_out :: "'r env \<Rightarrow> Tensor \<Rightarrow> Tensor \<Rightarrow> ('r, Tensor) action" where
  "exp_out E result self = unary_op_impl_out E result self exp_stub"

definition exp :: "'r env \<Rightarrow> Tensor \<Rightarrow> ('r, Tensor) action" where
  "exp E self = unary_op_impl E self (exp_out E)"

definition exp_inplace :: "'r env \<Rightarrow> Tensor \<Rightarrow> ('r, Tensor) action" where
  "exp_inplace E self = unary_op_impl_inplace self (exp_out E)"

definition expm1_out :: "'r env \<Rightarrow> Tensor \<Rightarrow> Tensor \<Rightarrow> ('r, Tensor) action" where
  "expm1_out E result self = unary_op_impl_out E result self expm1_stub"

definition expm1 :: "'r env \<Rightarrow> Tensor \<Rightarrow> ('r, Tensor) action" where
  "expm1 E self = unary_op_impl E self (expm1_out E)"

definition expm1_inplace :: "'r env \<Rightarrow> Tensor \<Rightarrow> ('r, Tensor) action" where
  "expm1_inplace E self = unary_op_impl_inplace self (expm1_out E)"

definition erf_out :: "'r env \<Rightarrow> Tensor \<Rightarrow> Tensor \<Rightarrow> ('r, Tensor) action" where
  "erf_out E result self = unary_op_impl_out E result self erf_stub"

definition erf :: "'r env \<Rightarrow> Tensor \<Rightarrow> ('r, Tensor) action" where
  "erf E self = unary_op_impl E self (erf_out E)"

definition erf_inplace :: "'r env \<Rightarrow> Tensor \<Rightarrow> ('r, Tensor) action" where
  "erf_inplace E self = unary_op_impl_inplace self (erf_out E)"

definition erfc_out :: "'r env \<Rightarrow> Tensor \<Rightarrow> Tensor \<Rightarrow> ('r, Tensor) action" where
  "erfc_out E result self = unary_op_impl_out E result self erfc_stub"

definition erfc :: "'r env \<Rightarrow> Tensor \<Rightarrow> ('r, Tensor) action" where
  "erfc E self = unary_op_impl E self (erfc_out E)"

definition erfc_inplace :: "'r env \<Rightarrow> Tensor \<Rightarrow> ('r, Tensor) action" where
  "erfc_inplace E self = unary_op_impl_inplace self (erfc_out E)"

definition frac_out :: "'r env \<Rightarrow> Tensor \<Rightarrow> Tensor \<Rightarrow> ('r, Tensor) action" where
  "frac_out E result self = unary_op_impl_out E result self frac_stub"

definition frac :: "'r env \<Rightarrow> Tensor \<Rightarrow> ('r, Tensor) action" where
  "frac E self = unary_op_impl E self (frac_out E)"

definition frac_inplace :: "'r env \<Rightarrow> Tensor \<Rightarrow> ('r, Tensor) action" where
  "frac_inplace E self = unary_op_impl_inplace self (frac_out E)"

definition log_out :: "'r env \<Rightarrow> Tensor \<Rightarrow> Tensor \<Rightarrow> ('r, Tensor) action" where
  "log_out E result self = unary_op_impl_out E result self log_stub"

definition log :: "'r env \<Rightarrow> Tensor \<Rightarrow> ('r, Tensor) action" where
  "log E self = unary_op_impl E self (log_out E)"

definition log_inplace :: "'r env \<Rightarrow> Tensor \<Rightarrow> ('r, Tensor) action" where
  "log_inplace E self = unary_op_impl_inplace self (log_out E)"

definition log10_out :: "'r env \<Rightarrow> Tensor \<Rightarrow> Tensor \<Rightarrow> ('r, Tensor) action" where
  "log10_out E result self = unary_op_impl_out E result self log10_stub"

definition log10 :: "'r env \<Rightarrow> Tensor \<Rightarrow> ('r, Tensor) action" where
  "log10 E self = unary_op_impl E self (log10_out E)"

definition log10_inplace :: "'r env \<Rightarrow> Tensor \<Rightarrow> ('r, Tensor) action" where
  "log10_inplace E self = unary_op_impl_inplace self (log10_out E)"

definition log1p_out :: "'r env \<Rightarrow> Tensor \<Rightarrow> Tensor \<Rightarrow> ('r, Tensor) action" where
  "log1p_out E result self = unary_op_impl_out E result self log1p_stub"

definition log1p :: "'r env \<Rightarrow> Tensor \<Rightarrow> ('r, Tensor) action" where
  "log1p E self = unary_op_impl E self (log1p_out E)"

definition log1p_inplace :: "'r env \<Rightarrow> Tensor \<Rightarrow> ('r, Tensor) action" where
  "log1p_inplace E self = unary_op_impl_inplace self (log1p_out E)"

definition log2_out :: "'r env \<Rightarrow> Tensor \<Rightarrow> Tensor \<Rightarrow> ('r, Tensor) action" where
  "log2_out E result self = unary_op_impl_out E result self log2_stub"

definition log2 :: "'r env \<Rightarrow> Tensor \<Rightarrow> ('r, Tensor) action" where
  "log2 E self = unary_op_impl E self (log2_out E)"

definition log2_inplace :: "'r env \<Rightarrow> Tensor \<Rightarrow> ('r, Tensor) action" where
  "log2_inplace E self = unary_op_impl_inplace self (log2_out E)"

definition round_out :: "'r env \<Rightarrow> Tensor \<Rightarrow> Tensor \<Rightarrow> ('r, Tensor) action" where
  "round_out E result self = unary_op_impl_out E result self round_stub"

definition round :: "'r env \<Rightarrow> Tensor \<Rightarrow> ('r, Tensor) action" where
  "round E self = unary_op_impl E self (round_out E)"

definition round_inplace :: "'r env \<Rightarrow> Tensor \<Rightarrow> ('r, Tensor) action" where
  "round_inplace E self = unary_op_impl_inplace self (round_out E)"

definition digamma_out :: "'r env \<Rightarrow> Tensor \<Rightarrow> Tensor \<Rightarrow> ('r, Tensor) action" where
  "digamma_out E result self = unary_op_impl_out E result self digamma_stub"

definition digamma :: "'r env \<Rightarrow> Tensor \<Rightarrow> ('r, Tensor) action" where
  "digamma E self = unary_op_impl E self (digamma_out E)"

definition digamma_inplace :: "'r env \<Rightarrow> Tensor \<Rightarrow> ('r, Tensor) action" where
  "digamma_inplace E self = unary_op_impl_inplace self (digamma_out E)"

definition reciprocal_out :: "'r env \<Rightarrow> Tensor \<Rightarrow> Tensor \<Rightarrow> ('r, Tensor) action" where
  "reciprocal_out E result self = unary_op_impl_out E result self reciprocal_stub"

definition reciprocal :: "'r env \<Rightarrow> Tensor \<Rightarrow> ('r, Tensor) action" where
  "reciprocal E self = unary_op_impl E self (reciprocal_out E)"

definition reciprocal_inplace :: "'r env \<Rightarrow> Tensor \<Rightarrow> ('r, Tensor) action" where
  "reciprocal_inplace E self = unary_op_impl_inplace self (reciprocal_out E)"

definition rsqrt_out :: "'r env \<Rightarrow> Tensor \<Rightarrow> Tensor \<Rightarrow> ('r, Tensor) action" where
  "rsqrt_out E result self = unary_op_impl_out E result self rsqrt_stub"

definition rsqrt :: "'r env \<Rightarrow> Tensor \<Rightarrow> ('r, Tensor) action" where
  "rsqrt E self = unary_op_impl E self (rsqrt_out E)"

definition rsqrt_inplace :: "'r env \<Rightarrow> Tensor \<Rightarrow> ('r, Tensor) action" where
  "rsqrt_inplace E self = unary_op_impl_inplace self (rsqrt_out E)"

definition sign_out :: "'r env \<Rightarrow> Tensor \<Rightarrow> Tensor \<Rightarrow> ('r, Tensor) action" where
  "sign_out E result self = unary_op_impl_out E result self sign_stub"

definition sign :: "'r env \<Rightarrow> Tensor \<Rightarrow> ('r, Tensor) action" where
  "sign E self = unary_op_impl E self (sign_out E)"

definition sign_inplace :: "'r env \<Rightarrow> Tensor \<Rightarrow> ('r, Tensor) action" where
  "sign_inplace E self = unary_op_impl_inplace self (sign_out E)"

definition sin_out :: "'r env \<Rightarrow> Tensor \<Rightarrow> Tensor \<Rightarrow> ('r, Tensor) action" where
  "sin_out E result self = unary_op_impl_out E result self sin_stub"

definition sin :: "'r env \<Rightarrow> Tensor \<Rightarrow> ('r, Tensor) action" where
  "sin E self = unary_op_impl E self (sin_out E)"

definition sin_inplace :: "'r env \<Rightarrow> Tensor \<Rightarrow> ('r, Tensor) action" where
  "sin_inplace E self = unary_op_impl_inplace self (sin_out E)"

definition cos_out :: "'r env \<Rightarrow> Tensor \<Rightarrow> Tensor \<Rightarrow> ('r, Tensor) action" where
  "cos_out E result self = unary_op_impl_out E result self cos_stub"

definition cos :: "'r env \<Rightarrow> Tensor \<Rightarrow> ('r, Tensor) action" where
  "cos E self = unary_op_impl E self (cos_out E)"

definition cos_inplace :: "'r env \<Rightarrow> Tensor \<Rightarrow> ('r, Tensor) action" where
  "cos_inplace E self = unary_op_impl_inplace self (cos_out E)"

definition sinh_out :: "'r env \<Rightarrow> Tensor \<Rightarrow> Tensor \<Rightarrow> ('r, Tensor) action" where
  "sinh_out E result self = unary_op_impl_out E result self sinh_stub"

definition sinh :: "'r env \<Rightarrow> Tensor \<Rightarrow> ('r, Tensor) action" where
  "sinh E self = unary_op_impl E self (sinh_out E)"

definition sinh_inplace :: "'r env \<Rightarrow> Tensor \<Rightarrow> ('r, Tensor) action" where
  "sinh_inplace E self = unary_op_impl_inplace self (sinh_out E)"

definition cosh_out :: "'r env \<Rightarrow> Tensor \<Rightarrow> Tensor \<Rightarrow> ('r, Tensor) action" where
  "cosh_out E result self = unary_op_impl_out E result self cosh_stub"

definition cosh :: "'r env \<Rightarrow> Tensor \<Rightarrow> ('r, Tensor) action" where
  "cosh E self = unary_op_impl E self (cosh_out E)"

definition cosh_inplace :: "'r env \<Rightarrow> Tensor \<Rightarrow> ('r, Tensor) action" where
  "cosh_inplace E self = unary_op_impl_inplace self (cosh_out E)"

definition acosh_out :: "'r env \<Rightarrow> Tensor \<Rightarrow> Tensor \<Rightarrow> ('r, Tensor) action" where
  "acosh_out E result self = unary_op_impl_out E result self acosh_stub"

definition acosh :: "'r env \<Rightarrow> Tensor \<Rightarrow> ('r, Tensor) action" where
  "acosh E self = unary_op_impl E self (acosh_out E)"

definition acosh_inplace :: "'r env \<Rightarrow> Tensor \<Rightarrow> ('r, Tensor) action" where
  "acosh_inplace E self = unary_op_impl_inplace self (acosh_out E)"

definition asinh_out :: "'r env \<Rightarrow> Tensor \<Rightarrow> Tensor \<Rightarrow> ('r, Tensor) action" where
  "asinh_out E result self = unary_op_impl_out E result self asinh_stub"

definition asinh :: "'r env \<Rightarrow> Tensor \<Rightarrow> ('r, Tensor) action" where
  "asinh E self = unary_op_impl E self (asinh_out E)"

definition asinh_inplace :: "'r env \<Rightarrow> Tensor \<Rightarrow> ('r, Tensor) action" where
  "asinh_inplace E self = unary_op_impl_inplace self (asinh_out E)"

definition atanh_out :: "'r env \<Rightarrow> Tensor \<Rightarrow> Tensor \<Rightarrow> ('r, Tensor) action" where
  "atanh_out E result self = unary_op_impl_out E result self atanh_stub"

definition atanh :: "'r env \<Rightarrow> Tensor \<Rightarrow> ('r, Tensor) action" where
  "atanh E self = unary_op_impl E self (atanh_out E)"

definition atanh_inplace :: "'r env \<Rightarrow> Tensor \<Rightarrow> ('r, Tensor) action" where
  "atanh_inplace E self = unary_op_impl_inplace self (atanh_out E)"

definition sqrt_out :: "'r env \<Rightarrow> Tensor \<Rightarrow> Tensor \<Rightarrow> ('r, Tensor) action" where
  "sqrt_out E result self = unary_op_impl_out E result self sqrt_stub"

definition sqrt :: "'r env \<Rightarrow> Tensor \<Rightarrow> ('r, Tensor) action" where
  "sqrt E self = unary_op_impl E self (sqrt_out E)"

definition sqrt_inplace :: "'r env \<Rightarrow> Tensor \<Rightarrow> ('r, Tensor) action" where
  "sqrt_inplace E self = unary_op_impl_inplace self (sqrt_out E)"

definition sigmoid_out :: "'r env \<Rightarrow> Tensor \<Rightarrow> Tensor \<Rightarrow> ('r, Tensor) action" where
  "sigmoid_out E result self = unary_op_impl_out E result self sigmoid_stub"

definition sigmoid :: "'r env \<Rightarrow> Tensor \<Rightarrow> ('r, Tensor) action" where
  "sigmoid E self = unary_op_impl E self (sigmoid_out E)"

definition sigmoid_inplace :: "'r env \<Rightarrow> Tensor \<Rightarrow> ('r, Tensor) action" where
  "sigmoid_inplace E self = unary_op_impl_inplace self (sigmoid_out E)"

definition tanh_out :: "'r env \<Rightarrow> Tensor \<Rightarrow> Tensor \<Rightarrow> ('r, Tensor) action" where
  "tanh_out E result self = unary_op_impl_out E result self tanh_stub"

definition tanh :: "'r env \<Rightarrow> Tensor \<Rightarrow> ('r, Tensor) action" where
  "tanh E self = unary_op_impl E self (tanh_out E)"

definition tanh_inplace :: "'r env \<Rightarrow> Tensor \<Rightarrow> ('r, Tensor) action" where
  "tanh_inplace E self = unary_op_impl_inplace self (tanh_out E)"

definition tan_out :: "'r env \<Rightarrow> Tensor \<Rightarrow> Tensor \<Rightarrow> ('r, Tensor) action" where
  "tan_out E result self = unary_op_impl_out E result self tan_stub"

definition tan :: "'r env \<Rightarrow> Tensor \<Rightarrow> ('r, Tensor) action" where
  "tan E self = unary_op_impl E self (tan_out E)"

definition tan_inplace :: "'r env \<Rightarrow> Tensor \<Rightarrow> ('r, Tensor) action" where
  "tan_inplace E self = unary_op_impl_inplace self (tan_out E)"

subsection \<open>rad2deg and deg2rad (lines 110--131)\<close>

text \<open>
  Modelled from the spec: \<^verbatim>\<open>scalar_to_tensor\<close> is outside the file.  A scalar is "a
  zero-dimensional operand (e.g., a clamp bound or multiplier), convertible to a zero-dim
  Array View": a new zero-dimensional tensor on a new storage of one cell.  The constants
  of the file are doubles.
\<close>

definition scalar_to_tensor :: "'r \<Rightarrow> ('r, Tensor) action" where
  "scalar_to_tensor scalar st =
     (Inr (length (impls st)),
      st\<lparr>impls := impls st @
            [\<lparr>scalar_type = kDouble, layout = Strided, device = CPU, sizes = [],
              strides = [], storage_offset = 0, storage = length (storages st),
              is_wrapped_number = False\<rparr>],
         storages := storages st @ [[scalar]]\<rparr>)"

text \<open>
  Modelled from the spec: \<^verbatim>\<open>set_wrapped_number\<close> (TensorImpl) is outside the file, and the
  spec has no word on it beyond "convertible to a zero-dim Array View"; it sets the mark of
  the tensor and changes nothing else.
\<close>

definition set_wrapped_number :: "Tensor \<Rightarrow> bool \<Rightarrow> ('r, unit) action" where
  "set_wrapped_number t b st =
     (Inr (), st\<lparr>impls := (impls st)[t := (impl st t)\<lparr>is_wrapped_number := b\<rparr>]\<rparr>)"

definition wrapped_scalar_tensor :: "'r \<Rightarrow> ('r, Tensor) action" where
  "wrapped_scalar_tensor scalar =
     and_then (scalar_to_tensor scalar) (\<lambda>tensor.
     and_then (set_wrapped_number tensor True) (\<lambda>_.
     return_ok tensor))"

text \<open>
  Modelled from the spec: \<^verbatim>\<open>at::mul_out\<close> is outside the file, which calls it with a
  zero-dimensional multiplier only.  It follows the control flow of section 2, "facade asks
  the Iteration Plan Builder to construct the output and compute the execution plan, looks
  up the per-device kernel in the Dispatch Table using the plan's device, kernel is invoked
  with the plan", the multiplier being one of the "operation-specific scalar extra
  arguments" of the kernel interface.  The multiplier is the element of \<open>other\<close>; the
  broadcast of the shape of \<open>self\<close> and the empty shape is the shape of \<open>self\<close>.
\<close>

definition at_mul_out :: "'r env \<Rightarrow> Tensor \<Rightarrow> Tensor \<Rightarrow> Tensor \<Rightarrow> ('r, Tensor) action" where
  "at_mul_out E result self other st =
     (let c = storages st ! storage (impl st other) ! storage_offset (impl st other) in
      and_then (TensorIterator_unary_op E result self True) (\<lambda>iter.
      and_then (call_stub E mul_stub (ScalarArg c) iter) (\<lambda>_.
      return_ok result)) st)"

definition rad2deg_out :: "'r env \<Rightarrow> Tensor \<Rightarrow> Tensor \<Rightarrow> ('r, Tensor) action" where
  "rad2deg_out E result self st =
     and_then (TORCH_CHECK (\<not> is_complex st self)
                 (UnsupportedDtype, ''rad2deg is not supported for complex tensors.''))
       (\<lambda>_.
     and_then (wrapped_scalar_tensor (M_180_PI E)) (\<lambda>other.
     at_mul_out E result self other)) st"

definition rad2deg :: "'r env \<Rightarrow> Tensor \<Rightarrow> ('r, Tensor) action" where
  "rad2deg E self = unary_op_impl E self (rad2deg_out E)"

definition rad2deg_inplace :: "'r env \<Rightarrow> Tensor \<Rightarrow> ('r, Tensor) action" where
  "rad2deg_inplace E self = unary_op_impl_inplace self (rad2deg_out E)"

definition deg2rad_out :: "'r env \<Rightarrow> Tensor \<Rightarrow> Tensor \<Rightarrow> ('r, Tensor) action" where
  "deg2rad_out E result self st =
     and_then (TORCH_CHECK (\<not> is_complex st self)
                 (UnsupportedDtype, ''deg2rad is not supported for complex tensors.''))
       (\<lambda>_.
     and_then (wrapped_scalar_tensor (M_PI_180 E)) (\<lambda>other.
     at_mul_out E result self other)) st"

definition deg2rad :: "'r env \<Rightarrow> Tensor \<Rightarrow> ('r, Tensor) action" where
  "deg2rad E self = unary_op_impl E self (deg2rad_out E)"

definition deg2rad_inplace :: "'r env \<Rightarrow> Tensor \<Rightarrow> ('r, Tensor) action" where
  "deg2rad_inplace E self = unary_op_impl_inplace self (deg2rad_out E)"

subsection \<open>abs and angle (lines 146--159)\<close>

definition abs_out :: "'r env \<Rightarrow> Tensor \<Rightarrow> Tensor \<Rightarrow> ('r, Tensor) action" where
  "abs_out E result self = unary_op_impl_with_complex_to_float_out E result self abs_stub"

definition abs_op :: "'r env \<Rightarrow> Tensor \<Rightarrow> ('r, Tensor) action" where
  "abs_op E self = unary_op_impl_with_complex_to_float E self (abs_out E)"

definition abs_inplace :: "'r env \<Rightarrow> Tensor \<Rightarrow> ('r, Tensor) action" where
  "abs_inplace E self = unary_op_impl_inplace self (abs_out E)"

definition angle_out :: "'r env \<Rightarrow> Tensor \<Rightarrow> Tensor \<Rightarrow> ('r, Tensor) action" where
  "angle_out E result self = unary_op_impl_with_complex_to_float_out E result self angle_stub"

definition angle :: "'r env \<Rightarrow> Tensor \<Rightarrow> ('r, Tensor) action" where
  "angle E self = unary_op_impl_with_complex_to_float E self (angle_out E)"

subsection \<open>real and imag (lines 161--177)\<close>

text \<open>
  Modelled from the spec: \<^verbatim>\<open>view_complex_as_float\<close> (ComplexHelper.h) and \<^verbatim>\<open>at::select\<close>
  are outside the file.  The first is "a zero-copy reinterpretation of a complex array's
  last dimension as a 2-element real trailing dimension": a new view of the same storage,
  with the real-valued counterpart dtype.  The second is "selecting index 0 or 1" along a
  dimension: a new view of the same storage without that dimension.
\<close>

definition view_complex_as_float :: "Tensor \<Rightarrow> ('r, Tensor) action" where
  "view_complex_as_float self st =
     (let im = impl st self in
      (Inr (length (impls st)),
       st\<lparr>impls := impls st @
            [im\<lparr>scalar_type := toValueType (scalar_type im),
                sizes := sizes im @ [2],
                strides := map (\<lambda>s. 2 * s) (strides im) @ [1],
                storage_offset := 2 * storage_offset im\<rparr>]\<rparr>))"

definition select :: "Tensor \<Rightarrow> nat \<Rightarrow> nat \<Rightarrow> ('r, Tensor) action" where
  "select self d index st =
     (let im = impl st self in
      if d < length (sizes im) \<and> d < length (strides im) \<and> index < sizes im ! d then
        (Inr (length (impls st)),
         st\<lparr>impls := impls st @
              [im\<lparr>sizes := take d (sizes im) @ drop (Suc d) (sizes im),
                  strides := take d (strides im) @ drop (Suc d) (strides im),
                  storage_offset := storage_offset im + index * (strides im ! d)\<rparr>]\<rparr>)
      else (Inl (InvalidArgument, ''select(): index out of range''), st))"

definition dim :: "'r state \<Rightarrow> Tensor \<Rightarrow> nat" where
  "dim st t = length (sizes (impl st t))"

definition real :: "Tensor \<Rightarrow> ('r, Tensor) action" where
  "real self st =
     (if is_complex st self then
        and_then (view_complex_as_float self)
          (\<lambda>float_tensor s. select float_tensor (dim s float_tensor - 1) 0 s) st
      else (Inl (UnsupportedDtype,
                 ''real is not implemented for tensors with non-complex dtypes.''), st))"

definition imag :: "Tensor \<Rightarrow> ('r, Tensor) action" where
  "imag self st =
     (if is_complex st self then
        and_then (view_complex_as_float self)
          (\<lambda>float_tensor s. select float_tensor (dim s float_tensor - 1) 1 s) st
      else (Inl (UnsupportedDtype,
                 ''imag is not implemented for tensors with non-complex dtypes.''), st))"

subsection \<open>ceil, floor, trunc, neg (lines 186--194, 216--224, 309--326)\<close>

definition ceil_out :: "'r env \<Rightarrow> Tensor \<Rightarrow> Tensor \<Rightarrow> ('r, Tensor) action" where
  "ceil_out E result self st =
     and_then (TORCH_CHECK (\<not> is_complex st self)
                 (UnsupportedDtype, ''ceil is not supported for complex inputs''))
       (\<lambda>_. unary_op_impl_out E result self ceil_stub) st"

definition ceil :: "'r env \<Rightarrow> Tensor \<Rightarrow> ('r, Tensor) action" where
  "ceil E self = unary_op_impl E self (ceil_out E)"

definition ceil_inplace :: "'r env \<Rightarrow> Tensor \<Rightarrow> ('r, Tensor) action" where
  "ceil_inplace E self = unary_op_impl_inplace self (ceil_out E)"

definition floor_out :: "'r env \<Rightarrow> Tensor \<Rightarrow> Tensor \<Rightarrow> ('r, Tensor) action" where
  "floor_out E result self st =
     and_then (TORCH_CHECK (\<not> is_complex st self)
                 (UnsupportedDtype, ''floor is not supported for complex inputs''))
       (\<lambda>_. unary_op_impl_out E result self floor_stub) st"

definition floor :: "'r env \<Rightarrow> Tensor \<Rightarrow> ('r, Tensor) action" where
  "floor E self = unary_op_impl E self (floor_out E)"

definition floor_inplace :: "'r env \<Rightarrow> Tensor \<Rightarrow> ('r, Tensor) action" where
  "floor_inplace E self = unary_op_impl_inplace self (floor_out E)"

definition trunc_out :: "'r env \<Rightarrow> Tensor \<Rightarrow> Tensor \<Rightarrow> ('r, Tensor) action" where
  "trunc_out E result self st =
     and_then (TORCH_CHECK (\<not> is_complex st self)
                 (UnsupportedDtype, ''trunc is not supported for complex inputs''))
       (\<lambda>_. unary_op_impl_out E result self trunc_stub) st"

definition trunc :: "'r env \<Rightarrow> Tensor \<Rightarrow> ('r, Tensor) action" where
  "trunc E self = unary_op_impl E self (trunc_out E)"

definition trunc_inplace :: "'r env \<Rightarrow> Tensor \<Rightarrow> ('r, Tensor) action" where
  "trunc_inplace E self = unary_op_impl_inplace self (trunc_out E)"

definition neg_out :: "'r env \<Rightarrow> Tensor \<Rightarrow> Tensor \<Rightarrow> ('r, Tensor) action" where
  "neg_out E result self st =
     and_then (TORCH_CHECK (scalar_type (impl st self) \<noteq> kBool)
                 (UnsupportedDtype, ''Negation, the `-` operator, on a bool tensor is not supported.''))
       (\<lambda>_. unary_op_impl_out E result self neg_stub) st"

definition neg :: "'r env \<Rightarrow> Tensor \<Rightarrow> ('r, Tensor) action" where
  "neg E self = unary_op_impl E self (neg_out E)"

definition neg_inplace :: "'r env \<Rightarrow> Tensor \<Rightarrow> ('r, Tensor) action" where
  "neg_inplace E self = unary_op_impl_inplace self (neg_out E)"

subsection \<open>square (lines 294--295)\<close>

definition square :: "'r env \<Rightarrow> Tensor \<Rightarrow> ('r, Tensor) action" where
  "square E self = at_pow E self 2"

definition square_inplace :: "'r env \<Rightarrow> Tensor \<Rightarrow> ('r, Tensor) action" where
  "square_inplace E self = at_pow_out E self self 2"

subsection \<open>logical_not (lines 328--346)\<close>

definition logical_not_out :: "'r env \<Rightarrow> Tensor \<Rightarrow> Tensor \<Rightarrow> ('r, Tensor) action" where
  "logical_not_out E result self =
     and_then (build E \<lparr>check_all_same_dtype = False, check_mem_overlap = True\<rparr> result self)
       (\<lambda>iter.
     and_then (call_stub E logical_not_stub NoArgs iter) (\<lambda>_.
     return_ok result))"

definition logical_not :: "'r env \<Rightarrow> Tensor \<Rightarrow> ('r, Tensor) action" where
  "logical_not E self st =
     and_then (at_empty E [0] ((options st self)\<lparr>opt_dtype := kBool\<rparr>))
       (\<lambda>result. logical_not_out E result self) st"

definition logical_not_inplace :: "'r env \<Rightarrow> Tensor \<Rightarrow> ('r, Tensor) action" where
  "logical_not_inplace E self = logical_not_out E self self"

subsection \<open>clamp (lines 348--411)\<close>

definition clamp_max_out :: "'r env \<Rightarrow> Tensor \<Rightarrow> Tensor \<Rightarrow> 'r \<Rightarrow> ('r, Tensor) action" where
  "clamp_max_out E result self mx st =
     and_then (TORCH_CHECK (\<not> is_complex st self)
                 (UnsupportedDtype, ''clamp is not yet implemented for complex tensors.''))
       (\<lambda>_.
     and_then (TORCH_CHECK (layout (impl st self) = Strided)
                 (UnsupportedLayout, ''clamp_max only supports strided layout''))
       (\<lambda>_.
     and_then (TensorIterator_unary_op E result self True) (\<lambda>iter.
     and_then (call_stub E clamp_max_stub (ScalarArg mx) iter) (\<lambda>_.
     return_ok result)))) st"

definition clamp_max :: "'r env \<Rightarrow> Tensor \<Rightarrow> 'r \<Rightarrow> ('r, Tensor) action" where
  "clamp_max E self mx st =
     and_then (at_empty E [0] (options st self))
       (\<lambda>result. clamp_max_out E result self mx) st"

definition clamp_max_inplace :: "'r env \<Rightarrow> Tensor \<Rightarrow> 'r \<Rightarrow> ('r, Tensor) action" where
  "clamp_max_inplace E self mx = clamp_max_out E self self mx"

definition clamp_min_out :: "'r env \<Rightarrow> Tensor \<Rightarrow> Tensor \<Rightarrow> 'r \<Rightarrow> ('r, Tensor) action" where
  "clamp_min_out E result self mn st =
     and_then (TORCH_CHECK (\<not> is_complex st self)
                 (UnsupportedDtype, ''clamp is not yet implemented for complex tensors.''))
       (\<lambda>_.
     and_then (TORCH_CHECK (layout (impl st self) = Strided)
                 (UnsupportedLayout, ''clamp_min only supports strided layout''))
       (\<lambda>_.
     and_then (TensorIterator_unary_op E result self True) (\<lambda>iter.
     and_then (call_stub E clamp_min_stub (ScalarArg mn) iter) (\<lambda>_.
     return_ok result)))) st"

definition clamp_min :: "'r env \<Rightarrow> Tensor \<Rightarrow> 'r \<Rightarrow> ('r, Tensor) action" where
  "clamp_min E self mn st =
     and_then (at_empty E [0] (options st self))
       (\<lambda>result. clamp_min_out E result self mn) st"

definition clamp_min_inplace :: "'r env \<Rightarrow> Tensor \<Rightarrow> 'r \<Rightarrow> ('r, Tensor) action" where
  "clamp_min_inplace E self mn = clamp_min_out E self self mn"

definition clamp_out ::
  "'r env \<Rightarrow> Tensor \<Rightarrow> Tensor \<Rightarrow> 'r option \<Rightarrow> 'r option \<Rightarrow> ('r, Tensor) action" where
  "clamp_out E result self mn mx st =
     and_then (TORCH_CHECK (\<not> is_complex st self)
                 (UnsupportedDtype, ''clamp is not yet implemented for complex tensors.''))
       (\<lambda>_.
     and_then
       (case (mn, mx) of
          (Some lo, Some hi) \<Rightarrow>
            and_then (TORCH_CHECK (layout (impl st self) = Strided)
                        (UnsupportedLayout, ''clamp only supports strided layout''))
              (\<lambda>_.
            and_then (TensorIterator_unary_op E result self True) (\<lambda>iter.
            call_stub E clamp_stub (ClampArgs lo hi) iter))
        | (None, Some hi) \<Rightarrow>
            and_then (clamp_max_out E result self hi) (\<lambda>_. return_ok ())
        | (Some lo, None) \<Rightarrow>
            and_then (clamp_min_out E result self lo) (\<lambda>_. return_ok ())
        | (None, None) \<Rightarrow>
            throw (InvalidArgument, ''At least one of 'min' or 'max' must not be None''))
       (\<lambda>_. return_ok result)) st"

definition clamp :: "'r env \<Rightarrow> Tensor \<Rightarrow> 'r option \<Rightarrow> 'r option \<Rightarrow> ('r, Tensor) action" where
  "clamp E self mn mx st =
     and_then (at_empty E [0] (options st self))
       (\<lambda>result. clamp_out E result self mn mx) st"

definition clamp_inplace :: "'r env \<Rightarrow> Tensor \<Rightarrow> 'r option \<Rightarrow> 'r option \<Rightarrow> ('r, Tensor) action" where
  "clamp_inplace E self mn mx = clamp_out E self self mn mx"

subsection \<open>polygamma (lines 413--427)\<close>

text \<open>The order \<open>n\<close> is an \<^verbatim>\<open>int64_t\<close>; only its sign is inspected, so it is an \<open>int\<close> here.\<close>

definition polygamma_out :: "'r env \<Rightarrow> Tensor \<Rightarrow> int \<Rightarrow> Tensor \<Rightarrow> ('r, Tensor) action" where
  "polygamma_out E result n self =
     and_then (TORCH_CHECK (n \<ge> 0)
                 (InvalidArgument, ''polygamma(n, x) does not support negative n.''))
       (\<lambda>_.
     and_then (TensorIterator_unary_op E result self True) (\<lambda>iter.
     and_then (call_stub E polygamma_stub (OrderArg n) iter) (\<lambda>_.
     return_ok result)))"

definition polygamma :: "'r env \<Rightarrow> int \<Rightarrow> Tensor \<Rightarrow> ('r, Tensor) action" where
  "polygamma E n self st =
     and_then (at_empty E [0] (options st self)) (\<lambda>result.
     and_then (polygamma_out E result n self) (\<lambda>_.
     return_ok result)) st"

definition polygamma_inplace :: "'r env \<Rightarrow> Tensor \<Rightarrow> int \<Rightarrow> ('r, Tensor) action" where
  "polygamma_inplace E self n = polygamma_out E self n self"

subsection \<open>mvlgamma (lines 429--449)\<close>

text \<open>
  \<^verbatim>\<open>(self > 0.5f * (p - 1)).all().item<bool>()\<close> compares every element of \<open>self\<close> with a
  scalar and reduces the outcome to one boolean: an elementwise kernel and a reduction
  kernel run over temporaries.  The comparison of one element is the parameter
  \<open>gt_half\<close>; the temporaries are not kept in the store.  The multiplicity \<open>p\<close> is an
  \<^verbatim>\<open>int64_t\<close>; it is an \<open>int\<close> here, and \<open>p - 1\<close> is not wrapped (at the least
  \<^verbatim>\<open>int64_t\<close> the source's subtraction is undefined).
\<close>

definition all_greater :: "'r env \<Rightarrow> Tensor \<Rightarrow> int \<Rightarrow> ('r, bool) action" where
  "all_greater E self k st =
     (Inr (list_all (\<lambda>x. gt_half E x k) (read_tensor st self)),
      st\<lparr>kernel_log := kernel_log st @ [CompareKernel, ReduceKernel]\<rparr>)"

definition mvlgamma_check :: "'r env \<Rightarrow> Tensor \<Rightarrow> int \<Rightarrow> ('r, unit) action" where
  "mvlgamma_check E self p st =
     and_then (TORCH_CHECK (isFloatingType (scalar_type (impl st self)))
                 (UnsupportedDtype, ''mvlgamma is not implemented for''))
       (\<lambda>_.
     and_then (all_greater E self (p - 1)) (\<lambda>ok.
     and_then (TORCH_CHECK ok
                 (InvalidArgument, ''All elements must be greater than (p-1)/2''))
       (\<lambda>_.
     TORCH_CHECK (p \<ge> 1)
       (InvalidArgument, ''p has to be greater than or equal to 1'')))) st"

text \<open>
  After the check, both forms compute the same tensor from \<open>self\<close> and \<open>p\<close> with
  operations of other files (\<^verbatim>\<open>arange\<close>, \<^verbatim>\<open>add\<close>, \<^verbatim>\<open>lgamma_\<close>, \<^verbatim>\<open>sum\<close>): the
  parameter \<open>mvlgamma_terms\<close>.
\<close>

definition mvlgamma :: "'r env \<Rightarrow> Tensor \<Rightarrow> int \<Rightarrow> ('r, Tensor) action" where
  "mvlgamma E self p =
     and_then (mvlgamma_check E self p) (\<lambda>_. mvlgamma_terms E self p)"


subsection \<open>erfinv and lgamma (lines 454--484)\<close>

text \<open>
  Modelled from the spec: \<^verbatim>\<open>checkDeviceType\<close> and \<^verbatim>\<open>checkLayout\<close> (TensorUtils) are outside
  the file.  They are the validation that the "output is usable as a write target (correct
  layout ...)": a tensor on another device is refused with \<^verbatim>\<open>UnsupportedDevice\<close>, a tensor
  of another layout with \<^verbatim>\<open>UnsupportedLayout\<close>.  The first argument names the operation in
  the message.
\<close>

definition checkDeviceType :: "string \<Rightarrow> Tensor \<Rightarrow> DeviceType \<Rightarrow> ('r, unit) action" where
  "checkDeviceType c t d st =
     TORCH_CHECK (device (impl st t) = d)
       (UnsupportedDevice, ''Expected tensor to have another DeviceType (while checking arguments for '' @ c @ '')'') st"

definition checkLayout :: "string \<Rightarrow> Tensor \<Rightarrow> Layout \<Rightarrow> ('r, unit) action" where
  "checkLayout c t l st =
     TORCH_CHECK (layout (impl st t) = l)
       (UnsupportedLayout, ''Expected tensor to have another Layout (while checking arguments for '' @ c @ '')'') st"

text \<open>
  The macros \<^verbatim>\<open>IMPLEMENT_UNARY_OP_CORE\<close> and \<^verbatim>\<open>IMPLEMENT_UNARY_OP_OUT_INPLACE\<close>, expanded
  for \<open>erfinv\<close> and \<open>lgamma\<close> with the prefixes \<open>cpu\<close> and \<open>cuda\<close>.  The functions
  \<^verbatim>\<open>_erfinv_out_cpu\<close> and \<^verbatim>\<open>_erfinv__cpu\<close> are \<open>erfinv_out_cpu\<close> and \<open>erfinv_inplace_cpu\<close>
  here, and so on.  The entry point \<^verbatim>\<open>at::erfinv_out\<close> reaches the native function of the
  device that the dispatcher selects (the parameter \<open>backend\<close>); the file has none for a
  device other than CPU and CUDA, which is the failed lookup of section 4.2.
\<close>

definition erfinv_out_cpu :: "'r env \<Rightarrow> Tensor \<Rightarrow> Tensor \<Rightarrow> ('r, Tensor) action" where
  "erfinv_out_cpu E result self =
     and_then (checkDeviceType ''erfinv'' result CPU) (\<lambda>_.
     and_then (checkLayout ''erfinv'' result Strided) (\<lambda>_.
     and_then (TensorIterator_unary_op E result self True) (\<lambda>iter.
     and_then (call_stub E erfinv_stub NoArgs iter) (\<lambda>_.
     return_ok result))))"

definition erfinv_out_cuda :: "'r env \<Rightarrow> Tensor \<Rightarrow> Tensor \<Rightarrow> ('r, Tensor) action" where
  "erfinv_out_cuda E result self =
     and_then (checkDeviceType ''erfinv'' result CUDA) (\<lambda>_.
     and_then (checkLayout ''erfinv'' result Strided) (\<lambda>_.
     and_then (TensorIterator_unary_op E result self True) (\<lambda>iter.
     and_then (call_stub E erfinv_stub NoArgs iter) (\<lambda>_.
     return_ok result))))"

definition at_erfinv_out :: "'r env \<Rightarrow> Tensor \<Rightarrow> Tensor \<Rightarrow> ('r, Tensor) action" where
  "at_erfinv_out E result self st =
     (case backend E (device (impl st result)) (device (impl st self)) of
        CPU \<Rightarrow> erfinv_out_cpu E result self st
      | CUDA \<Rightarrow> erfinv_out_cuda E result self st
      | XLA \<Rightarrow> (Inl (UnsupportedDevice, ''erfinv_out has no native function for this device''),
                st))"

definition erfinv :: "'r env \<Rightarrow> Tensor \<Rightarrow> ('r, Tensor) action" where
  "erfinv E self st =
     and_then (at_empty E [0] (options st self)) (\<lambda>result.
     and_then (at_erfinv_out E result self) (\<lambda>_.
     return_ok result)) st"

definition erfinv_inplace_cpu :: "'r env \<Rightarrow> Tensor \<Rightarrow> ('r, Tensor) action" where
  "erfinv_inplace_cpu E self = at_erfinv_out E self self"

definition erfinv_inplace_cuda :: "'r env \<Rightarrow> Tensor \<Rightarrow> ('r, Tensor) action" where
  "erfinv_inplace_cuda E self = at_erfinv_out E self self"

definition lgamma_out_cpu :: "'r env \<Rightarrow> Tensor \<Rightarrow> Tensor \<Rightarrow> ('r, Tensor) action" where
  "lgamma_out_cpu E result self =
     and_then (checkDeviceType ''lgamma'' result CPU) (\<lambda>_.
     and_then (checkLayout ''lgamma'' result Strided) (\<lambda>_.
     and_then (TensorIterator_unary_op E result self True) (\<lambda>iter.
     and_then (call_stub E lgamma_stub NoArgs iter) (\<lambda>_.
     return_ok result))))"

definition lgamma_out_cuda :: "'r env \<Rightarrow> Tensor \<Rightarrow> Tensor \<Rightarrow> ('r, Tensor) action" where
  "lgamma_out_cuda E result self =
     and_then (checkDeviceType ''lgamma'' result CUDA) (\<lambda>_.
     and_then (checkLayout ''lgamma'' result Strided) (\<lambda>_.
     and_then (TensorIterator_unary_op E result self True) (\<lambda>iter.
     and_then (call_stub E lgamma_stub NoArgs iter) (\<lambda>_.
     return_ok result))))"

definition at_lgamma_out :: "'r env \<Rightarrow> Tensor \<Rightarrow> Tensor \<Rightarrow> ('r, Tensor) action" where
  "at_lgamma_out E result self st =
     (case backend E (device (impl st result)) (device (impl st self)) of
        CPU \<Rightarrow> lgamma_out_cpu E result self st
      | CUDA \<Rightarrow> lgamma_out_cuda E result self st
      | XLA \<Rightarrow> (Inl (UnsupportedDevice, ''lgamma_out has no native function for this device''),
                st))"

definition lgamma :: "'r env \<Rightarrow> Tensor \<Rightarrow> ('r, Tensor) action" where
  "lgamma E self st =
     and_then (at_empty E [0] (options st self)) (\<lambda>result.
     and_then (at_lgamma_out E result self) (\<lambda>_.
     return_ok result)) st"

definition lgamma_inplace_cpu :: "'r env \<Rightarrow> Tensor \<Rightarrow> ('r, Tensor) action" where
  "lgamma_inplace_cpu E self = at_lgamma_out E self self"

definition lgamma_inplace_cuda :: "'r env \<Rightarrow> Tensor \<Rightarrow> ('r, Tensor) action" where
  "lgamma_inplace_cuda E self = at_lgamma_out E self self"

section \<open>Auxiliary notions for the statements\<close>

text \<open>
  The state after a plan was built for \<open>out\<close> and \<open>inp\<close> and the kernel registered for
  stub \<open>s\<close> on the input's device has run with the arguments \<open>args\<close>, when the builder
  gives \<open>out\<close> the shape of \<open>inp\<close> (\<open>out\<close> has that shape already, or the shape \<open>[0]\<close>).
\<close>

definition after_unary ::
  "'r env \<Rightarrow> stub_id \<Rightarrow> 'r stub_args \<Rightarrow> Tensor \<Rightarrow> Tensor \<Rightarrow> 'r state \<Rightarrow> 'r state" where
  "after_unary E s args out inp st =
     run_kernel (StubKernel s (device (impl st inp)))
       (the (stubs E s (device (impl st inp))) args) out inp
       (snd (resize_inplace E out (sizes (impl st inp)) st))"

text \<open>
  The value that the kernel of stub \<open>s\<close> stores for the input element \<open>e\<close>, as read back
  from an output of dtype \<open>dout\<close>.
\<close>

definition kernel_value ::
  "'r env \<Rightarrow> stub_id \<Rightarrow> 'r stub_args \<Rightarrow> DeviceType \<Rightarrow> ScalarType \<Rightarrow> ScalarType \<Rightarrow> 'r elem \<Rightarrow> 'r elem" where
  "kernel_value E s args dev din dout e = elem_of dout (the (stubs E s dev) args din dout e)"

text \<open>
  Two outcomes agree when both fail with the same error, or both succeed and the tensors
  they return hold the same elements, with the same dtype and shape.
\<close>

definition agree ::
  "(error + Tensor) \<times> 'r state \<Rightarrow> (error + Tensor) \<times> 'r state \<Rightarrow> bool" where
  "agree a b =
     (case (fst a, fst b) of
        (Inr x, Inr y) \<Rightarrow>
          read_tensor (snd a) x = read_tensor (snd b) y \<and>
          scalar_type (impl (snd a) x) = scalar_type (impl (snd b) y) \<and>
          sizes (impl (snd a) x) = sizes (impl (snd b) y)
      | (Inl e, Inl e') \<Rightarrow> e = e'
      | _ \<Rightarrow> False)"

text \<open>\<open>c\<close> is a copy of \<open>x\<close>: same options, same shape, same elements.\<close>

definition copy_of :: "'r state \<Rightarrow> Tensor \<Rightarrow> Tensor \<Rightarrow> bool" where
  "copy_of st c x =
     (options st c = options st x \<and> sizes (impl st c) = sizes (impl st x) \<and>
      read_tensor st c = read_tensor st x)"

text \<open>The element that \<^verbatim>\<open>copy_\<close> stores for the source element \<open>e\<close>.\<close>

definition cast_value :: "'r env \<Rightarrow> ScalarType \<Rightarrow> ScalarType \<Rightarrow> 'r elem \<Rightarrow> 'r elem" where
  "cast_value E din dout e = elem_of dout (copy_cast E din dout e)"

text \<open>
  The state after the complex-to-real path of
  \<^verbatim>\<open>unary_op_impl_with_complex_to_float_out\<close>: the temporary is tensor
  \<open>length (impls st)\<close>.
\<close>

definition after_complex_to_float ::
  "'r env \<Rightarrow> stub_id \<Rightarrow> Tensor \<Rightarrow> Tensor \<Rightarrow> 'r state \<Rightarrow> 'r state" where
  "after_complex_to_float E s result self st =
     run_kernel CopyKernel (copy_cast E) result (length (impls st))
       (snd (resize_inplace E result (sizes (impl st self))
          (after_unary E s NoArgs (length (impls st)) self
             (snd (at_empty E [0] (options st self) st)))))"

text \<open>
  The outcome \<open>res\<close> of an into-buffer call under the complex-to-real policy; the
  temporary is tensor \<open>length (impls st)\<close>.
\<close>

definition complex_to_float_policy ::
  "'r env \<Rightarrow> stub_id \<Rightarrow> Tensor \<Rightarrow> Tensor \<Rightarrow> 'r state \<Rightarrow> (error + Tensor) \<times> 'r state \<Rightarrow> bool" where
  "complex_to_float_policy E s result self st res =
     (let din = scalar_type (impl st self);
          dout = scalar_type (impl st result);
          tmp = length (impls st);
          st' = snd res
      in if is_complex st self \<and> \<not> is_complex st result then
           if \<not> canCast E (toValueType din) dout then
             res = (Inl (InvalidCast, ''result type can't be cast to the desired output type''), st)
           else
             stubs E s (device (impl st self)) \<noteq> None \<longrightarrow>
               fst res = Inr result \<and>
               length (impls st') = Suc tmp \<and>
               length (storages st') = Suc (length (storages st)) \<and>
               storage (impl st' tmp) = length (storages st) \<and>
               options st' tmp = options st self \<and>
               isComplexType (scalar_type (impl st' tmp)) \<and>
               read_tensor st' tmp =
                 map (kernel_value E s NoArgs (device (impl st self)) din din)
                   (read_tensor st self) \<and>
               sizes (impl st' result) = sizes (impl st' tmp) \<and>
               scalar_type (impl st' result) = dout \<and>
               read_tensor st' result = map (cast_value E din dout) (read_tensor st' tmp) \<and>
               kernel_log st' =
                 kernel_log st @ [StubKernel s (device (impl st self)), CopyKernel]
         else res = unary_op_impl_out E result self s st)"

text \<open>
  The outcome \<open>res\<close> of an allocate-and-return call under the complex-to-real policy.
\<close>

definition returns_value_type ::
  "'r env \<Rightarrow> stub_id \<Rightarrow> Tensor \<Rightarrow> 'r state \<Rightarrow> (error + Tensor) \<times> 'r state \<Rightarrow> bool" where
  "returns_value_type E s x st res =
     (let d = scalar_type (impl st x) in
      ((is_complex st x \<longrightarrow> canCast E (toValueType d) (toValueType d)) \<and>
       stubs E s (device (impl st x)) \<noteq> None \<longrightarrow>
         fst res = Inr (length (impls st))) \<and>
      (case fst res of
         Inl e \<Rightarrow> True
       | Inr r \<Rightarrow>
           r = length (impls st) \<and>
           (if is_complex st x
            then scalar_type (impl (snd res) r) = toValueType d \<and>
                 \<not> isComplexType (scalar_type (impl (snd res) r)) \<and>
                 layout (impl (snd res) r) = layout (impl st x) \<and>
                 device (impl (snd res) r) = device (impl st x)
            else options (snd res) r = options st x)))"

text \<open>
  The failures that the facade's own checks raise, and what it means for a call to leave
  the tensors and storages that existed before it as they were (it may have allocated
  new ones).
\<close>

definition validation_failure :: "(error + 'a) \<times> 'r state \<Rightarrow> bool" where
  "validation_failure res =
     (fails_with UnsupportedDtype res \<or> fails_with InvalidArgument res \<or>
      fails_with UnsupportedLayout res \<or> fails_with InvalidCast res)"

definition unmodified :: "'r state \<Rightarrow> 'r state \<Rightarrow> bool" where
  "unmodified st st' =
     (take (length (impls st)) (impls st') = impls st \<and>
      take (length (storages st)) (storages st') = storages st)"

text \<open>
  The real (\<open>idx = 0\<close>) or imaginary (\<open>idx = 1\<close>) part of a complex element, and what
  \<open>real\<close> and \<open>imag\<close> return on a complex tensor: tensor \<open>length (impls st)\<close> is the
  reinterpreted view, the next one the selected view.
\<close>

fun component :: "nat \<Rightarrow> 'r elem \<Rightarrow> 'r elem" where
  "component idx (ComplexElem a b) = RealElem (if idx = 0 then a else b)"
| "component idx (RealElem a) = RealElem a"

definition component_view ::
  "nat \<Rightarrow> 'r state \<Rightarrow> Tensor \<Rightarrow> (error + Tensor) \<times> 'r state \<Rightarrow> bool" where
  "component_view idx st self res =
     (let st' = snd res;
          v = length (impls st);
          r = Suc (length (impls st));
          im = impl st self
      in fst res = Inr r \<and>
         storages st' = storages st \<and>
         kernel_log st' = kernel_log st \<and>
         length (impls st') = length (impls st) + 2 \<and>
         take (length (impls st)) (impls st') = impls st \<and>
         impl st' v =
           im\<lparr>scalar_type := toValueType (scalar_type im),
              sizes := sizes im @ [2],
              strides := map (\<lambda>s. 2 * s) (strides im) @ [1],
              storage_offset := 2 * storage_offset im\<rparr> \<and>
         impl st' r =
           im\<lparr>scalar_type := toValueType (scalar_type im),
              strides := map (\<lambda>s. 2 * s) (strides im),
              storage_offset := 2 * storage_offset im + idx\<rparr> \<and>
         \<not> isComplexType (scalar_type (impl st' r)) \<and>
         read_tensor st' r = map (component idx) (read_tensor st self))"

text \<open>
  A call that ended in \<open>res\<close> honours the rule "validation fails before any kernel runs
  and leaves what existed unmodified".
\<close>

definition untouched_on_failure :: "'r state \<Rightarrow> (error + 'a) \<times> 'r state \<Rightarrow> bool" where
  "untouched_on_failure st res =
     (validation_failure res \<longrightarrow>
        unmodified st (snd res) \<and> kernel_log (snd res) = kernel_log st)"


section \<open>A concrete store and environment\<close>

text \<open>
  A small store over integer cells, used to evaluate the operations on concrete inputs:
  tensor 0 is a float vector \<open>[1, 2, 3]\<close>, tensor 1 a complex vector \<open>[1 + 2i, 3 + 4i]\<close>,
  tensor 2 a boolean vector, tensor 3 a second float vector with the contents of tensor
  0, tensor 4 a sparse float tensor, tensor 5 a second complex vector with the contents
  of tensor 1, and tensor 6 an integer vector.  Every stub has a CPU kernel, which adds
  one to each component.  The two constants are rounded to integers.
\<close>

definition example_state :: "int state" where
  "example_state =
     \<lparr>impls =
        [\<lparr>scalar_type = kFloat, layout = Strided, device = CPU, sizes = [3], strides = [1],
          storage_offset = 0, storage = 0,
          is_wrapped_number = False\<rparr>,
         \<lparr>scalar_type = kComplexFloat, layout = Strided, device = CPU, sizes = [2],
          strides = [1], storage_offset = 0, storage = 1,
          is_wrapped_number = False\<rparr>,
         \<lparr>scalar_type = kBool, layout = Strided, device = CPU, sizes = [2], strides = [1],
          storage_offset = 0, storage = 2,
          is_wrapped_number = False\<rparr>,
         \<lparr>scalar_type = kFloat, layout = Strided, device = CPU, sizes = [3], strides = [1],
          storage_offset = 0, storage = 3,
          is_wrapped_number = False\<rparr>,
         \<lparr>scalar_type = kFloat, layout = Sparse, device = CPU, sizes = [3], strides = [1],
          storage_offset = 0, storage = 4,
          is_wrapped_number = False\<rparr>,
         \<lparr>scalar_type = kComplexFloat, layout = Strided, device = CPU, sizes = [2],
          strides = [1], storage_offset = 0, storage = 5,
          is_wrapped_number = False\<rparr>,
         \<lparr>scalar_type = kInt, layout = Strided, device = CPU, sizes = [2], strides = [1],
          storage_offset = 0, storage = 6,
          is_wrapped_number = False\<rparr>],
      storages = [[1, 2, 3], [1, 2, 3, 4], [0, 1], [1, 2, 3], [1, 2, 3], [1, 2, 3, 4], [5, 6]],
      kernel_log = []\<rparr>"

definition example_kernel :: "int kernel" where
  "example_kernel din dout e =
     (case e of RealElem r \<Rightarrow> (r + 1, 0) | ComplexElem r i \<Rightarrow> (r + 1, i + 1))"

definition example_copy :: "int kernel" where
  "example_copy din dout e =
     (case e of RealElem r \<Rightarrow> (r, 0) | ComplexElem r i \<Rightarrow> (r, i))"

definition example_canCast :: "ScalarType \<Rightarrow> ScalarType \<Rightarrow> bool" where
  "example_canCast a b =
     (\<not> (isComplexType a \<and> \<not> isComplexType b) \<and>
      \<not> (isFloatingType a \<and> \<not> isFloatingType b \<and> \<not> isComplexType b) \<and>
      \<not> (a \<noteq> kBool \<and> b = kBool))"

definition example_env :: "int env" where
  "example_env =
     \<lparr>stubs = (\<lambda>s d. if d = CPU then Some (\<lambda>args. example_kernel) else None),
      canCast = example_canCast,
      copy_cast = example_copy,
      uninit = 0,
      gt_half = (\<lambda>e k. case e of RealElem r \<Rightarrow> k < 2 * r | ComplexElem r i \<Rightarrow> False),
      at_pow = (\<lambda>self n. return_ok self),
      at_pow_out = (\<lambda>result self n. return_ok result),
      mvlgamma_terms = (\<lambda>self p. return_ok self),
      M_180_PI = 57,
      M_PI_180 = 0,
      backend = (\<lambda>r s. if r = CUDA \<or> s = CUDA then CUDA else if r = XLA \<or> s = XLA then XLA else CPU)\<rparr>"

text \<open>
  The concrete store with one more tensor, 7: a float view of storage 0 that starts at
  cell 1, and so overlaps tensor 0 without being the same view.
\<close>

definition overlap_state :: "int state" where
  "overlap_state =
     example_state\<lparr>impls := impls example_state @
        [\<lparr>scalar_type = kFloat, layout = Strided, device = CPU, sizes = [2], strides = [1],
          storage_offset = 1, storage = 0,
          is_wrapped_number = False\<rparr>]\<rparr>"

text \<open>
  The concrete store with two more tensors on storages of their own: tensor 7, a boolean
  matrix of shape \<open>[2, 3]\<close>, and tensor 8, a boolean tensor of shape \<open>[0]\<close>, without
  elements.
\<close>

definition broadcast_state :: "int state" where
  "broadcast_state =
     example_state\<lparr>impls := impls example_state @
        [\<lparr>scalar_type = kBool, layout = Strided, device = CPU, sizes = [2, 3],
          strides = [3, 1], storage_offset = 0, storage = 7, is_wrapped_number = False\<rparr>,
         \<lparr>scalar_type = kBool, layout = Strided, device = CPU, sizes = [0], strides = [1],
          storage_offset = 0, storage = 8, is_wrapped_number = False\<rparr>],
       storages := storages example_state @ [[0, 0, 0, 0, 0, 0], []]\<rparr>"

section \<open>Properties of the store operations\<close>

subsection \<open>Reading and writing cells\<close>

lemma length_store_elem [simp]: "length (store_elem d cs a v) = length cs"
  by (simp add: store_elem_def)

lemma length_write_cells [simp]: "length (write_cells d as vs cs) = length cs"
  by (induction d as vs cs rule: write_cells.induct) simp_all

lemma load_store_same:
  "elem_in_bounds d cs a \<Longrightarrow> load d (store_elem d cs a v) a = elem_of d v"
  by (auto simp add: elem_in_bounds_def load_def store_elem_def elem_of_def split: if_splits)

lemma load_store_other:
  "a' \<noteq> a \<Longrightarrow> load d (store_elem d cs a v) a' = load d cs a'"
  by (auto simp add: load_def store_elem_def nth_list_update)

lemma load_write_other:
  "a' \<notin> set as \<Longrightarrow> load d (write_cells d as vs cs) a' = load d cs a'"
  by (induction d as vs cs rule: write_cells.induct) (simp_all add: load_store_other)

lemma elem_in_bounds_store [simp]:
  "elem_in_bounds d (store_elem d cs a v) a' = elem_in_bounds d cs a'"
  by (simp add: elem_in_bounds_def)

lemma read_after_write:
  "distinct as \<Longrightarrow> length vs = length as \<Longrightarrow> \<forall>a \<in> set as. elem_in_bounds d cs a \<Longrightarrow>
   map (load d (write_cells d as vs cs)) as = map (elem_of d) vs"
proof (induction d as vs cs rule: write_cells.induct)
  case (1 d a as v vs cells)
  then show ?case
    by (simp add: load_write_other load_store_same)
qed simp_all

lemma concat_upt_blocks:
  "concat (map (\<lambda>i. [off + i * p ..< off + i * p + p]) [0..<n]) = [off ..< off + n * p]"
proof (induction n)
  case 0
  then show ?case by simp
next
  case (Suc n)
  have "[off ..< off + n * p] @ [off + n * p ..< off + n * p + p] = [off ..< off + n * p + p]"
    by (metis le_add1 upt_add_eq_append add.assoc)
  with Suc show ?case by (simp add: add.commute add.left_commute)
qed

lemma addrs_contiguous:
  "addrs ns (contiguous_strides ns) off = [off ..< off + prod_list ns]"
proof (induction ns arbitrary: off)
  case Nil
  then show ?case by simp
next
  case (Cons n ns)
  then show ?case by (simp add: concat_upt_blocks)
qed

lemma length_concat_const:
  "(\<And>x. x \<in> set xs \<Longrightarrow> length (f x) = k) \<Longrightarrow> length (concat (map f xs)) = length xs * k"
  by (induction xs) simp_all

lemma length_addrs:
  "length ss = length ns \<Longrightarrow> length (addrs ns ss off) = prod_list ns"
proof (induction ns ss off rule: addrs.induct)
  case (3 n ns s ss off)
  have "length (concat (map (\<lambda>i. addrs ns ss (off + i * s)) [0..<n])) = length [0..<n] * prod_list ns"
    by (rule length_concat_const) (use 3 in simp)
  then show ?case by simp
qed simp_all

subsection \<open>Sequencing\<close>

lemma and_then_Inr: "m st = (Inr x, st') \<Longrightarrow> and_then m f st = f x st'"
  by (simp add: and_then_def)

lemma and_then_check [simp]:
  "and_then (TORCH_CHECK c e) f st = (if c then f () st else (Inl e, st))"
  by (simp add: and_then_def TORCH_CHECK_def)

lemma and_then_return [simp]: "and_then (return_ok x) f st = f x st"
  by (simp add: and_then_def return_ok_def)

lemma and_then_throw [simp]: "and_then (throw e) f st = (Inl e, st)"
  by (simp add: and_then_def throw_def)

lemma impl_storages_update [simp]: "impl (st\<lparr>storages := ss\<rparr>) t = impl st t"
  by (simp add: impl_def)

lemma impl_kernel_log_update [simp]: "impl (st\<lparr>kernel_log := l\<rparr>) t = impl st t"
  by (simp add: impl_def)

subsection \<open>Broadcasting\<close>

lemma length_expand_rev [simp]: "length (expand_rev ns ss bs) = length bs"
  by (induction ns ss bs rule: expand_rev.induct) simp_all

lemma length_expand_strides [simp]: "length (expand_strides sz ss shape) = length shape"
  by (simp add: expand_strides_def)

lemma expand_rev_same: "length ss = length ns \<Longrightarrow> expand_rev ns ss ns = ss"
  by (induction ss ns rule: list_induct2) simp_all

lemma expand_strides_same: "length ss = length sz \<Longrightarrow> expand_strides sz ss sz = ss"
  by (simp add: expand_strides_def expand_rev_same)

lemma expanded_same:
  "length (strides im) = length (sizes im) \<Longrightarrow> expanded im (sizes im) = im"
  by (simp add: expanded_def expand_strides_same)

lemma read_expanded_same:
  "length (strides (impl st t)) = length (sizes (impl st t)) \<Longrightarrow>
   read_expanded st t (sizes (impl st t)) = read_tensor st t"
  by (simp add: read_expanded_def read_tensor_def expanded_same)

lemma length_read_expanded [simp]: "length (read_expanded st t shape) = prod_list shape"
  by (simp add: read_expanded_def addrs_of_def expanded_def length_addrs)

lemma broadcast_rev_same [simp]: "broadcast_rev as as = Some as"
  by (induction as) simp_all

lemma broadcast_shapes_same [simp]: "broadcast_shapes A A = Some A"
  by (simp add: broadcast_shapes_def)

lemma wf_strides:
  "well_formed st t \<Longrightarrow> length (strides (impl st t)) = length (sizes (impl st t))"
  by (simp add: well_formed_def)

subsection \<open>run_kernel\<close>

lemma run_kernel_impls [simp]: "impls (run_kernel kid k out inp st) = impls st"
  by (simp add: run_kernel_def Let_def)

lemma run_kernel_impl [simp]: "impl (run_kernel kid k out inp st) t = impl st t"
  by (simp add: impl_def)

lemma run_kernel_log [simp]:
  "kernel_log (run_kernel kid k out inp st) = kernel_log st @ [kid]"
  by (simp add: run_kernel_def Let_def)

lemma run_kernel_length_storages [simp]:
  "length (storages (run_kernel kid k out inp st)) = length (storages st)"
  by (simp add: run_kernel_def Let_def)

lemma run_kernel_other_storage:
  "s \<noteq> storage (impl st out) \<Longrightarrow> storages (run_kernel kid k out inp st) ! s = storages st ! s"
  by (simp add: run_kernel_def Let_def)

lemma run_kernel_read_expanded:
  assumes "well_formed st out"
  shows "read_tensor (run_kernel kid k out inp st) out =
         map (\<lambda>e. elem_of (scalar_type (impl st out))
                    (k (scalar_type (impl st inp)) (scalar_type (impl st out)) e))
             (read_expanded st inp (sizes (impl st out)))"
proof -
  let ?o = "impl st out"
  let ?vals = "map (k (scalar_type (impl st inp)) (scalar_type ?o))
                 (read_expanded st inp (sizes ?o))"
  have len: "length ?vals = length (addrs_of ?o)"
    using assms by (simp add: well_formed_def addrs_of_def length_addrs)
  have inb: "\<forall>a \<in> set (addrs_of ?o). elem_in_bounds (scalar_type ?o) (storages st ! storage ?o) a"
    using assms(1) by (simp add: well_formed_def list_all_iff)
  have dist: "distinct (addrs_of ?o)"
    using assms(1) by (simp add: well_formed_def)
  have st: "storage ?o < length (storages st)"
    using assms(1) by (simp add: well_formed_def)
  have "read_tensor (run_kernel kid k out inp st) out =
        map (load (scalar_type ?o)
               (write_cells (scalar_type ?o) (addrs_of ?o) ?vals (storages st ! storage ?o)))
            (addrs_of ?o)"
    using st by (simp add: read_tensor_def run_kernel_def Let_def)
  also have "\<dots> = map (elem_of (scalar_type ?o)) ?vals"
    using dist len inb by (rule read_after_write)
  finally show ?thesis by (simp add: comp_def)
qed

lemma run_kernel_read:
  assumes "well_formed st out"
    and "sizes (impl st inp) = sizes (impl st out)"
    and "length (strides (impl st inp)) = length (sizes (impl st inp))"
  shows "read_tensor (run_kernel kid k out inp st) out =
         map (\<lambda>e. elem_of (scalar_type (impl st out))
                    (k (scalar_type (impl st inp)) (scalar_type (impl st out)) e))
             (read_tensor st inp)"
  using run_kernel_read_expanded [OF assms(1), of kid k inp] read_expanded_same [OF assms(3)]
  by (simp add: assms(2))

lemma length_nth_list_update:
  "length y = length (xs ! i) \<Longrightarrow> length (xs[i := y] ! j) = length (xs ! j)"
  by (cases "i < length xs") (auto simp add: nth_list_update list_update_beyond)

lemma run_kernel_length_storage [simp]:
  "length (storages (run_kernel kid k out inp st) ! s) = length (storages st ! s)"
  by (simp add: run_kernel_def Let_def length_nth_list_update)

lemma elem_in_bounds_length:
  "length cs' = length cs \<Longrightarrow> elem_in_bounds d cs' = elem_in_bounds d cs"
  by (rule ext) (simp add: elem_in_bounds_def)

lemma run_kernel_wf:
  "well_formed st t \<Longrightarrow> well_formed (run_kernel kid k out inp st) t"
  by (simp add: well_formed_def elem_in_bounds_length [OF run_kernel_length_storage])

lemma run_kernel_read_other:
  "storage (impl st t) \<noteq> storage (impl st out) \<Longrightarrow>
   read_tensor (run_kernel kid k out inp st) t = read_tensor st t"
  by (simp add: read_tensor_def run_kernel_other_storage)

subsection \<open>at_empty\<close>

lemma and_then_at_empty:
  "and_then (at_empty E sz opts) f st = f (length (impls st)) (snd (at_empty E sz opts st))"
  by (simp add: and_then_def at_empty_def)

lemma at_empty_lengths [simp]:
  "length (impls (snd (at_empty E sz opts st))) = Suc (length (impls st))"
  "length (storages (snd (at_empty E sz opts st))) = Suc (length (storages st))"
  "kernel_log (snd (at_empty E sz opts st)) = kernel_log st"
  by (simp_all add: at_empty_def)

lemma impl_at_empty_old [simp]:
  "t < length (impls st) \<Longrightarrow> impl (snd (at_empty E sz opts st)) t = impl st t"
  by (simp add: at_empty_def impl_def nth_append)

lemma impl_at_empty_new [simp]:
  "impl (snd (at_empty E sz opts st)) (length (impls st)) =
     \<lparr>scalar_type = opt_dtype opts, layout = opt_layout opts, device = opt_device opts,
      sizes = sz, strides = contiguous_strides sz, storage_offset = 0,
      storage = length (storages st), is_wrapped_number = False\<rparr>"
  by (simp add: at_empty_def impl_def)

lemma storages_at_empty_old [simp]:
  "s < length (storages st) \<Longrightarrow> storages (snd (at_empty E sz opts st)) ! s = storages st ! s"
  by (simp add: at_empty_def nth_append)

lemma storages_at_empty_new [simp]:
  "storages (snd (at_empty E sz opts st)) ! length (storages st) =
     replicate (cells_per (opt_dtype opts) * numel sz) (uninit E)"
  by (simp add: at_empty_def)

lemma read_tensor_at_empty_old:
  "t < length (impls st) \<Longrightarrow> storage (impl st t) < length (storages st) \<Longrightarrow>
   read_tensor (snd (at_empty E sz opts st)) t = read_tensor st t"
  by (simp add: read_tensor_def)

lemma wf_at_empty_old:
  "well_formed st t \<Longrightarrow> well_formed (snd (at_empty E sz opts st)) t"
  by (simp add: well_formed_def)

lemma wf_at_empty_new:
  "well_formed (snd (at_empty E [0] opts st)) (length (impls st))"
  by (simp add: well_formed_def addrs_of_def)

lemma is_complex_at_empty_old [simp]:
  "t < length (impls st) \<Longrightarrow> is_complex (snd (at_empty E sz opts st)) t = is_complex st t"
  by (simp add: is_complex_def)

subsection \<open>resize_inplace\<close>

lemma length_contiguous_strides [simp]: "length (contiguous_strides sz) = length sz"
  by (induction sz) simp_all

lemma resize_eq:
  "resize_inplace E t sz st = (Inr t, snd (resize_inplace E t sz st))"
  by (simp add: resize_inplace_def Let_def)

lemma resize_lengths [simp]:
  "length (impls (snd (resize_inplace E t sz st))) = length (impls st)"
  "length (storages (snd (resize_inplace E t sz st))) = length (storages st)"
  "kernel_log (snd (resize_inplace E t sz st)) = kernel_log st"
  by (simp_all add: resize_inplace_def Let_def)

lemma resize_impl_other [simp]:
  "u \<noteq> t \<Longrightarrow> impl (snd (resize_inplace E t sz st)) u = impl st u"
  by (simp add: resize_inplace_def Let_def impl_def)

lemma resize_impl_same:
  "t < length (impls st) \<Longrightarrow>
   impl (snd (resize_inplace E t sz st)) t =
     (if sizes (impl st t) = sz then impl st t
      else (impl st t)\<lparr>sizes := sz, strides := contiguous_strides sz\<rparr>)"
  by (simp add: resize_inplace_def Let_def impl_def)

lemma resize_fields [simp]:
  assumes "t < length (impls st)"
  shows "sizes (impl (snd (resize_inplace E t sz st)) t) = sz"
    and "scalar_type (impl (snd (resize_inplace E t sz st)) t) = scalar_type (impl st t)"
    and "device (impl (snd (resize_inplace E t sz st)) t) = device (impl st t)"
    and "layout (impl (snd (resize_inplace E t sz st)) t) = layout (impl st t)"
    and "storage (impl (snd (resize_inplace E t sz st)) t) = storage (impl st t)"
    and "storage_offset (impl (snd (resize_inplace E t sz st)) t) = storage_offset (impl st t)"
  using assms by (simp_all add: resize_impl_same)

lemma resize_storage_prefix:
  "i < length (storages st ! s) \<Longrightarrow>
   storages (snd (resize_inplace E t sz st)) ! s ! i = storages st ! s ! i"
  by (cases "storage (impl st t) < length (storages st)")
     (auto simp add: resize_inplace_def Let_def nth_list_update nth_append list_update_beyond)

lemma resize_storage_length_mono:
  "length (storages st ! s) \<le> length (storages (snd (resize_inplace E t sz st)) ! s)"
  by (cases "storage (impl st t) < length (storages st)")
     (auto simp add: resize_inplace_def Let_def nth_list_update list_update_beyond)

lemma resize_storage_enough:
  "storage (impl st t) < length (storages st) \<Longrightarrow> sizes (impl st t) \<noteq> sz \<Longrightarrow>
   cells_per (scalar_type (impl st t)) * (storage_offset (impl st t) + numel sz)
     \<le> length (storages (snd (resize_inplace E t sz st)) ! storage (impl st t))"
  by (simp add: resize_inplace_def Let_def)

lemma elem_in_bounds_mono:
  "elem_in_bounds d cs a \<Longrightarrow> length cs \<le> length cs' \<Longrightarrow> elem_in_bounds d cs' a"
  by (simp add: elem_in_bounds_def split: if_splits)

lemma load_prefix:
  "elem_in_bounds d cs a \<Longrightarrow> (\<And>i. i < length cs \<Longrightarrow> cs' ! i = cs ! i) \<Longrightarrow>
   load d cs' a = load d cs a"
  by (simp add: elem_in_bounds_def load_def split: if_splits)

lemma resize_wf_other:
  assumes "well_formed st u" "u \<noteq> t"
  shows "well_formed (snd (resize_inplace E t sz st)) u"
  using assms
  by (auto simp add: well_formed_def list_all_iff
      intro: elem_in_bounds_mono [OF _ resize_storage_length_mono])

lemma resize_read_other:
  assumes "well_formed st u" "u \<noteq> t"
  shows "read_tensor (snd (resize_inplace E t sz st)) u = read_tensor st u"
  using assms
  by (auto simp add: read_tensor_def well_formed_def list_all_iff
      intro!: load_prefix resize_storage_prefix)

lemma resize_wf_same:
  assumes "well_formed st t"
  shows "well_formed (snd (resize_inplace E t sz st)) t"
proof (cases "sizes (impl st t) = sz")
  case True
  then have "snd (resize_inplace E t sz st) = st"
    by (simp add: resize_inplace_def Let_def)
  with assms show ?thesis by simp
next
  case False
  let ?st = "snd (resize_inplace E t sz st)"
  let ?d = "scalar_type (impl st t)"
  let ?off = "storage_offset (impl st t)"
  from assms have t: "t < length (impls st)" and s: "storage (impl st t) < length (storages st)"
    by (simp_all add: well_formed_def)
  have addrs: "addrs_of (impl ?st t) = [?off ..< ?off + numel sz]"
    using t False by (simp add: resize_impl_same addrs_of_def addrs_contiguous numel_def)
  have enough: "cells_per ?d * (?off + numel sz) \<le> length (storages ?st ! storage (impl st t))"
    using s False by (rule resize_storage_enough)
  have "\<forall>a \<in> set [?off ..< ?off + numel sz].
          elem_in_bounds ?d (storages ?st ! storage (impl st t)) a"
    using enough by (auto simp add: elem_in_bounds_def cells_per_def split: if_splits)
  moreover have "length (strides (impl ?st t)) = length sz"
    using t False by (simp add: resize_impl_same)
  ultimately show ?thesis
    using t s addrs by (simp add: well_formed_def list_all_iff)
qed

subsection \<open>build and call_stub\<close>

lemma partial_overlap_self [simp]: "\<not> partial_overlap st t t"
  by (simp add: partial_overlap_def)

lemma partial_overlap_other_storage:
  "storage (impl st out) \<noteq> storage (impl st inp) \<Longrightarrow> \<not> partial_overlap st out inp"
  by (simp add: partial_overlap_def)

lemma resize_same: "sizes (impl st t) = sz \<Longrightarrow> snd (resize_inplace E t sz st) = st"
  by (simp add: resize_inplace_def Let_def)

lemma resize_self [simp]: "snd (resize_inplace E t (sizes (impl st t)) st) = st"
  by (simp add: resize_inplace_def Let_def)

lemma build_ok:
  assumes "out = inp \<or> storage (impl st out) \<noteq> storage (impl st inp)"
    and "check_all_same_dtype cfg \<longrightarrow> scalar_type (impl st out) = scalar_type (impl st inp)"
    and "device (impl st out) = device (impl st inp)"
    and "sizes (impl st out) = [0] \<or> sizes (impl st out) = sizes (impl st inp)"
  shows "build E cfg out inp st =
           (Inr \<lparr>iter_output = out, iter_input = inp, device_type = device (impl st inp)\<rparr>,
            snd (resize_inplace E out (sizes (impl st inp)) st))"
proof -
  have no: "\<not> partial_overlap st out inp"
    using assms(1) by (auto simp add: partial_overlap_other_storage)
  show ?thesis
  proof (cases "sizes (impl st out) = [0]")
    case True
    with no assms(2,3) show ?thesis
      by (auto simp add: build_def and_then_Inr [OF resize_eq] return_ok_def)
  next
    case False
    with assms(4) have eq: "sizes (impl st out) = sizes (impl st inp)" by simp
    then have "snd (resize_inplace E out (sizes (impl st inp)) st) = st"
      by (rule resize_same)
    with no assms(2,3) False eq show ?thesis
      by (auto simp add: build_def)
  qed
qed

text \<open>A requested output that keeps its shape.\<close>

lemma build_keeps_shape:
  assumes "out = inp \<or> storage (impl st out) \<noteq> storage (impl st inp)"
    and "check_all_same_dtype cfg \<longrightarrow> scalar_type (impl st out) = scalar_type (impl st inp)"
    and "device (impl st out) = device (impl st inp)"
    and "sizes (impl st out) \<noteq> [0]"
    and "broadcast_shapes (sizes (impl st inp)) (sizes (impl st out)) = Some (sizes (impl st out))"
  shows "build E cfg out inp st =
           (Inr \<lparr>iter_output = out, iter_input = inp, device_type = device (impl st inp)\<rparr>, st)"
proof -
  have "\<not> partial_overlap st out inp"
    using assms(1) by (auto simp add: partial_overlap_other_storage)
  with assms(2-5) show ?thesis
    by (auto simp add: build_def)
qed

lemma build_shape_mismatch:
  assumes "out = inp \<or> storage (impl st out) \<noteq> storage (impl st inp)"
    and "check_all_same_dtype cfg \<longrightarrow> scalar_type (impl st out) = scalar_type (impl st inp)"
    and "device (impl st out) = device (impl st inp)"
    and "sizes (impl st out) \<noteq> [0]"
    and "broadcast_shapes (sizes (impl st inp)) (sizes (impl st out)) \<noteq> Some (sizes (impl st out))"
  shows "build E cfg out inp st =
           (Inl (ShapeMismatch, ''shapes cannot be broadcast to the shape of the output''), st)"
proof -
  have "\<not> partial_overlap st out inp"
    using assms(1) by (auto simp add: partial_overlap_other_storage)
  with assms(2-5) show ?thesis
    by (auto simp add: build_def)
qed

lemma plan_and_kernel:
  assumes "out = inp \<or> storage (impl st out) \<noteq> storage (impl st inp)"
    and "check_all_same_dtype cfg \<longrightarrow> scalar_type (impl st out) = scalar_type (impl st inp)"
    and "device (impl st out) = device (impl st inp)"
    and "stubs E s (device (impl st inp)) \<noteq> None"
    and "sizes (impl st out) = [0] \<or> sizes (impl st out) = sizes (impl st inp)"
  shows "and_then (build E cfg out inp) (\<lambda>iter. and_then (call_stub E s args iter) f) st =
         f () (after_unary E s args out inp st)"
proof -
  have "build E cfg out inp st =
          (Inr \<lparr>iter_output = out, iter_input = inp, device_type = device (impl st inp)\<rparr>,
           snd (resize_inplace E out (sizes (impl st inp)) st))"
    using assms(1-3,5) by (rule build_ok)
  then show ?thesis
    using assms(4) by (auto simp add: and_then_def call_stub_def after_unary_def)
qed

lemma plan_and_kernel_keeps_shape:
  assumes "out = inp \<or> storage (impl st out) \<noteq> storage (impl st inp)"
    and "check_all_same_dtype cfg \<longrightarrow> scalar_type (impl st out) = scalar_type (impl st inp)"
    and "device (impl st out) = device (impl st inp)"
    and "stubs E s (device (impl st inp)) \<noteq> None"
    and "sizes (impl st out) \<noteq> [0]"
    and "broadcast_shapes (sizes (impl st inp)) (sizes (impl st out)) = Some (sizes (impl st out))"
  shows "and_then (build E cfg out inp) (\<lambda>iter. and_then (call_stub E s args iter) f) st =
         f () (run_kernel (StubKernel s (device (impl st inp)))
                 (the (stubs E s (device (impl st inp))) args) out inp st)"
proof -
  have "build E cfg out inp st =
          (Inr \<lparr>iter_output = out, iter_input = inp, device_type = device (impl st inp)\<rparr>, st)"
    using assms(1-3,5,6) by (rule build_keeps_shape)
  then show ?thesis
    using assms(4) by (auto simp add: and_then_def call_stub_def)
qed

lemma after_unary_read:
  assumes "well_formed st out" "well_formed st inp"
    and "out = inp \<or> storage (impl st out) \<noteq> storage (impl st inp)"
  shows "read_tensor (after_unary E s args out inp st) out =
         map (kernel_value E s args (device (impl st inp)) (scalar_type (impl st inp))
                (scalar_type (impl st out)))
             (read_tensor st inp)"
proof (cases "out = inp")
  case True
  with assms(1) show ?thesis
    by (simp add: after_unary_def run_kernel_read wf_strides kernel_value_def)
next
  case False
  let ?st = "snd (resize_inplace E out (sizes (impl st inp)) st)"
  let ?k = "the (stubs E s (device (impl st inp))) args"
  from assms(1) have o: "out < length (impls st)" by (simp add: well_formed_def)
  have wfo: "well_formed ?st out" using assms(1) by (rule resize_wf_same)
  have wfi: "well_formed ?st inp" using assms(2) False by (simp add: resize_wf_other)
  have rd: "read_tensor ?st inp = read_tensor st inp"
    using assms(2) False by (simp add: resize_read_other)
  have sz: "sizes (impl ?st inp) = sizes (impl ?st out)"
    using o False by simp
  have "read_tensor (run_kernel (StubKernel s (device (impl st inp))) ?k out inp ?st) out =
         map (\<lambda>e. elem_of (scalar_type (impl ?st out))
                    (?k (scalar_type (impl ?st inp)) (scalar_type (impl ?st out)) e))
             (read_tensor ?st inp)"
    using wfo sz wf_strides [OF wfi] by (rule run_kernel_read)
  then show ?thesis
    using o False rd by (simp add: after_unary_def kernel_value_def)
qed

lemma after_unary_fields [simp]:
  assumes "out < length (impls st)"
  shows "sizes (impl (after_unary E s args out inp st) out) = sizes (impl st inp)"
    and "scalar_type (impl (after_unary E s args out inp st) out) = scalar_type (impl st out)"
    and "device (impl (after_unary E s args out inp st) out) = device (impl st out)"
    and "layout (impl (after_unary E s args out inp st) out) = layout (impl st out)"
    and "storage (impl (after_unary E s args out inp st) out) = storage (impl st out)"
  using assms by (simp_all add: after_unary_def)

lemma after_unary_impl_other [simp]:
  "t \<noteq> out \<Longrightarrow> impl (after_unary E s args out inp st) t = impl st t"
  by (simp add: after_unary_def)

lemma after_unary_log [simp]:
  "kernel_log (after_unary E s args out inp st) =
     kernel_log st @ [StubKernel s (device (impl st inp))]"
  by (simp add: after_unary_def)

lemma after_unary_lengths [simp]:
  "length (impls (after_unary E s args out inp st)) = length (impls st)"
  "length (storages (after_unary E s args out inp st)) = length (storages st)"
  by (simp_all add: after_unary_def)

lemma after_unary_wf:
  "well_formed st out \<Longrightarrow> well_formed (after_unary E s args out inp st) out"
  by (simp add: after_unary_def run_kernel_wf resize_wf_same)

subsection \<open>In-place and fresh outputs\<close>

lemma and_then_assoc:
  "and_then (and_then m f) g = and_then m (\<lambda>x. and_then (f x) g)"
  by (rule ext) (simp add: and_then_def split: prod.splits sum.splits)

lemma options_eq_iff:
  "options st c = options st x \<longleftrightarrow>
     scalar_type (impl st c) = scalar_type (impl st x) \<and>
     layout (impl st c) = layout (impl st x) \<and>
     device (impl st c) = device (impl st x)"
  by (auto simp add: options_def)

lemma options_simps [simp]:
  "opt_dtype (options st t) = scalar_type (impl st t)"
  "opt_layout (options st t) = layout (impl st t)"
  "opt_device (options st t) = device (impl st t)"
  by (simp_all add: options_def)

text \<open>A fresh output and the input it is computed from.\<close>

lemma fresh_plan_and_kernel:
  assumes "well_formed st c"
    and "check_all_same_dtype cfg \<longrightarrow> opt_dtype opts = scalar_type (impl st c)"
    and "opt_device opts = device (impl st c)"
    and "stubs E s (device (impl st c)) \<noteq> None"
  shows "and_then (build E cfg (length (impls st)) c)
           (\<lambda>iter. and_then (call_stub E s args iter) f) (snd (at_empty E [0] opts st)) =
         f () (after_unary E s args (length (impls st)) c (snd (at_empty E [0] opts st)))"
proof -
  from assms(1) have c: "c < length (impls st)" "storage (impl st c) < length (storages st)"
    by (simp_all add: well_formed_def)
  show ?thesis
    by (rule plan_and_kernel) (use c assms(2-4) in simp_all)
qed

lemma fresh_read:
  assumes "well_formed st c"
  shows "read_tensor (after_unary E s args (length (impls st)) c (snd (at_empty E [0] opts st)))
           (length (impls st)) =
         map (kernel_value E s args (device (impl st c)) (scalar_type (impl st c)) (opt_dtype opts))
           (read_tensor st c)"
proof -
  let ?st = "snd (at_empty E [0] opts st)"
  from assms have c: "c < length (impls st)" "storage (impl st c) < length (storages st)"
    by (simp_all add: well_formed_def)
  have "read_tensor (after_unary E s args (length (impls st)) c ?st) (length (impls st)) =
        map (kernel_value E s args (device (impl ?st c)) (scalar_type (impl ?st c))
               (scalar_type (impl ?st (length (impls st)))))
            (read_tensor ?st c)"
    by (rule after_unary_read) (use c assms in \<open>simp_all add: wf_at_empty_new wf_at_empty_old\<close>)
  then show ?thesis
    using c by (simp add: read_tensor_at_empty_old)
qed

lemma inplace_read:
  assumes "well_formed st x"
  shows "read_tensor (after_unary E s args x x st) x =
         map (kernel_value E s args (device (impl st x)) (scalar_type (impl st x))
                (scalar_type (impl st x)))
           (read_tensor st x)"
  by (rule after_unary_read) (use assms in simp_all)

lemma plan_unregistered:
  assumes "out = inp \<or> storage (impl st out) \<noteq> storage (impl st inp)"
    and "check_all_same_dtype cfg \<longrightarrow> scalar_type (impl st out) = scalar_type (impl st inp)"
    and "device (impl st out) = device (impl st inp)"
    and "stubs E s (device (impl st inp)) = None"
    and "sizes (impl st out) = [0] \<or> sizes (impl st out) = sizes (impl st inp)"
  shows "and_then (build E cfg out inp) (\<lambda>iter. and_then (call_stub E s args iter) f) st =
         (Inl (UnsupportedDevice, ''no kernel registered for this device''),
          snd (resize_inplace E out (sizes (impl st inp)) st))"
proof -
  have "build E cfg out inp st =
          (Inr \<lparr>iter_output = out, iter_input = inp, device_type = device (impl st inp)\<rparr>,
           snd (resize_inplace E out (sizes (impl st inp)) st))"
    using assms(1-3,5) by (rule build_ok)
  then show ?thesis
    using assms(4) by (simp add: and_then_def call_stub_def)
qed

lemma direct_agree:
  assumes "well_formed st x" "well_formed st c" "copy_of st c x"
  shows "agree (and_then (build E cfg x x)
                  (\<lambda>iter. and_then (call_stub E s args iter) (\<lambda>_. return_ok x)) st)
               (and_then (build E cfg (length (impls st)) c)
                  (\<lambda>iter. and_then (call_stub E s args iter) (\<lambda>_. return_ok (length (impls st))))
                  (snd (at_empty E [0] (options st c) st)))"
proof (cases "stubs E s (device (impl st x)) = None")
  case True
  from assms(3) have eq: "scalar_type (impl st c) = scalar_type (impl st x)"
    "device (impl st c) = device (impl st x)"
    by (simp_all add: copy_of_def options_eq_iff)
  from assms(2) have c: "c < length (impls st)" "storage (impl st c) < length (storages st)"
    by (simp_all add: well_formed_def)
  have l: "and_then (build E cfg x x)
             (\<lambda>iter. and_then (call_stub E s args iter) (\<lambda>_. return_ok x)) st =
           (Inl (UnsupportedDevice, ''no kernel registered for this device''), st)"
    using True by (simp add: plan_unregistered)
  have r: "fst (and_then (build E cfg (length (impls st)) c)
             (\<lambda>iter. and_then (call_stub E s args iter) (\<lambda>_. return_ok (length (impls st))))
             (snd (at_empty E [0] (options st c) st))) =
           Inl (UnsupportedDevice, ''no kernel registered for this device'')"
    using True c eq by (simp add: plan_unregistered)
  show ?thesis
    using r by (simp add: l agree_def)
next
  case False
  note reg = this
  from assms(3) have eq: "scalar_type (impl st c) = scalar_type (impl st x)"
    "device (impl st c) = device (impl st x)" "sizes (impl st c) = sizes (impl st x)"
    "read_tensor st c = read_tensor st x"
    by (simp_all add: copy_of_def options_eq_iff)
  from assms(1,2) have x: "x < length (impls st)" "c < length (impls st)"
    by (simp_all add: well_formed_def)
  have l: "and_then (build E cfg x x)
             (\<lambda>iter. and_then (call_stub E s args iter) (\<lambda>_. return_ok x)) st =
           (Inr x, after_unary E s args x x st)"
    using reg by (simp add: plan_and_kernel return_ok_def)
  have r: "and_then (build E cfg (length (impls st)) c)
             (\<lambda>iter. and_then (call_stub E s args iter) (\<lambda>_. return_ok (length (impls st))))
             (snd (at_empty E [0] (options st c) st)) =
           (Inr (length (impls st)),
            after_unary E s args (length (impls st)) c (snd (at_empty E [0] (options st c) st)))"
    using assms(2) reg eq by (simp add: fresh_plan_and_kernel return_ok_def)
  show ?thesis
    using assms(1,2) eq x
    by (simp add: l r agree_def inplace_read fresh_read)
qed

lemma and_then_return_fun [simp]: "and_then (return_ok x) f = f x"
  by (rule ext) (simp add: and_then_def return_ok_def)

lemma and_then_throw_fun [simp]: "and_then (throw e) f = throw e"
  by (rule ext) (simp add: and_then_def throw_def)

lemma and_then_check_fun:
  "and_then (TORCH_CHECK c e) f = (if c then f () else throw e)"
  by (rule ext) (simp add: and_then_def TORCH_CHECK_def throw_def)

lemma agree_same_error [simp]: "agree (Inl e, s1) (Inl e, s2)"
  by (simp add: agree_def)

lemma agree_throw [simp]: "agree (throw e s1) (throw e s2)"
  by (simp add: agree_def throw_def)

lemma copy_of_fields:
  assumes "copy_of st c x"
  shows "scalar_type (impl st c) = scalar_type (impl st x)"
    and "layout (impl st c) = layout (impl st x)"
    and "device (impl st c) = device (impl st x)"
    and "sizes (impl st c) = sizes (impl st x)"
    and "is_complex st c = is_complex st x"
  using assms by (simp_all add: copy_of_def options_eq_iff is_complex_def)

lemma agree_unary_op_impl_out:
  assumes "well_formed st x" "well_formed st c" "copy_of st c x"
  shows "agree (unary_op_impl_out E x x s st)
               (unary_op_impl_out E (length (impls st)) c s
                  (snd (at_empty E [0] (options st c) st)))"
  unfolding unary_op_impl_out_def TensorIterator_unary_op_def
  using assms by (rule direct_agree)

lemma agree_plain:
  assumes "well_formed st x" "well_formed st c" "copy_of st c x"
  shows "agree (unary_op_impl_inplace x (\<lambda>r t. unary_op_impl_out E r t s) st)
               (unary_op_impl E c (\<lambda>r t. unary_op_impl_out E r t s) st)"
  using agree_unary_op_impl_out [OF assms]
  by (simp add: unary_op_impl_inplace_def unary_op_impl_def and_then_at_empty)

lemma agree_ceil:
  assumes "well_formed st x" "well_formed st c" "copy_of st c x"
  shows "agree (ceil_inplace E x st) (ceil E c st)"
proof -
  from assms(2) have c: "c < length (impls st)" by (simp add: well_formed_def)
  show ?thesis
    using agree_unary_op_impl_out [OF assms] c copy_of_fields [OF assms(3)]
    by (simp add: ceil_inplace_def ceil_def ceil_out_def unary_op_impl_inplace_def
        unary_op_impl_def and_then_at_empty)
qed

lemma agree_floor:
  assumes "well_formed st x" "well_formed st c" "copy_of st c x"
  shows "agree (floor_inplace E x st) (floor E c st)"
proof -
  from assms(2) have c: "c < length (impls st)" by (simp add: well_formed_def)
  show ?thesis
    using agree_unary_op_impl_out [OF assms] c copy_of_fields [OF assms(3)]
    by (simp add: floor_inplace_def floor_def floor_out_def unary_op_impl_inplace_def
        unary_op_impl_def and_then_at_empty)
qed

lemma agree_trunc:
  assumes "well_formed st x" "well_formed st c" "copy_of st c x"
  shows "agree (trunc_inplace E x st) (trunc E c st)"
proof -
  from assms(2) have c: "c < length (impls st)" by (simp add: well_formed_def)
  show ?thesis
    using agree_unary_op_impl_out [OF assms] c copy_of_fields [OF assms(3)]
    by (simp add: trunc_inplace_def trunc_def trunc_out_def unary_op_impl_inplace_def
        unary_op_impl_def and_then_at_empty)
qed

lemma agree_neg:
  assumes "well_formed st x" "well_formed st c" "copy_of st c x"
  shows "agree (neg_inplace E x st) (neg E c st)"
proof -
  from assms(2) have c: "c < length (impls st)" by (simp add: well_formed_def)
  show ?thesis
    using agree_unary_op_impl_out [OF assms] c copy_of_fields [OF assms(3)]
    by (simp add: neg_inplace_def neg_def neg_out_def unary_op_impl_inplace_def
        unary_op_impl_def and_then_at_empty)
qed

lemma agree_direct_stub:
  assumes "well_formed st x" "well_formed st c" "copy_of st c x"
  shows "agree (and_then (TensorIterator_unary_op E x x True)
                  (\<lambda>iter. and_then (call_stub E s args iter) (\<lambda>_. return_ok x)) st)
               (and_then (TensorIterator_unary_op E (length (impls st)) c True)
                  (\<lambda>iter. and_then (call_stub E s args iter) (\<lambda>_. return_ok (length (impls st))))
                  (snd (at_empty E [0] (options st c) st)))"
  unfolding TensorIterator_unary_op_def
  using assms by (rule direct_agree)

lemma agree_clamp_max:
  assumes "well_formed st x" "well_formed st c" "copy_of st c x"
  shows "agree (clamp_max_inplace E x mx st) (clamp_max E c mx st)"
proof -
  from assms(2) have c: "c < length (impls st)" by (simp add: well_formed_def)
  show ?thesis
    using agree_direct_stub [OF assms] c copy_of_fields [OF assms(3)]
    by (simp add: clamp_max_inplace_def clamp_max_def clamp_max_out_def and_then_at_empty)
qed

lemma agree_clamp_min:
  assumes "well_formed st x" "well_formed st c" "copy_of st c x"
  shows "agree (clamp_min_inplace E x mn st) (clamp_min E c mn st)"
proof -
  from assms(2) have c: "c < length (impls st)" by (simp add: well_formed_def)
  show ?thesis
    using agree_direct_stub [OF assms] c copy_of_fields [OF assms(3)]
    by (simp add: clamp_min_inplace_def clamp_min_def clamp_min_out_def and_then_at_empty)
qed

lemma agree_polygamma:
  assumes "well_formed st x" "well_formed st c" "copy_of st c x"
  shows "agree (polygamma_inplace E x n st) (polygamma E n c st)"
  using agree_direct_stub [OF assms]
  by (simp add: polygamma_inplace_def polygamma_def polygamma_out_def and_then_at_empty
      and_then_assoc and_then_check_fun)

lemma clamp_max_out_returns:
  "and_then (clamp_max_out E result self hi) (\<lambda>_. return_ok result) st =
   clamp_max_out E result self hi st"
  by (simp add: and_then_def clamp_max_out_def TORCH_CHECK_def return_ok_def
      split: prod.splits sum.splits)

lemma clamp_min_out_returns:
  "and_then (clamp_min_out E result self lo) (\<lambda>_. return_ok result) st =
   clamp_min_out E result self lo st"
  by (simp add: and_then_def clamp_min_out_def TORCH_CHECK_def return_ok_def
      split: prod.splits sum.splits)

lemma clamp_out_cases:
  "clamp_out E result self mn mx st =
     (if is_complex st self
      then (Inl (UnsupportedDtype, ''clamp is not yet implemented for complex tensors.''), st)
      else case (mn, mx) of
        (Some lo, Some hi) \<Rightarrow>
          (if layout (impl st self) = Strided
           then and_then (TensorIterator_unary_op E result self True)
                  (\<lambda>iter. and_then (call_stub E clamp_stub (ClampArgs lo hi) iter)
                     (\<lambda>_. return_ok result)) st
           else (Inl (UnsupportedLayout, ''clamp only supports strided layout''), st))
      | (None, Some hi) \<Rightarrow> clamp_max_out E result self hi st
      | (Some lo, None) \<Rightarrow> clamp_min_out E result self lo st
      | (None, None) \<Rightarrow>
          (Inl (InvalidArgument, ''At least one of 'min' or 'max' must not be None''), st))"
  by (simp add: clamp_out_def and_then_assoc and_then_check_fun throw_def
      clamp_max_out_returns clamp_min_out_returns split: option.splits)

lemma agree_clamp:
  assumes "well_formed st x" "well_formed st c" "copy_of st c x"
  shows "agree (clamp_inplace E x mn mx st) (clamp E c mn mx st)"
proof -
  from assms(2) have c: "c < length (impls st)" by (simp add: well_formed_def)
  have mx: "agree (clamp_max_out E x x hi st)
                  (clamp_max_out E (length (impls st)) c hi (snd (at_empty E [0] (options st c) st)))" for hi
    using agree_clamp_max [OF assms, where mx = hi and E = E]
    by (simp add: clamp_max_inplace_def clamp_max_def and_then_at_empty)
  have mn: "agree (clamp_min_out E x x lo st)
                  (clamp_min_out E (length (impls st)) c lo (snd (at_empty E [0] (options st c) st)))" for lo
    using agree_clamp_min [OF assms, where mn = lo and E = E]
    by (simp add: clamp_min_inplace_def clamp_min_def and_then_at_empty)
  have both: "agree (and_then (TensorIterator_unary_op E x x True)
                  (\<lambda>iter. and_then (call_stub E clamp_stub (ClampArgs lo hi) iter)
                     (\<lambda>_. return_ok x)) st)
               (and_then (TensorIterator_unary_op E (length (impls st)) c True)
                  (\<lambda>iter. and_then (call_stub E clamp_stub (ClampArgs lo hi) iter)
                     (\<lambda>_. return_ok (length (impls st))))
                  (snd (at_empty E [0] (options st c) st)))" for lo hi
    using assms by (rule agree_direct_stub)
  show ?thesis
    using c copy_of_fields [OF assms(3)] mx mn both
    by (simp add: clamp_inplace_def clamp_def and_then_at_empty clamp_out_cases
        split: option.splits)
qed

subsection \<open>The complex-to-real path\<close>

lemma not_complex_toValueType [simp]: "\<not> isComplexType (toValueType d)"
  by (cases d) simp_all

lemma toValueType_real [simp]: "\<not> isComplexType d \<Longrightarrow> toValueType d = d"
  by (cases d) simp_all

lemma complex_to_float_out_direct:
  "\<not> (is_complex st self \<and> \<not> is_complex st result) \<Longrightarrow>
   unary_op_impl_with_complex_to_float_out E result self s st =
   unary_op_impl_out E result self s st"
  by (auto simp add: unary_op_impl_with_complex_to_float_out_def)

lemma complex_to_float_out_invalid_cast:
  "is_complex st self \<Longrightarrow> \<not> is_complex st result \<Longrightarrow>
   \<not> canCast E (toValueType (scalar_type (impl st self))) (scalar_type (impl st result)) \<Longrightarrow>
   unary_op_impl_with_complex_to_float_out E result self s st =
   (Inl (InvalidCast, ''result type can't be cast to the desired output type''), st)"
  by (simp add: unary_op_impl_with_complex_to_float_out_def)

lemma and_then_resize:
  "and_then (\<lambda>s. resize_inplace E t (g s) s) f st = f t (snd (resize_inplace E t (g st) st))"
  by (simp add: and_then_def resize_inplace_def Let_def)

lemma and_then_copy:
  "sizes (impl st dst) = sizes (impl st src) \<Longrightarrow>
   and_then (copy_inplace E dst src) f st =
   f dst (run_kernel CopyKernel (copy_cast E) dst src st)"
  by (simp add: and_then_def copy_inplace_def)

lemma complex_to_float_out_ok:
  assumes "well_formed st result" "well_formed st self"
    and "is_complex st self" "\<not> is_complex st result"
    and "canCast E (toValueType (scalar_type (impl st self))) (scalar_type (impl st result))"
    and "stubs E s (device (impl st self)) \<noteq> None"
  shows "unary_op_impl_with_complex_to_float_out E result self s st =
         (Inr result, after_complex_to_float E s result self st)"
proof -
  let ?t = "length (impls st)"
  let ?a = "snd (at_empty E [0] (options st self) st)"
  let ?b = "after_unary E s NoArgs ?t self ?a"
  from assms(1,2) have r: "result < ?t" and sf: "self < ?t"
    by (simp_all add: well_formed_def)
  have plan: "and_then (build E \<lparr>check_all_same_dtype = True, check_mem_overlap = True\<rparr> ?t self)
           (\<lambda>iter. and_then (call_stub E s NoArgs iter) f) ?a = f () ?b" for f
    by (rule fresh_plan_and_kernel) (use assms(2,6) in simp_all)
  have sz: "sizes (impl ?b ?t) = sizes (impl st self)"
    using sf by simp
  have eq: "sizes (impl (snd (resize_inplace E result (sizes (impl st self)) ?b)) result) =
            sizes (impl (snd (resize_inplace E result (sizes (impl st self)) ?b)) ?t)"
    using r sf by simp
  show ?thesis
    using assms(3-5)
    by (simp add: unary_op_impl_with_complex_to_float_out_def and_then_at_empty
        TensorIterator_unary_op_def plan and_then_resize sz and_then_copy [OF eq]
        return_ok_def after_complex_to_float_def)
qed

lemma after_unary_wf_any:
  "well_formed st u \<Longrightarrow> well_formed (after_unary E s args out inp st) u"
  by (cases "u = out") (simp_all add: after_unary_def run_kernel_wf resize_wf_same resize_wf_other)

lemma after_complex_to_float_read:
  assumes "well_formed st result" "well_formed st self"
  shows "read_tensor (after_complex_to_float E s result self st) result =
         map (cast_value E (scalar_type (impl st self)) (scalar_type (impl st result)))
           (map (kernel_value E s NoArgs (device (impl st self)) (scalar_type (impl st self))
                   (scalar_type (impl st self)))
              (read_tensor st self))"
proof -
  let ?t = "length (impls st)"
  let ?a = "snd (at_empty E [0] (options st self) st)"
  let ?b = "after_unary E s NoArgs ?t self ?a"
  let ?c = "snd (resize_inplace E result (sizes (impl st self)) ?b)"
  from assms have r: "result < ?t" and sf: "self < ?t"
    by (simp_all add: well_formed_def)
  have wft_b: "well_formed ?b ?t"
    by (simp add: after_unary_wf wf_at_empty_new)
  have wfr_b: "well_formed ?b result"
    using assms(1) by (simp add: after_unary_wf_any wf_at_empty_old)
  have wfr_c: "well_formed ?c result"
    using wfr_b by (rule resize_wf_same)
  have wft_c: "well_formed ?c ?t"
    using wft_b r by (simp add: resize_wf_other)
  have rd_b: "read_tensor ?b ?t =
              map (kernel_value E s NoArgs (device (impl st self)) (scalar_type (impl st self))
                     (scalar_type (impl st self)))
                (read_tensor st self)"
    using fresh_read [OF assms(2), of E s NoArgs "options st self"] by simp
  have rd_c: "read_tensor ?c ?t = read_tensor ?b ?t"
    using wft_b r by (simp add: resize_read_other)
  have len: "sizes (impl ?c ?t) = sizes (impl ?c result)"
    using r sf by simp
  have "read_tensor (run_kernel CopyKernel (copy_cast E) result ?t ?c) result =
        map (\<lambda>e. elem_of (scalar_type (impl ?c result))
                   (copy_cast E (scalar_type (impl ?c ?t)) (scalar_type (impl ?c result)) e))
            (read_tensor ?c ?t)"
    using wfr_c len wf_strides [OF wft_c] by (rule run_kernel_read)
  then show ?thesis
    using r sf by (simp add: after_complex_to_float_def rd_c rd_b cast_value_def)
qed

lemma after_complex_to_float_fields:
  assumes "result < length (impls st)" "self < length (impls st)"
  shows "sizes (impl (after_complex_to_float E s result self st) result) = sizes (impl st self)"
    and "scalar_type (impl (after_complex_to_float E s result self st) result) =
         scalar_type (impl st result)"
    and "impl (after_complex_to_float E s result self st) (length (impls st)) =
         \<lparr>scalar_type = scalar_type (impl st self), layout = layout (impl st self),
          device = device (impl st self), sizes = sizes (impl st self),
          strides = strides (impl (after_complex_to_float E s result self st) (length (impls st))),
          storage_offset = 0, storage = length (storages st), is_wrapped_number = False\<rparr>"
    and "kernel_log (after_complex_to_float E s result self st) =
         kernel_log st @ [StubKernel s (device (impl st self)), CopyKernel]"
    and "length (impls (after_complex_to_float E s result self st)) = Suc (length (impls st))"
    and "length (storages (after_complex_to_float E s result self st)) = Suc (length (storages st))"
  using assms by (simp_all add: after_complex_to_float_def after_unary_def resize_impl_same)

lemma unary_op_impl_out_inplace_ok:
  assumes "stubs E s (device (impl st x)) \<noteq> None"
  shows "unary_op_impl_out E x x s st = (Inr x, after_unary E s NoArgs x x st)"
  using assms
  by (simp add: unary_op_impl_out_def TensorIterator_unary_op_def plan_and_kernel return_ok_def)

lemma unary_op_impl_out_fresh_ok:
  assumes "well_formed st c" "opt_dtype opts = scalar_type (impl st c)"
    and "opt_device opts = device (impl st c)"
    and "stubs E s (device (impl st c)) \<noteq> None"
  shows "unary_op_impl_out E (length (impls st)) c s (snd (at_empty E [0] opts st)) =
         (Inr (length (impls st)),
          after_unary E s NoArgs (length (impls st)) c (snd (at_empty E [0] opts st)))"
  using assms
  by (simp add: unary_op_impl_out_def TensorIterator_unary_op_def fresh_plan_and_kernel
      return_ok_def)

lemma with_complex_to_float_complex_ok:
  assumes "well_formed st c" "is_complex st c"
    and "canCast E (toValueType (scalar_type (impl st c))) (toValueType (scalar_type (impl st c)))"
    and "stubs E s (device (impl st c)) \<noteq> None"
  shows "unary_op_impl_with_complex_to_float E c
           (\<lambda>r t. unary_op_impl_with_complex_to_float_out E r t s) st =
         (Inr (length (impls st)),
          after_complex_to_float E s (length (impls st)) c
            (snd (at_empty E [0]
               ((options st c)\<lparr>opt_dtype := toValueType (scalar_type (impl st c))\<rparr>) st)))"
proof -
  let ?a = "snd (at_empty E [0]
               ((options st c)\<lparr>opt_dtype := toValueType (scalar_type (impl st c))\<rparr>) st)"
  from assms(1) have c: "c < length (impls st)" by (simp add: well_formed_def)
  have "unary_op_impl_with_complex_to_float_out E (length (impls st)) c s ?a =
        (Inr (length (impls st)), after_complex_to_float E s (length (impls st)) c ?a)"
    by (rule complex_to_float_out_ok)
       (use assms c in \<open>simp_all add: wf_at_empty_new wf_at_empty_old is_complex_def\<close>)
  then show ?thesis
    using assms(2) by (simp add: unary_op_impl_with_complex_to_float_def and_then_at_empty)
qed

lemma with_complex_to_float_real:
  assumes "\<not> is_complex st c" "c < length (impls st)"
  shows "unary_op_impl_with_complex_to_float E c
           (\<lambda>r t. unary_op_impl_with_complex_to_float_out E r t s) st =
         unary_op_impl_out E (length (impls st)) c s (snd (at_empty E [0] (options st c) st))"
  using assms
  by (simp add: unary_op_impl_with_complex_to_float_def and_then_at_empty
      complex_to_float_out_direct)

lemma abs_inplace_direct: "abs_inplace E x st = unary_op_impl_out E x x abs_stub st"
  by (simp add: abs_inplace_def unary_op_impl_inplace_def abs_out_def complex_to_float_out_direct)

lemma abs_op_unfold:
  "abs_op E c = unary_op_impl_with_complex_to_float E c
                  (\<lambda>r t. unary_op_impl_with_complex_to_float_out E r t abs_stub)"
  by (simp add: abs_op_def abs_out_def [abs_def])

lemma agree_abs_real:
  assumes "well_formed st x" "well_formed st c" "copy_of st c x"
    and "\<not> is_complex st x"
  shows "agree (abs_inplace E x st) (abs_op E c st)"
proof -
  from assms(2) have c: "c < length (impls st)" by (simp add: well_formed_def)
  from assms(3,4) have nc: "\<not> is_complex st c" by (simp add: copy_of_fields)
  show ?thesis
    using agree_unary_op_impl_out [OF assms(1-3), where s = abs_stub and E = E]
    by (simp add: abs_inplace_direct abs_op_unfold with_complex_to_float_real [OF nc c])
qed

lemma abs_complex:
  assumes "well_formed st x" "well_formed st c" "copy_of st c x"
    and "stubs E abs_stub (device (impl st x)) \<noteq> None" "is_complex st x"
    and "canCast E (toValueType (scalar_type (impl st x))) (toValueType (scalar_type (impl st x)))"
  shows "fst (abs_inplace E x st) = Inr x \<and>
         fst (abs_op E c st) = Inr (length (impls st)) \<and>
         scalar_type (impl (snd (abs_inplace E x st)) x) = scalar_type (impl st x) \<and>
         scalar_type (impl (snd (abs_op E c st)) (length (impls st))) =
           toValueType (scalar_type (impl st x)) \<and>
         sizes (impl (snd (abs_op E c st)) (length (impls st))) =
           sizes (impl (snd (abs_inplace E x st)) x) \<and>
         read_tensor (snd (abs_op E c st)) (length (impls st)) =
           map (cast_value E (scalar_type (impl st x)) (toValueType (scalar_type (impl st x))))
             (read_tensor (snd (abs_inplace E x st)) x)"
proof -
  let ?ft = "toValueType (scalar_type (impl st x))"
  let ?a = "snd (at_empty E [0] ((options st c)\<lparr>opt_dtype := ?ft\<rparr>) st)"
  from assms(1,2) have x: "x < length (impls st)" and c: "c < length (impls st)"
    by (simp_all add: well_formed_def)
  note eq = copy_of_fields [OF assms(3)]
  have rd: "read_tensor st c = read_tensor st x"
    using assms(3) by (simp add: copy_of_def)
  have reg: "stubs E abs_stub (device (impl st x)) \<noteq> None"
    using assms(4) .
  have l: "abs_inplace E x st = (Inr x, after_unary E abs_stub NoArgs x x st)"
    using reg by (simp add: abs_inplace_direct unary_op_impl_out_inplace_ok)
  have r: "abs_op E c st =
           (Inr (length (impls st)), after_complex_to_float E abs_stub (length (impls st)) c ?a)"
    unfolding abs_op_unfold
    using with_complex_to_float_complex_ok [OF assms(2), of E abs_stub] assms(5,6) reg eq
    by simp
  have rd_r: "read_tensor (after_complex_to_float E abs_stub (length (impls st)) c ?a)
                (length (impls st)) =
              map (cast_value E (scalar_type (impl st x)) ?ft)
                (map (kernel_value E abs_stub NoArgs (device (impl st x))
                        (scalar_type (impl st x)) (scalar_type (impl st x)))
                   (read_tensor st x))"
  proof -
    have w1: "well_formed ?a (length (impls st))" by (rule wf_at_empty_new)
    have w2: "well_formed ?a c" using assms(2) by (rule wf_at_empty_old)
    have "storage (impl st c) < length (storages st)"
      using assms(2) by (simp add: well_formed_def)
    then have "read_tensor ?a c = read_tensor st x"
      using c rd by (simp add: read_tensor_at_empty_old)
    then show ?thesis
      using after_complex_to_float_read [OF w1 w2, of E abs_stub] c eq by simp
  qed
  show ?thesis
    using x c eq assms(1)
    by (simp add: l r rd_r inplace_read after_complex_to_float_fields)
qed

lemma agree_logical_not_bool:
  assumes "well_formed st x" "well_formed st c" "copy_of st c x"
    and "scalar_type (impl st x) = kBool"
  shows "agree (logical_not_inplace E x st) (logical_not E c st)"
proof -
  have "(options st c)\<lparr>opt_dtype := kBool\<rparr> = options st c"
    using assms(3,4) by (simp add: copy_of_def options_def)
  then show ?thesis
    using direct_agree [OF assms(1-3), where s = logical_not_stub
        and cfg = "\<lparr>check_all_same_dtype = False, check_mem_overlap = True\<rparr>" and args = NoArgs]
    by (simp add: logical_not_inplace_def logical_not_def logical_not_out_def and_then_at_empty)
qed

lemma after_complex_to_float_read_temp:
  assumes "well_formed st result" "well_formed st self"
  shows "read_tensor (after_complex_to_float E s result self st) (length (impls st)) =
         map (kernel_value E s NoArgs (device (impl st self)) (scalar_type (impl st self))
                (scalar_type (impl st self)))
           (read_tensor st self)"
proof -
  let ?t = "length (impls st)"
  let ?a = "snd (at_empty E [0] (options st self) st)"
  let ?b = "after_unary E s NoArgs ?t self ?a"
  let ?c = "snd (resize_inplace E result (sizes (impl st self)) ?b)"
  from assms have r: "result < ?t" and sf: "self < ?t"
    and sr: "storage (impl st result) < length (storages st)"
    by (simp_all add: well_formed_def)
  have wft_b: "well_formed ?b ?t"
    by (simp add: after_unary_wf wf_at_empty_new)
  have rd_b: "read_tensor ?b ?t =
              map (kernel_value E s NoArgs (device (impl st self)) (scalar_type (impl st self))
                     (scalar_type (impl st self)))
                (read_tensor st self)"
    using fresh_read [OF assms(2), of E s NoArgs "options st self"] by simp
  have rd_c: "read_tensor ?c ?t = read_tensor ?b ?t"
    using wft_b r by (simp add: resize_read_other)
  have "storage (impl ?c ?t) \<noteq> storage (impl ?c result)"
    using r sf sr by simp
  then have "read_tensor (run_kernel CopyKernel (copy_cast E) result ?t ?c) ?t = read_tensor ?c ?t"
    by (rule run_kernel_read_other)
  then show ?thesis
    by (simp add: after_complex_to_float_def rd_c rd_b)
qed

lemma plan_no_kernel:
  assumes "stubs E s (device (impl st inp)) = None"
  shows "\<exists>e st'. and_then (build E cfg out inp) (\<lambda>iter. and_then (call_stub E s args iter) f) st =
           (Inl e, st')"
proof (cases "build E cfg out inp st")
  case (Pair res st')
  show ?thesis
  proof (cases res)
    case (Inl e)
    with Pair show ?thesis by (simp add: and_then_def)
  next
    case (Inr iter)
    with Pair have "device_type iter = device (impl st inp)"
      by (auto simp add: build_def and_then_def resize_inplace_def Let_def return_ok_def
          split: if_splits)
    with Pair Inr assms show ?thesis
      by (simp add: and_then_def call_stub_def)
  qed
qed

lemma after_complex_to_float_temp:
  assumes "result < length (impls st)" "self < length (impls st)"
  shows "scalar_type (impl (after_complex_to_float E s result self st) (length (impls st))) =
         scalar_type (impl st self)"
    and "layout (impl (after_complex_to_float E s result self st) (length (impls st))) =
         layout (impl st self)"
    and "device (impl (after_complex_to_float E s result self st) (length (impls st))) =
         device (impl st self)"
    and "sizes (impl (after_complex_to_float E s result self st) (length (impls st))) =
         sizes (impl st self)"
    and "storage (impl (after_complex_to_float E s result self st) (length (impls st))) =
         length (storages st)"
  using assms by (simp_all add: after_complex_to_float_def after_unary_def resize_impl_same)

lemma after_complex_to_float_result:
  assumes "result < length (impls st)"
  shows "layout (impl (after_complex_to_float E s result self st) result) = layout (impl st result)"
    and "device (impl (after_complex_to_float E s result self st) result) = device (impl st result)"
    and "storage (impl (after_complex_to_float E s result self st) result) =
         storage (impl st result)"
  using assms by (simp_all add: after_complex_to_float_def)

lemma complex_to_float_out_policy_holds:
  assumes "well_formed st result" "well_formed st self"
  shows "complex_to_float_policy E s result self st
           (unary_op_impl_with_complex_to_float_out E result self s st)"
proof (cases "is_complex st self \<and> \<not> is_complex st result")
  case False
  then have "unary_op_impl_with_complex_to_float_out E result self s st =
             unary_op_impl_out E result self s st"
    by (rule complex_to_float_out_direct)
  with False show ?thesis
    unfolding complex_to_float_policy_def Let_def by (simp only: if_False)
next
  case True
  note c = this
  show ?thesis
  proof (cases "canCast E (toValueType (scalar_type (impl st self))) (scalar_type (impl st result))")
    case False
    with c show ?thesis
      by (simp add: complex_to_float_policy_def complex_to_float_out_invalid_cast Let_def)
  next
    case True
    note cc = this
    show ?thesis
    proof (cases "stubs E s (device (impl st self)) = None")
      case True
      with c cc show ?thesis
        by (simp add: complex_to_float_policy_def Let_def)
    next
      case False
      from assms have r: "result < length (impls st)" and sf: "self < length (impls st)"
        by (simp_all add: well_formed_def)
      have eq: "unary_op_impl_with_complex_to_float_out E result self s st =
                (Inr result, after_complex_to_float E s result self st)"
        using assms c cc False by (simp add: complex_to_float_out_ok)
      show ?thesis
        using c cc False r sf
        by (simp add: complex_to_float_policy_def Let_def eq options_def
            after_complex_to_float_temp
            after_complex_to_float_fields(1,2,4,5,6) after_complex_to_float_read [OF assms]
            after_complex_to_float_read_temp [OF assms] is_complex_def)
    qed
  qed
qed

lemma unary_op_impl_out_no_kernel:
  assumes "stubs E s (device (impl st self)) = None"
  shows "\<exists>e st'. unary_op_impl_out E result self s st = (Inl e, st')"
  unfolding unary_op_impl_out_def TensorIterator_unary_op_def
  using assms by (rule plan_no_kernel)

lemma complex_to_float_out_no_kernel:
  assumes "stubs E s (device (impl st self)) = None" "self < length (impls st)"
  shows "\<exists>e st'. unary_op_impl_with_complex_to_float_out E result self s st = (Inl e, st')"
proof (cases "is_complex st self \<and> \<not> is_complex st result")
  case False
  then show ?thesis
    using unary_op_impl_out_no_kernel [OF assms(1)]
    by (simp add: complex_to_float_out_direct)
next
  case True
  let ?a = "snd (at_empty E [0] (options st self) st)"
  have "stubs E s (device (impl ?a self)) = None"
    using assms by simp
  then obtain e st' where
    "and_then (build E \<lparr>check_all_same_dtype = True, check_mem_overlap = True\<rparr>
                (length (impls st)) self)
       (\<lambda>iter. and_then (call_stub E s NoArgs iter)
          (\<lambda>_. and_then (\<lambda>s. resize_inplace E result (sizes (impl s (length (impls st)))) s)
             (\<lambda>_. and_then (copy_inplace E result (length (impls st)))
                (\<lambda>_. return_ok result)))) ?a = (Inl e, st')"
    using plan_no_kernel by blast
  with True show ?thesis
    by (simp add: unary_op_impl_with_complex_to_float_out_def and_then_at_empty
        TensorIterator_unary_op_def throw_def and_then_check_fun)
qed

lemma with_complex_to_float_result:
  assumes "well_formed st x"
    and "unary_op_impl_with_complex_to_float E x
           (\<lambda>r t. unary_op_impl_with_complex_to_float_out E r t s) st = (Inr r, st')"
  shows "r = length (impls st) \<and>
         scalar_type (impl st' r) = toValueType (scalar_type (impl st x)) \<and>
         layout (impl st' r) = layout (impl st x) \<and>
         device (impl st' r) = device (impl st x) \<and>
         sizes (impl st' r) = sizes (impl st x)"
proof -
  from assms(1) have x: "x < length (impls st)" by (simp add: well_formed_def)
  have reg: "stubs E s (device (impl st x)) \<noteq> None"
  proof
    assume n: "stubs E s (device (impl st x)) = None"
    have nk: "\<exists>e st'. unary_op_impl_with_complex_to_float_out E (length (impls st)) x s
                     (snd (at_empty E [0] opts st)) = (Inl e, st')" for opts
      by (rule complex_to_float_out_no_kernel) (use n x in simp_all)
    from nk [of "options st x"]
      nk [of "(options st x)\<lparr>opt_dtype := toValueType (scalar_type (impl st x))\<rparr>"] assms(2)
    show False
      by (auto simp add: unary_op_impl_with_complex_to_float_def and_then_at_empty Let_def
          split: if_splits)
  qed
  show ?thesis
  proof (cases "is_complex st x")
    case False
    with assms(2) reg x show ?thesis
      using unary_op_impl_out_fresh_ok [OF assms(1), of "options st x" E s]
      by (auto simp add: with_complex_to_float_real is_complex_def)
  next
    case True
    let ?ft = "toValueType (scalar_type (impl st x))"
    let ?a = "snd (at_empty E [0] ((options st x)\<lparr>opt_dtype := ?ft\<rparr>) st)"
    have cc: "canCast E ?ft ?ft"
    proof (rule ccontr)
      assume "\<not> canCast E ?ft ?ft"
      then have "unary_op_impl_with_complex_to_float_out E (length (impls st)) x s ?a =
            (Inl (InvalidCast, ''result type can't be cast to the desired output type''), ?a)"
        using True x by (simp add: complex_to_float_out_invalid_cast is_complex_def)
      with assms(2) True show False
        by (simp add: unary_op_impl_with_complex_to_float_def and_then_at_empty)
    qed
    from with_complex_to_float_complex_ok [OF assms(1) True cc reg] assms(2) x
    show ?thesis
      by (auto simp add: after_complex_to_float_fields after_complex_to_float_result)
  qed
qed

lemma with_complex_to_float_success:
  assumes "well_formed st x"
    and "is_complex st x \<longrightarrow>
         canCast E (toValueType (scalar_type (impl st x))) (toValueType (scalar_type (impl st x)))"
    and "stubs E s (device (impl st x)) \<noteq> None"
  shows "fst (unary_op_impl_with_complex_to_float E x
                (\<lambda>r t. unary_op_impl_with_complex_to_float_out E r t s) st) =
         Inr (length (impls st))"
proof (cases "is_complex st x")
  case True
  with with_complex_to_float_complex_ok [OF assms(1), of E s] assms(2,3) show ?thesis
    by simp
next
  case False
  from assms(1) have x: "x < length (impls st)" by (simp add: well_formed_def)
  show ?thesis
    using unary_op_impl_out_fresh_ok [OF assms(1), of "options st x" E s] assms(3)
    by (simp add: with_complex_to_float_real [OF False x])
qed

lemma returns_value_type_holds:
  assumes "well_formed st x"
  shows "returns_value_type E s x st
           (unary_op_impl_with_complex_to_float E x
              (\<lambda>r t. unary_op_impl_with_complex_to_float_out E r t s) st)"
proof -
  let ?res = "unary_op_impl_with_complex_to_float E x
                (\<lambda>r t. unary_op_impl_with_complex_to_float_out E r t s) st"
  have a: "(is_complex st x \<longrightarrow>
             canCast E (toValueType (scalar_type (impl st x)))
               (toValueType (scalar_type (impl st x)))) \<and>
           stubs E s (device (impl st x)) \<noteq> None \<longrightarrow> fst ?res = Inr (length (impls st))"
    using with_complex_to_float_success [OF assms] by blast
  have b: "r = length (impls st) \<and>
           scalar_type (impl (snd ?res) r) = toValueType (scalar_type (impl st x)) \<and>
           layout (impl (snd ?res) r) = layout (impl st x) \<and>
           device (impl (snd ?res) r) = device (impl st x)" if "fst ?res = Inr r" for r
  proof -
    from that have "?res = (Inr r, snd ?res)" by (metis prod.collapse)
    from with_complex_to_float_result [OF assms this] show ?thesis by (elim conjE) blast
  qed
  show ?thesis
  proof (cases "fst ?res")
    case (Inl e)
    with a show ?thesis
      by (simp add: returns_value_type_def Let_def)
  next
    case (Inr r)
    from b [OF Inr] have r: "r = length (impls st)"
      by (rule conjunct1)
    from b [OF Inr] have f: "scalar_type (impl (snd ?res) (length (impls st))) =
              toValueType (scalar_type (impl st x))"
        "layout (impl (snd ?res) (length (impls st))) = layout (impl st x)"
        "device (impl (snd ?res) (length (impls st))) = device (impl st x)"
      unfolding r by simp_all
    show ?thesis
      using Inr r f
      by (simp add: returns_value_type_def Let_def options_def is_complex_def)
  qed
qed

subsection \<open>The checks of clamp, polygamma and mvlgamma\<close>

lemma fails_with_Inl [simp]: "fails_with k (Inl (k', msg), st) = (k' = k)"
  by (simp add: fails_with_def)

lemma fails_with_throw [simp]: "fails_with k (throw (k', msg) st) = (k' = k)"
  by (simp add: fails_with_def throw_def)

lemma clamp_max_out_cases:
  "clamp_max_out E result self hi st =
     (if is_complex st self
      then (Inl (UnsupportedDtype, ''clamp is not yet implemented for complex tensors.''), st)
      else if layout (impl st self) \<noteq> Strided
      then (Inl (UnsupportedLayout, ''clamp_max only supports strided layout''), st)
      else and_then (TensorIterator_unary_op E result self True)
             (\<lambda>iter. and_then (call_stub E clamp_max_stub (ScalarArg hi) iter)
                (\<lambda>_. return_ok result)) st)"
  by (simp add: clamp_max_out_def)

lemma clamp_min_out_cases:
  "clamp_min_out E result self lo st =
     (if is_complex st self
      then (Inl (UnsupportedDtype, ''clamp is not yet implemented for complex tensors.''), st)
      else if layout (impl st self) \<noteq> Strided
      then (Inl (UnsupportedLayout, ''clamp_min only supports strided layout''), st)
      else and_then (TensorIterator_unary_op E result self True)
             (\<lambda>iter. and_then (call_stub E clamp_min_stub (ScalarArg lo) iter)
                (\<lambda>_. return_ok result)) st)"
  by (simp add: clamp_min_out_def)

lemma clamp_out_rejects:
  shows "is_complex st self \<Longrightarrow> fails_with UnsupportedDtype (clamp_out E result self mn mx st)"
    and "\<not> is_complex st self \<Longrightarrow> mn = None \<Longrightarrow> mx = None \<Longrightarrow>
         fails_with InvalidArgument (clamp_out E result self mn mx st)"
    and "\<not> is_complex st self \<Longrightarrow> mn \<noteq> None \<or> mx \<noteq> None \<Longrightarrow>
         layout (impl st self) \<noteq> Strided \<Longrightarrow>
         fails_with UnsupportedLayout (clamp_out E result self mn mx st)"
  by (auto simp add: clamp_out_cases clamp_max_out_cases clamp_min_out_cases split: option.splits)

lemma clamp_rejects:
  assumes "is_tensor st self"
  shows "is_complex st self \<Longrightarrow> fails_with UnsupportedDtype (clamp E self mn mx st)"
    and "\<not> is_complex st self \<Longrightarrow> mn = None \<Longrightarrow> mx = None \<Longrightarrow>
         fails_with InvalidArgument (clamp E self mn mx st)"
    and "\<not> is_complex st self \<Longrightarrow> mn \<noteq> None \<or> mx \<noteq> None \<Longrightarrow>
         layout (impl st self) \<noteq> Strided \<Longrightarrow>
         fails_with UnsupportedLayout (clamp E self mn mx st)"
  using assms
  by (simp_all add: clamp_def and_then_at_empty clamp_out_rejects is_tensor_def)











subsection \<open>Views of the real and imaginary parts\<close>

lemma addrs_doubled:
  "length ss = length ns \<Longrightarrow>
   addrs ns (map (\<lambda>s. 2 * s) ss) (2 * off + j) = map (\<lambda>a. 2 * a + j) (addrs ns ss off)"
proof (induction ns ss off rule: addrs.induct)
  case (1 ss off)
  then show ?case by simp
next
  case (2 n ns off)
  then show ?case by simp
next
  case (3 n ns s ss off)
  have "addrs ns (map (\<lambda>s. 2 * s) ss) (2 * off + j + i * (2 * s)) =
        map (\<lambda>a. 2 * a + j) (addrs ns ss (off + i * s))" if "i < n" for i
  proof -
    have e: "2 * off + j + i * (2 * s) = 2 * (off + i * s) + j"
      by (simp add: algebra_simps)
    from that have "i \<in> set [0..<n]" by simp
    from "3.IH" [OF this] "3.prems" show ?thesis
      unfolding e by simp
  qed
  then have m: "map (\<lambda>i. addrs ns (map (\<lambda>s. 2 * s) ss) (2 * off + j + i * (2 * s))) [0..<n] =
                map (\<lambda>i. map (\<lambda>a. 2 * a + j) (addrs ns ss (off + i * s))) [0..<n]"
    by simp
  have "addrs (n # ns) (map (\<lambda>s. 2 * s) (s # ss)) (2 * off + j) =
        concat (map (\<lambda>i. addrs ns (map (\<lambda>s. 2 * s) ss) (2 * off + j + i * (2 * s))) [0..<n])"
    by simp
  also have "\<dots> = concat (map (\<lambda>i. map (\<lambda>a. 2 * a + j) (addrs ns ss (off + i * s))) [0..<n])"
    by (simp only: m)
  also have "\<dots> = map (\<lambda>a. 2 * a + j) (addrs (n # ns) (s # ss) off)"
    by (simp add: map_concat comp_def)
  finally show ?case .
qed

lemma select_last_of_view:
  assumes "self < length (impls st)"
    and "length (strides (impl st self)) = length (sizes (impl st self))"
    and "idx < 2"
  shows "and_then (view_complex_as_float self)
           (\<lambda>float_tensor s. select float_tensor (dim s float_tensor - 1) idx s) st =
         (Inr (Suc (length (impls st))),
          st\<lparr>impls := impls st @
                [(impl st self)\<lparr>scalar_type := toValueType (scalar_type (impl st self)),
                   sizes := sizes (impl st self) @ [2],
                   strides := map (\<lambda>s. 2 * s) (strides (impl st self)) @ [1],
                   storage_offset := 2 * storage_offset (impl st self)\<rparr>,
                 (impl st self)\<lparr>scalar_type := toValueType (scalar_type (impl st self)),
                   strides := map (\<lambda>s. 2 * s) (strides (impl st self)),
                   storage_offset := 2 * storage_offset (impl st self) + idx\<rparr>]\<rparr>)"
  using assms
  by (simp add: and_then_def view_complex_as_float_def select_def dim_def impl_def Let_def
      nth_append)

lemma component_load:
  assumes "isComplexType d" "\<not> isComplexType d'" "idx < 2"
  shows "load d' cells (2 * a + idx) = component idx (load d cells a)"
proof (cases "idx = 0")
  case True
  with assms show ?thesis by (simp add: load_def)
next
  case False
  with assms(3) have "idx = 1" by arith
  with assms show ?thesis by (simp add: load_def)
qed

lemma component_view_holds:
  assumes "well_formed st self" "is_complex st self" "idx < 2"
  shows "component_view idx st self
           (and_then (view_complex_as_float self)
              (\<lambda>float_tensor s. select float_tensor (dim s float_tensor - 1) idx s) st)"
proof -
  let ?im = "impl st self"
  let ?v = "?im\<lparr>scalar_type := toValueType (scalar_type ?im), sizes := sizes ?im @ [2],
                 strides := map (\<lambda>s. 2 * s) (strides ?im) @ [1],
                 storage_offset := 2 * storage_offset ?im\<rparr>"
  let ?r = "?im\<lparr>scalar_type := toValueType (scalar_type ?im),
                 strides := map (\<lambda>s. 2 * s) (strides ?im),
                 storage_offset := 2 * storage_offset ?im + idx\<rparr>"
  let ?st = "st\<lparr>impls := impls st @ [?v, ?r]\<rparr>"
  from assms(1) have x: "self < length (impls st)"
    and len: "length (strides ?im) = length (sizes ?im)"
    by (simp_all add: well_formed_def)
  have eq: "and_then (view_complex_as_float self)
              (\<lambda>float_tensor s. select float_tensor (dim s float_tensor - 1) idx s) st =
            (Inr (Suc (length (impls st))), ?st)"
    using x len assms(3) by (rule select_last_of_view)
  have iv: "impl ?st (length (impls st)) = ?v" and ir: "impl ?st (Suc (length (impls st))) = ?r"
    by (simp_all add: impl_def nth_append)
  have cx: "isComplexType (scalar_type ?im)"
    using assms(2) by (simp add: is_complex_def)
  have "read_tensor ?st (Suc (length (impls st))) =
        map (load (toValueType (scalar_type ?im)) (storages st ! storage ?im))
          (addrs (sizes ?im) (map (\<lambda>s. 2 * s) (strides ?im)) (2 * storage_offset ?im + idx))"
    unfolding read_tensor_def ir addrs_of_def by simp
  also have "\<dots> = map (load (toValueType (scalar_type ?im)) (storages st ! storage ?im))
          (map (\<lambda>a. 2 * a + idx) (addrs (sizes ?im) (strides ?im) (storage_offset ?im)))"
    using len by (simp only: addrs_doubled)
  also have "\<dots> = map (component idx) (read_tensor st self)"
    using cx assms(3) by (simp add: read_tensor_def addrs_of_def comp_def component_load)
  finally have rd: "read_tensor ?st (Suc (length (impls st))) =
                    map (component idx) (read_tensor st self)" .
  have nc: "\<not> isComplexType (scalar_type (impl ?st (Suc (length (impls st)))))"
    unfolding ir by simp
  show ?thesis
    unfolding component_view_def Let_def eq fst_conv snd_conv rd iv ir
    using nc [unfolded ir] by simp
qed

subsection \<open>logical_not\<close>

lemma logical_not_out_ok:
  assumes "out = inp \<or> storage (impl st out) \<noteq> storage (impl st inp)"
    and "device (impl st out) = device (impl st inp)"
    and "stubs E logical_not_stub (device (impl st inp)) \<noteq> None"
    and "sizes (impl st out) = [0] \<or> sizes (impl st out) = sizes (impl st inp)"
  shows "logical_not_out E out inp st =
         (Inr out, after_unary E logical_not_stub NoArgs out inp st)"
  using assms by (simp add: logical_not_out_def plan_and_kernel return_ok_def)

lemma logical_not_out_keeps_shape:
  assumes "storage (impl st out) \<noteq> storage (impl st inp)"
    and "device (impl st out) = device (impl st inp)"
    and "stubs E logical_not_stub (device (impl st inp)) \<noteq> None"
    and "sizes (impl st out) \<noteq> [0]"
    and "broadcast_shapes (sizes (impl st inp)) (sizes (impl st out)) = Some (sizes (impl st out))"
  shows "logical_not_out E out inp st =
         (Inr out, run_kernel (StubKernel logical_not_stub (device (impl st inp)))
                     (the (stubs E logical_not_stub (device (impl st inp))) NoArgs) out inp st)"
  using assms by (simp add: logical_not_out_def plan_and_kernel_keeps_shape return_ok_def)

lemma logical_not_out_shape_mismatch:
  assumes "storage (impl st out) \<noteq> storage (impl st inp)"
    and "device (impl st out) = device (impl st inp)"
    and "sizes (impl st out) \<noteq> [0]"
    and "broadcast_shapes (sizes (impl st inp)) (sizes (impl st out)) \<noteq> Some (sizes (impl st out))"
  shows "logical_not_out E out inp st =
         (Inl (ShapeMismatch, ''shapes cannot be broadcast to the shape of the output''), st)"
  using assms by (simp add: logical_not_out_def build_shape_mismatch and_then_def)

lemma logical_not_fresh:
  assumes "well_formed st x" "stubs E logical_not_stub (device (impl st x)) \<noteq> None"
  shows "logical_not E x st =
         (Inr (length (impls st)),
          after_unary E logical_not_stub NoArgs (length (impls st)) x
            (snd (at_empty E [0] ((options st x)\<lparr>opt_dtype := kBool\<rparr>) st)))"
proof -
  have p: "and_then (build E \<lparr>check_all_same_dtype = False, check_mem_overlap = True\<rparr>
                       (length (impls st)) x)
             (\<lambda>iter. and_then (call_stub E logical_not_stub NoArgs iter) f)
             (snd (at_empty E [0] ((options st x)\<lparr>opt_dtype := kBool\<rparr>) st)) =
           f () (after_unary E logical_not_stub NoArgs (length (impls st)) x
                   (snd (at_empty E [0] ((options st x)\<lparr>opt_dtype := kBool\<rparr>) st)))" for f
    by (rule fresh_plan_and_kernel) (use assms in simp_all)
  show ?thesis
    by (simp add: logical_not_def and_then_at_empty logical_not_out_def p return_ok_def)
qed

lemma build_overlap:
  "partial_overlap st out inp \<Longrightarrow> check_mem_overlap cfg \<Longrightarrow>
   build E cfg out inp st =
     (Inl (UnsafeAliasing, ''unsupported operation: input and output overlap''), st)"
  by (simp add: build_def)

lemma build_dtype_mismatch:
  "\<not> partial_overlap st out inp \<Longrightarrow> check_all_same_dtype cfg \<Longrightarrow>
   scalar_type (impl st out) \<noteq> scalar_type (impl st inp) \<Longrightarrow>
   build E cfg out inp st =
     (Inl (IncompatibleOutput, ''output dtype differs from input dtype''), st)"
  by (simp add: build_def)

subsection \<open>Failures that leave the state as it was\<close>

lemma validation_failure_Inl [simp]:
  "validation_failure (Inl (k, msg), st) =
     (k = UnsupportedDtype \<or> k = InvalidArgument \<or> k = UnsupportedLayout \<or> k = InvalidCast)"
  by (simp add: validation_failure_def)

lemma validation_failure_Inr [simp]: "\<not> validation_failure (Inr x, st)"
  by (simp add: validation_failure_def fails_with_def)

lemma unmodified_refl [simp]: "unmodified st st"
  by (simp add: unmodified_def)

lemma unmodified_at_empty [simp]: "unmodified st (snd (at_empty E sz opts st))"
  by (simp add: unmodified_def at_empty_def)

lemma untouched_same [simp]: "untouched_on_failure st (r, st)"
  by (simp add: untouched_on_failure_def)



































subsection \<open>Numbers as tensors, and the multiplication\<close>

lemma wrapped_scalar_tensor_eq:
  "wrapped_scalar_tensor c st =
     (Inr (length (impls st)),
      st\<lparr>impls := impls st @
            [\<lparr>scalar_type = kDouble, layout = Strided, device = CPU, sizes = [],
              strides = [], storage_offset = 0, storage = length (storages st),
              is_wrapped_number = True\<rparr>],
         storages := storages st @ [[c]]\<rparr>)"
  by (simp add: wrapped_scalar_tensor_def scalar_to_tensor_def set_wrapped_number_def
      and_then_def return_ok_def impl_def)

lemma and_then_wrapped:
  "and_then (wrapped_scalar_tensor c) f st =
   f (length (impls st)) (snd (wrapped_scalar_tensor c st))"
  by (simp add: and_then_def wrapped_scalar_tensor_eq)

lemma wrapped_lengths [simp]:
  "length (impls (snd (wrapped_scalar_tensor c st))) = Suc (length (impls st))"
  "length (storages (snd (wrapped_scalar_tensor c st))) = Suc (length (storages st))"
  "kernel_log (snd (wrapped_scalar_tensor c st)) = kernel_log st"
  by (simp_all add: wrapped_scalar_tensor_eq)

lemma impl_wrapped_old [simp]:
  "t < length (impls st) \<Longrightarrow> impl (snd (wrapped_scalar_tensor c st)) t = impl st t"
  by (simp add: wrapped_scalar_tensor_eq impl_def nth_append)

lemma storages_wrapped_old [simp]:
  "s < length (storages st) \<Longrightarrow>
   storages (snd (wrapped_scalar_tensor c st)) ! s = storages st ! s"
  by (simp add: wrapped_scalar_tensor_eq nth_append)

lemma wrapped_cell [simp]:
  "storages (snd (wrapped_scalar_tensor c st)) !
     storage (impl (snd (wrapped_scalar_tensor c st)) (length (impls st))) !
     storage_offset (impl (snd (wrapped_scalar_tensor c st)) (length (impls st))) = c"
  by (simp add: wrapped_scalar_tensor_eq impl_def)

lemma read_tensor_wrapped_old:
  "t < length (impls st) \<Longrightarrow> storage (impl st t) < length (storages st) \<Longrightarrow>
   read_tensor (snd (wrapped_scalar_tensor c st)) t = read_tensor st t"
  by (simp add: read_tensor_def)

lemma wf_wrapped_old:
  "well_formed st t \<Longrightarrow> well_formed (snd (wrapped_scalar_tensor c st)) t"
  by (simp add: well_formed_def)

lemma is_complex_wrapped_old [simp]:
  "t < length (impls st) \<Longrightarrow> is_complex (snd (wrapped_scalar_tensor c st)) t = is_complex st t"
  by (simp add: is_complex_def)

lemma unmodified_wrapped [simp]: "unmodified st (snd (wrapped_scalar_tensor c st))"
  by (simp add: unmodified_def wrapped_scalar_tensor_eq)

lemma mul_after_wrapped:
  "and_then (wrapped_scalar_tensor c) (\<lambda>other. at_mul_out E result self other) st =
   and_then (TensorIterator_unary_op E result self True)
     (\<lambda>iter. and_then (call_stub E mul_stub (ScalarArg c) iter) (\<lambda>_. return_ok result))
     (snd (wrapped_scalar_tensor c st))"
  by (simp add: and_then_wrapped at_mul_out_def)

text \<open>
  An in-place plan in one state and a plan for a fresh output in another, on equal inputs.
\<close>

lemma agree_states:
  assumes "well_formed st1 x" "well_formed st2 r" "well_formed st2 c"
    and "sizes (impl st2 r) = [0]"
    and "storage (impl st2 r) \<noteq> storage (impl st2 c)"
    and "scalar_type (impl st2 r) = scalar_type (impl st1 x)"
    and "scalar_type (impl st2 c) = scalar_type (impl st1 x)"
    and "device (impl st2 r) = device (impl st1 x)"
    and "device (impl st2 c) = device (impl st1 x)"
    and "sizes (impl st2 c) = sizes (impl st1 x)"
    and "read_tensor st2 c = read_tensor st1 x"
  shows "agree (and_then (build E cfg x x)
                  (\<lambda>iter. and_then (call_stub E s args iter) (\<lambda>_. return_ok x)) st1)
               (and_then (build E cfg r c)
                  (\<lambda>iter. and_then (call_stub E s args iter) (\<lambda>_. return_ok r)) st2)"
proof (cases "stubs E s (device (impl st1 x)) = None")
  case True
  have l: "and_then (build E cfg x x)
             (\<lambda>iter. and_then (call_stub E s args iter) (\<lambda>_. return_ok x)) st1 =
           (Inl (UnsupportedDevice, ''no kernel registered for this device''), st1)"
    using True by (simp add: plan_unregistered)
  have rr: "fst (and_then (build E cfg r c)
             (\<lambda>iter. and_then (call_stub E s args iter) (\<lambda>_. return_ok r)) st2) =
           Inl (UnsupportedDevice, ''no kernel registered for this device'')"
    using True assms(4-9) by (simp add: plan_unregistered)
  show ?thesis
    using rr by (simp add: l agree_def)
next
  case False
  note reg = this
  from assms(1,2) have x: "x < length (impls st1)" and r: "r < length (impls st2)"
    by (simp_all add: well_formed_def)
  have l: "and_then (build E cfg x x)
             (\<lambda>iter. and_then (call_stub E s args iter) (\<lambda>_. return_ok x)) st1 =
           (Inr x, after_unary E s args x x st1)"
    using reg by (simp add: plan_and_kernel return_ok_def)
  have rr: "and_then (build E cfg r c)
             (\<lambda>iter. and_then (call_stub E s args iter) (\<lambda>_. return_ok r)) st2 =
           (Inr r, after_unary E s args r c st2)"
    using assms(4-9) reg by (simp add: plan_and_kernel return_ok_def)
  have rd1: "read_tensor (after_unary E s args x x st1) x =
             map (kernel_value E s args (device (impl st1 x)) (scalar_type (impl st1 x))
                    (scalar_type (impl st1 x))) (read_tensor st1 x)"
    using assms(1) by (rule inplace_read)
  have rd2: "read_tensor (after_unary E s args r c st2) r =
             map (kernel_value E s args (device (impl st2 c)) (scalar_type (impl st2 c))
                    (scalar_type (impl st2 r))) (read_tensor st2 c)"
    using assms(2,3) by (rule after_unary_read) (use assms(5) in simp)
  show ?thesis
    using x r assms(6-11) by (simp add: l rr agree_def rd1 rd2)
qed

lemma rad2deg_out_cases:
  "rad2deg_out E result self st =
     (if is_complex st self
      then (Inl (UnsupportedDtype, ''rad2deg is not supported for complex tensors.''), st)
      else and_then (TensorIterator_unary_op E result self True)
             (\<lambda>iter. and_then (call_stub E mul_stub (ScalarArg (M_180_PI E)) iter)
                (\<lambda>_. return_ok result))
             (snd (wrapped_scalar_tensor (M_180_PI E) st)))"
  by (simp add: rad2deg_out_def mul_after_wrapped)

lemma deg2rad_out_cases:
  "deg2rad_out E result self st =
     (if is_complex st self
      then (Inl (UnsupportedDtype, ''deg2rad is not supported for complex tensors.''), st)
      else and_then (TensorIterator_unary_op E result self True)
             (\<lambda>iter. and_then (call_stub E mul_stub (ScalarArg (M_PI_180 E)) iter)
                (\<lambda>_. return_ok result))
             (snd (wrapped_scalar_tensor (M_PI_180 E) st)))"
  by (simp add: deg2rad_out_def mul_after_wrapped)

lemma agree_mul:
  assumes "well_formed st x" "well_formed st c" "copy_of st c x"
  shows "agree (and_then (TensorIterator_unary_op E x x True)
                  (\<lambda>iter. and_then (call_stub E mul_stub (ScalarArg k) iter) (\<lambda>_. return_ok x))
                  (snd (wrapped_scalar_tensor k st)))
               (and_then (TensorIterator_unary_op E (length (impls st)) c True)
                  (\<lambda>iter. and_then (call_stub E mul_stub (ScalarArg k) iter)
                     (\<lambda>_. return_ok (length (impls st))))
                  (snd (wrapped_scalar_tensor k (snd (at_empty E [0] (options st c) st)))))"
proof -
  let ?a = "snd (at_empty E [0] (options st c) st)"
  let ?st1 = "snd (wrapped_scalar_tensor k st)"
  let ?st2 = "snd (wrapped_scalar_tensor k ?a)"
  from assms(1,2) have x: "x < length (impls st)" and c: "c < length (impls st)"
    and sx: "storage (impl st x) < length (storages st)"
    and sc: "storage (impl st c) < length (storages st)"
    by (simp_all add: well_formed_def)
  note eq = copy_of_fields [OF assms(3)]
  have rd: "read_tensor st c = read_tensor st x"
    using assms(3) by (simp add: copy_of_def)
  have w1: "well_formed ?st1 x"
    using assms(1) by (rule wf_wrapped_old)
  have w2: "well_formed ?st2 (length (impls st))"
    by (rule wf_wrapped_old) (rule wf_at_empty_new)
  have w3: "well_formed ?st2 c"
    by (rule wf_wrapped_old) (rule wf_at_empty_old, rule assms(2))
  have r1: "read_tensor ?st2 c = read_tensor ?st1 x"
    using x c sx sc rd by (simp add: read_tensor_wrapped_old read_tensor_at_empty_old)
  show ?thesis
    unfolding TensorIterator_unary_op_def
    by (rule agree_states [OF w1 w2 w3])
       (use x c sc eq r1 in simp_all)
qed

lemma agree_rad2deg:
  assumes "well_formed st x" "well_formed st c" "copy_of st c x"
  shows "agree (rad2deg_inplace E x st) (rad2deg E c st)"
proof -
  from assms(2) have c: "c < length (impls st)" by (simp add: well_formed_def)
  show ?thesis
    using agree_mul [OF assms, where k = "M_180_PI E" and E = E] c copy_of_fields [OF assms(3)]
    by (simp add: rad2deg_inplace_def rad2deg_def unary_op_impl_inplace_def unary_op_impl_def
        and_then_at_empty rad2deg_out_cases)
qed

lemma agree_deg2rad:
  assumes "well_formed st x" "well_formed st c" "copy_of st c x"
  shows "agree (deg2rad_inplace E x st) (deg2rad E c st)"
proof -
  from assms(2) have c: "c < length (impls st)" by (simp add: well_formed_def)
  show ?thesis
    using agree_mul [OF assms, where k = "M_PI_180 E" and E = E] c copy_of_fields [OF assms(3)]
    by (simp add: deg2rad_inplace_def deg2rad_def unary_op_impl_inplace_def unary_op_impl_def
        and_then_at_empty deg2rad_out_cases)
qed

subsection \<open>erfinv and lgamma\<close>

lemma erfinv_out_cpu_cases:
  "erfinv_out_cpu E result self st =
     (if device (impl st result) \<noteq> CPU
      then (Inl (UnsupportedDevice,
                 ''Expected tensor to have another DeviceType (while checking arguments for erfinv)''), st)
      else if layout (impl st result) \<noteq> Strided
      then (Inl (UnsupportedLayout,
                 ''Expected tensor to have another Layout (while checking arguments for erfinv)''), st)
      else and_then (TensorIterator_unary_op E result self True)
             (\<lambda>iter. and_then (call_stub E erfinv_stub NoArgs iter) (\<lambda>_. return_ok result)) st)"
  by (simp add: erfinv_out_cpu_def checkDeviceType_def checkLayout_def and_then_def
      TORCH_CHECK_def)

lemma erfinv_out_cpu_returns:
  "and_then (erfinv_out_cpu E result self) (\<lambda>_. return_ok result) st =
   erfinv_out_cpu E result self st"
  by (simp add: erfinv_out_cpu_def and_then_assoc)


lemma erfinv_out_cuda_cases:
  "erfinv_out_cuda E result self st =
     (if device (impl st result) \<noteq> CUDA
      then (Inl (UnsupportedDevice,
                 ''Expected tensor to have another DeviceType (while checking arguments for erfinv)''), st)
      else if layout (impl st result) \<noteq> Strided
      then (Inl (UnsupportedLayout,
                 ''Expected tensor to have another Layout (while checking arguments for erfinv)''), st)
      else and_then (TensorIterator_unary_op E result self True)
             (\<lambda>iter. and_then (call_stub E erfinv_stub NoArgs iter) (\<lambda>_. return_ok result)) st)"
  by (simp add: erfinv_out_cuda_def checkDeviceType_def checkLayout_def and_then_def
      TORCH_CHECK_def)

lemma erfinv_out_cuda_returns:
  "and_then (erfinv_out_cuda E result self) (\<lambda>_. return_ok result) st =
   erfinv_out_cuda E result self st"
  by (simp add: erfinv_out_cuda_def and_then_assoc)


lemma at_erfinv_out_returns:
  "and_then (at_erfinv_out E result self) (\<lambda>_. return_ok result) st =
   at_erfinv_out E result self st"
  using erfinv_out_cpu_returns [of E result self st] erfinv_out_cuda_returns [of E result self st]
  by (simp add: at_erfinv_out_def and_then_def split: DeviceType.splits)


lemma erfinv_unfold:
  "erfinv E self st =
   at_erfinv_out E (length (impls st)) self (snd (at_empty E [0] (options st self) st))"
  by (simp add: erfinv_def and_then_at_empty at_erfinv_out_returns)

lemma agree_erfinv:
  assumes "well_formed st x" "well_formed st c" "copy_of st c x"
  shows "agree (at_erfinv_out E x x st) (erfinv E c st)"
proof -
  from assms(1,2) have x: "x < length (impls st)" and c: "c < length (impls st)"
    by (simp_all add: well_formed_def)
  note eq = copy_of_fields [OF assms(3)]
  have d: "agree (and_then (TensorIterator_unary_op E x x True)
                  (\<lambda>iter. and_then (call_stub E erfinv_stub NoArgs iter) (\<lambda>_. return_ok x)) st)
               (and_then (TensorIterator_unary_op E (length (impls st)) c True)
                  (\<lambda>iter. and_then (call_stub E erfinv_stub NoArgs iter)
                     (\<lambda>_. return_ok (length (impls st))))
                  (snd (at_empty E [0] (options st c) st)))"
    using assms by (rule agree_direct_stub)
  show ?thesis
    using d x c eq
    by (simp add: erfinv_unfold at_erfinv_out_def erfinv_out_cpu_cases erfinv_out_cuda_cases
        split: DeviceType.splits)
qed


lemma lgamma_out_cpu_cases:
  "lgamma_out_cpu E result self st =
     (if device (impl st result) \<noteq> CPU
      then (Inl (UnsupportedDevice,
                 ''Expected tensor to have another DeviceType (while checking arguments for lgamma)''), st)
      else if layout (impl st result) \<noteq> Strided
      then (Inl (UnsupportedLayout,
                 ''Expected tensor to have another Layout (while checking arguments for lgamma)''), st)
      else and_then (TensorIterator_unary_op E result self True)
             (\<lambda>iter. and_then (call_stub E lgamma_stub NoArgs iter) (\<lambda>_. return_ok result)) st)"
  by (simp add: lgamma_out_cpu_def checkDeviceType_def checkLayout_def and_then_def
      TORCH_CHECK_def)

lemma lgamma_out_cpu_returns:
  "and_then (lgamma_out_cpu E result self) (\<lambda>_. return_ok result) st =
   lgamma_out_cpu E result self st"
  by (simp add: lgamma_out_cpu_def and_then_assoc)


lemma lgamma_out_cuda_cases:
  "lgamma_out_cuda E result self st =
     (if device (impl st result) \<noteq> CUDA
      then (Inl (UnsupportedDevice,
                 ''Expected tensor to have another DeviceType (while checking arguments for lgamma)''), st)
      else if layout (impl st result) \<noteq> Strided
      then (Inl (UnsupportedLayout,
                 ''Expected tensor to have another Layout (while checking arguments for lgamma)''), st)
      else and_then (TensorIterator_unary_op E result self True)
             (\<lambda>iter. and_then (call_stub E lgamma_stub NoArgs iter) (\<lambda>_. return_ok result)) st)"
  by (simp add: lgamma_out_cuda_def checkDeviceType_def checkLayout_def and_then_def
      TORCH_CHECK_def)

lemma lgamma_out_cuda_returns:
  "and_then (lgamma_out_cuda E result self) (\<lambda>_. return_ok result) st =
   lgamma_out_cuda E result self st"
  by (simp add: lgamma_out_cuda_def and_then_assoc)


lemma at_lgamma_out_returns:
  "and_then (at_lgamma_out E result self) (\<lambda>_. return_ok result) st =
   at_lgamma_out E result self st"
  using lgamma_out_cpu_returns [of E result self st] lgamma_out_cuda_returns [of E result self st]
  by (simp add: at_lgamma_out_def and_then_def split: DeviceType.splits)


lemma lgamma_unfold:
  "lgamma E self st =
   at_lgamma_out E (length (impls st)) self (snd (at_empty E [0] (options st self) st))"
  by (simp add: lgamma_def and_then_at_empty at_lgamma_out_returns)

lemma agree_lgamma:
  assumes "well_formed st x" "well_formed st c" "copy_of st c x"
  shows "agree (at_lgamma_out E x x st) (lgamma E c st)"
proof -
  from assms(1,2) have x: "x < length (impls st)" and c: "c < length (impls st)"
    by (simp_all add: well_formed_def)
  note eq = copy_of_fields [OF assms(3)]
  have d: "agree (and_then (TensorIterator_unary_op E x x True)
                  (\<lambda>iter. and_then (call_stub E lgamma_stub NoArgs iter) (\<lambda>_. return_ok x)) st)
               (and_then (TensorIterator_unary_op E (length (impls st)) c True)
                  (\<lambda>iter. and_then (call_stub E lgamma_stub NoArgs iter)
                     (\<lambda>_. return_ok (length (impls st))))
                  (snd (at_empty E [0] (options st c) st)))"
    using assms by (rule agree_direct_stub)
  show ?thesis
    using d x c eq
    by (simp add: lgamma_unfold at_lgamma_out_def lgamma_out_cpu_cases lgamma_out_cuda_cases
        split: DeviceType.splits)
qed


subsection \<open>Failures of rad2deg and deg2rad\<close>





subsection \<open>Operations without a check of their own\<close>




subsection \<open>Fresh outputs of clamp and polygamma\<close>

lemma direct_stub_inplace_ok:
  assumes "stubs E s (device (impl st x)) \<noteq> None"
  shows "and_then (TensorIterator_unary_op E x x True)
           (\<lambda>iter. and_then (call_stub E s args iter) (\<lambda>_. return_ok x)) st =
         (Inr x, after_unary E s args x x st)"
  using assms by (simp add: TensorIterator_unary_op_def plan_and_kernel return_ok_def)

lemma direct_stub_fresh_ok:
  assumes "well_formed st c" and "stubs E s (device (impl st c)) \<noteq> None"
  shows "and_then (TensorIterator_unary_op E (length (impls st)) c True)
           (\<lambda>iter. and_then (call_stub E s args iter) (\<lambda>_. return_ok (length (impls st))))
           (snd (at_empty E [0] (options st c) st)) =
         (Inr (length (impls st)),
          after_unary E s args (length (impls st)) c (snd (at_empty E [0] (options st c) st)))"
  using assms by (simp add: TensorIterator_unary_op_def fresh_plan_and_kernel return_ok_def)

lemma clamp_both_unfold:
  assumes "self < length (impls st)" "\<not> is_complex st self" "layout (impl st self) = Strided"
  shows "clamp E self (Some lo) (Some hi) st =
         and_then (at_empty E [0] (options st self)) (\<lambda>result.
           and_then (TensorIterator_unary_op E result self True) (\<lambda>iter.
           and_then (call_stub E clamp_stub (ClampArgs lo hi) iter) (\<lambda>_.
           return_ok result))) st"
  using assms by (simp add: clamp_def and_then_at_empty clamp_out_cases)


subsection \<open>Outputs that keep their shape\<close>

lemma keeps_shape_read:
  assumes "well_formed st out"
  shows "read_tensor (run_kernel (StubKernel s dev) (the (stubs E s dev) args) out inp st) out =
         map (kernel_value E s args dev (scalar_type (impl st inp)) (scalar_type (impl st out)))
           (read_expanded st inp (sizes (impl st out)))"
  using run_kernel_read_expanded [OF assms, of "StubKernel s dev" "the (stubs E s dev) args" inp]
  by (simp add: kernel_value_def)

subsection \<open>The concrete store\<close>

lemma ex_wf: "well_formed example_state 0" "well_formed example_state 1"
  "well_formed example_state 2" "well_formed example_state 3" "well_formed example_state 5"
  by code_simp+

lemma ex_copy: "copy_of example_state 3 0" "copy_of example_state 5 1" "copy_of example_state 2 2"
  by code_simp+


section \<open>In-place and out-of-place forms\<close>

text \<open>
  Claim C1 as stated fails: on a complex tensor, \<open>abs_\<close> leaves the tensor complex,
  whereas \<open>abs\<close> on a copy returns a tensor of the real-valued counterpart dtype.
  In the concrete store, tensor 5 is a copy of the complex tensor 1.
\<close>

theorem inplace_abs_complex_counterexample:
  "copy_of example_state 5 1 \<and>
   fst (abs_inplace example_env 1 example_state) = Inr 1 \<and>
   scalar_type (impl (snd (abs_inplace example_env 1 example_state)) 1) = kComplexFloat \<and>
   fst (abs_op example_env 5 example_state) = Inr 7 \<and>
   scalar_type (impl (snd (abs_op example_env 5 example_state)) 7) = kFloat \<and>
   \<not> agree (abs_inplace example_env 1 example_state) (abs_op example_env 5 example_state)"
  by code_simp

text \<open>
  Claim C1, amended.  Let \<open>x\<close> and \<open>c\<close> be well-formed tensors, \<open>c\<close> a copy of \<open>x\<close>.
  Then the in-place form on \<open>x\<close> and the out-of-place form on \<open>c\<close> agree (same elements,
  same dtype, same shape, or the same error) for every operation that the file exposes in
  the three call forms: the operations derived from \<open>unary_op_impl_out\<close> with any stub
  (where both forms succeed when the stub has a kernel for the device), each of them by
  name, \<open>rad2deg\<close>, \<open>deg2rad\<close>, \<open>ceil\<close>, \<open>floor\<close>, \<open>trunc\<close>, \<open>neg\<close>, \<open>clamp\<close>,
  \<open>clamp_max\<close>, \<open>clamp_min\<close>, \<open>polygamma\<close>, \<open>erfinv\<close> and \<open>lgamma\<close> (with the in-place
  functions of both devices); for \<open>abs\<close> when \<open>x\<close> is not complex; and for \<open>logical_not\<close>
  when \<open>x\<close> is boolean.  When \<open>x\<close> is complex (its real counterpart dtype can be cast to
  itself, and \<open>abs_stub\<close> has a kernel for the device), both forms of \<open>abs\<close> succeed,
  \<open>abs_\<close> keeps the complex dtype of \<open>x\<close>, \<open>abs\<close> returns the real-valued counterpart
  dtype with the same shape, and the elements of \<open>abs(c)\<close> are the copy-cast of the
  elements that \<open>abs_\<close> left in \<open>x\<close>.
\<close>

theorem inplace_agrees_with_out_of_place:
  assumes "well_formed st x" and "well_formed st c" and "copy_of st c x"
  shows "(stubs E s (device (impl st x)) \<noteq> None \<longrightarrow>
            fst (unary_op_impl_inplace x (\<lambda>r t. unary_op_impl_out E r t s) st) = Inr x \<and>
            fst (unary_op_impl E c (\<lambda>r t. unary_op_impl_out E r t s) st) =
              Inr (length (impls st))) \<and>
         agree (unary_op_impl_inplace x (\<lambda>r t. unary_op_impl_out E r t s) st)
               (unary_op_impl E c (\<lambda>r t. unary_op_impl_out E r t s) st) \<and>
         list_all (\<lambda>(a, b). agree a b)
           [(acos_inplace E x st, acos E c st), (asin_inplace E x st, asin E c st),
            (atan_inplace E x st, atan E c st),
            (bitwise_not_inplace E x st, bitwise_not E c st), (exp_inplace E x st, exp E c st),
            (expm1_inplace E x st, expm1 E c st), (erf_inplace E x st, erf E c st),
            (erfc_inplace E x st, erfc E c st), (frac_inplace E x st, frac E c st),
            (log_inplace E x st, log E c st), (log10_inplace E x st, log10 E c st),
            (log1p_inplace E x st, log1p E c st), (log2_inplace E x st, log2 E c st),
            (round_inplace E x st, round E c st), (digamma_inplace E x st, digamma E c st),
            (reciprocal_inplace E x st, reciprocal E c st),
            (rsqrt_inplace E x st, rsqrt E c st), (sign_inplace E x st, sign E c st),
            (sin_inplace E x st, sin E c st), (cos_inplace E x st, cos E c st),
            (sinh_inplace E x st, sinh E c st), (cosh_inplace E x st, cosh E c st),
            (acosh_inplace E x st, acosh E c st), (asinh_inplace E x st, asinh E c st),
            (atanh_inplace E x st, atanh E c st), (sqrt_inplace E x st, sqrt E c st),
            (sigmoid_inplace E x st, sigmoid E c st), (tanh_inplace E x st, tanh E c st),
            (tan_inplace E x st, tan E c st), (rad2deg_inplace E x st, rad2deg E c st),
            (deg2rad_inplace E x st, deg2rad E c st), (ceil_inplace E x st, ceil E c st),
            (floor_inplace E x st, floor E c st), (trunc_inplace E x st, trunc E c st),
            (neg_inplace E x st, neg E c st), (clamp_inplace E x mn mx st, clamp E c mn mx st),
            (clamp_max_inplace E x hi st, clamp_max E c hi st),
            (clamp_min_inplace E x lo st, clamp_min E c lo st),
            (polygamma_inplace E x n st, polygamma E n c st),
            (erfinv_inplace_cpu E x st, erfinv E c st),
            (erfinv_inplace_cuda E x st, erfinv E c st),
            (lgamma_inplace_cpu E x st, lgamma E c st),
            (lgamma_inplace_cuda E x st, lgamma E c st)] \<and>
         (\<not> is_complex st x \<longrightarrow> agree (abs_inplace E x st) (abs_op E c st)) \<and>
         (scalar_type (impl st x) = kBool \<longrightarrow>
            agree (logical_not_inplace E x st) (logical_not E c st)) \<and>
         (is_complex st x \<and>
          canCast E (toValueType (scalar_type (impl st x))) (toValueType (scalar_type (impl st x))) \<and>
          stubs E abs_stub (device (impl st x)) \<noteq> None \<longrightarrow>
            fst (abs_inplace E x st) = Inr x \<and>
            fst (abs_op E c st) = Inr (length (impls st)) \<and>
            scalar_type (impl (snd (abs_inplace E x st)) x) = scalar_type (impl st x) \<and>
            scalar_type (impl (snd (abs_op E c st)) (length (impls st))) =
              toValueType (scalar_type (impl st x)) \<and>
            sizes (impl (snd (abs_op E c st)) (length (impls st))) =
              sizes (impl (snd (abs_inplace E x st)) x) \<and>
            read_tensor (snd (abs_op E c st)) (length (impls st)) =
              map (cast_value E (scalar_type (impl st x)) (toValueType (scalar_type (impl st x))))
                (read_tensor (snd (abs_inplace E x st)) x))"
    (is "?succeed \<and> ?gen \<and> ?each \<and> ?abs_real \<and> ?not_bool \<and> ?abs_complex")
proof -
  have a: ?succeed
    using copy_of_fields [OF assms(3)]
      unary_op_impl_out_fresh_ok [OF assms(2), of "options st c" E s]
    by (simp add: unary_op_impl_inplace_def unary_op_impl_out_inplace_ok unary_op_impl_def
        and_then_at_empty)
  have g: ?gen
    using assms by (rule agree_plain)
  have e: ?each
    by (simp add: agree_plain [OF assms] agree_rad2deg [OF assms] agree_deg2rad [OF assms]
        agree_ceil [OF assms] agree_floor [OF assms] agree_trunc [OF assms]
        agree_neg [OF assms] agree_clamp [OF assms] agree_clamp_max [OF assms]
        agree_clamp_min [OF assms] agree_polygamma [OF assms] agree_erfinv [OF assms]
        agree_lgamma [OF assms] erfinv_inplace_cpu_def erfinv_inplace_cuda_def
        lgamma_inplace_cpu_def lgamma_inplace_cuda_def
        acos_def acos_inplace_def acos_out_def [abs_def] asin_def asin_inplace_def
        asin_out_def [abs_def] atan_def atan_inplace_def atan_out_def [abs_def] bitwise_not_def
        bitwise_not_inplace_def bitwise_not_out_def [abs_def] exp_def exp_inplace_def
        exp_out_def [abs_def] expm1_def expm1_inplace_def expm1_out_def [abs_def] erf_def
        erf_inplace_def erf_out_def [abs_def] erfc_def erfc_inplace_def erfc_out_def [abs_def]
        frac_def frac_inplace_def frac_out_def [abs_def] log_def log_inplace_def
        log_out_def [abs_def] log10_def log10_inplace_def log10_out_def [abs_def] log1p_def
        log1p_inplace_def log1p_out_def [abs_def] log2_def log2_inplace_def
        log2_out_def [abs_def] round_def round_inplace_def round_out_def [abs_def] digamma_def
        digamma_inplace_def digamma_out_def [abs_def] reciprocal_def reciprocal_inplace_def
        reciprocal_out_def [abs_def] rsqrt_def rsqrt_inplace_def rsqrt_out_def [abs_def]
        sign_def sign_inplace_def sign_out_def [abs_def] sin_def sin_inplace_def
        sin_out_def [abs_def] cos_def cos_inplace_def cos_out_def [abs_def] sinh_def
        sinh_inplace_def sinh_out_def [abs_def] cosh_def cosh_inplace_def
        cosh_out_def [abs_def] acosh_def acosh_inplace_def acosh_out_def [abs_def] asinh_def
        asinh_inplace_def asinh_out_def [abs_def] atanh_def atanh_inplace_def
        atanh_out_def [abs_def] sqrt_def sqrt_inplace_def sqrt_out_def [abs_def] sigmoid_def
        sigmoid_inplace_def sigmoid_out_def [abs_def] tanh_def tanh_inplace_def
        tanh_out_def [abs_def] tan_def tan_inplace_def tan_out_def [abs_def])
  have r: ?abs_real
    using agree_abs_real [OF assms] by blast
  have n: ?not_bool
    using agree_logical_not_bool [OF assms] by blast
  have x: ?abs_complex
    using abs_complex [OF assms] by blast
  show ?thesis
    using a g e r n x by (intro conjI)
qed

theorem inplace_agrees_with_out_of_place_witness:
  "(well_formed example_state 0 \<and> well_formed example_state 3 \<and> copy_of example_state 3 0 \<and>
    stubs example_env acos_stub (device (impl example_state 0)) \<noteq> None \<and>
    \<not> is_complex example_state 0) \<and>
   fst (unary_op_impl_inplace 0 (\<lambda>r t. unary_op_impl_out example_env r t acos_stub)
          example_state) = Inr 0 \<and>
   agree (acos_inplace example_env 0 example_state) (acos example_env 3 example_state) \<and>
   agree (rad2deg_inplace example_env 0 example_state) (rad2deg example_env 3 example_state) \<and>
   fst (rad2deg_inplace example_env 0 example_state) = Inr 0 \<and>
   read_tensor (snd (rad2deg_inplace example_env 0 example_state)) 0 =
     [RealElem 2, RealElem 3, RealElem 4] \<and>
   agree (erfinv_inplace_cpu example_env 0 example_state) (erfinv example_env 3 example_state) \<and>
   fst (erfinv example_env 3 example_state) = Inr 7 \<and>
   read_tensor (snd (erfinv example_env 3 example_state)) 7 =
     [RealElem 2, RealElem 3, RealElem 4] \<and>
   agree (clamp_inplace example_env 0 (Some 1) None example_state)
         (clamp example_env 3 (Some 1) None example_state) \<and>
   agree (abs_inplace example_env 0 example_state) (abs_op example_env 3 example_state) \<and>
   (well_formed example_state 2 \<and> copy_of example_state 2 2 \<and>
    scalar_type (impl example_state 2) = kBool) \<and>
   agree (logical_not_inplace example_env 2 example_state)
         (logical_not example_env 2 example_state) \<and>
   (well_formed example_state 1 \<and> well_formed example_state 5 \<and> copy_of example_state 5 1 \<and>
    is_complex example_state 1 \<and>
    canCast example_env (toValueType (scalar_type (impl example_state 1)))
      (toValueType (scalar_type (impl example_state 1))) \<and>
    stubs example_env abs_stub (device (impl example_state 1)) \<noteq> None) \<and>
   read_tensor (snd (abs_op example_env 5 example_state)) (length (impls example_state)) =
     map (cast_value example_env (scalar_type (impl example_state 1))
            (toValueType (scalar_type (impl example_state 1))))
       (read_tensor (snd (abs_inplace example_env 1 example_state)) 1)"
proof -
  have a: "\<not> is_complex example_state 0" "scalar_type (impl example_state 2) = kBool"
    "is_complex example_state 1"
    "canCast example_env (toValueType (scalar_type (impl example_state 1)))
       (toValueType (scalar_type (impl example_state 1)))"
    "stubs example_env acos_stub (device (impl example_state 0)) \<noteq> None"
    "stubs example_env abs_stub (device (impl example_state 1)) \<noteq> None"
    by code_simp+
  note t0 = inplace_agrees_with_out_of_place [OF ex_wf(1) ex_wf(4) ex_copy(1),
        where s = acos_stub and mn = "Some 1" and mx = None and hi = 0 and lo = 0 and n = 0
          and E = example_env]
  note t2 = inplace_agrees_with_out_of_place [OF ex_wf(3) ex_wf(3) ex_copy(3),
        where s = acos_stub and mn = None and mx = None and hi = 0 and lo = 0 and n = 0
          and E = example_env]
  note t1 = inplace_agrees_with_out_of_place [OF ex_wf(2) ex_wf(5) ex_copy(2),
        where s = acos_stub and mn = None and mx = None and hi = 0 and lo = 0 and n = 0
          and E = example_env]
  have z: "fst (rad2deg_inplace example_env 0 example_state) = Inr 0"
    "read_tensor (snd (rad2deg_inplace example_env 0 example_state)) 0 =
       [RealElem 2, RealElem 3, RealElem 4]"
    "fst (erfinv example_env 3 example_state) = Inr 7"
    "read_tensor (snd (erfinv example_env 3 example_state)) 7 =
       [RealElem 2, RealElem 3, RealElem 4]"
    by code_simp+
  have s0: "fst (unary_op_impl_inplace 0 (\<lambda>r t. unary_op_impl_out example_env r t acos_stub)
          example_state) = Inr 0"
    using t0 a(5) by blast
  have b: "agree (acos_inplace example_env 0 example_state) (acos example_env 3 example_state)"
    "agree (rad2deg_inplace example_env 0 example_state) (rad2deg example_env 3 example_state)"
    "agree (erfinv_inplace_cpu example_env 0 example_state) (erfinv example_env 3 example_state)"
    "agree (clamp_inplace example_env 0 (Some 1) None example_state)
           (clamp example_env 3 (Some 1) None example_state)"
    using t0 by simp_all
  have c: "agree (abs_inplace example_env 0 example_state) (abs_op example_env 3 example_state)"
    using t0 a(1) by blast
  have d: "agree (logical_not_inplace example_env 2 example_state)
                 (logical_not example_env 2 example_state)"
    using t2 a(2) by blast
  have e: "read_tensor (snd (abs_op example_env 5 example_state)) (length (impls example_state)) =
     map (cast_value example_env (scalar_type (impl example_state 1))
            (toValueType (scalar_type (impl example_state 1))))
       (read_tensor (snd (abs_inplace example_env 1 example_state)) 1)"
    using t1 a(3,4,6) by blast
  show ?thesis
    using ex_wf ex_copy a s0 z b c d e by blast
qed

section \<open>Domain rejection\<close>

text \<open>
  Claim C5.  For every complex input tensor, \<open>ceil\<close>, \<open>floor\<close> and \<open>trunc\<close> fail with
  \<open>UnsupportedDtype\<close> in all three call forms; for every boolean input tensor, \<open>neg\<close>
  fails with \<open>UnsupportedDtype\<close> in all three call forms.
\<close>

theorem domain_rejection:
  "(is_tensor st self \<and> is_complex st self \<longrightarrow>
      fails_with UnsupportedDtype (ceil_out E result self st) \<and>
      fails_with UnsupportedDtype (ceil E self st) \<and>
      fails_with UnsupportedDtype (ceil_inplace E self st) \<and>
      fails_with UnsupportedDtype (floor_out E result self st) \<and>
      fails_with UnsupportedDtype (floor E self st) \<and>
      fails_with UnsupportedDtype (floor_inplace E self st) \<and>
      fails_with UnsupportedDtype (trunc_out E result self st) \<and>
      fails_with UnsupportedDtype (trunc E self st) \<and>
      fails_with UnsupportedDtype (trunc_inplace E self st)) \<and>
   (is_tensor st self \<and> scalar_type (impl st self) = kBool \<longrightarrow>
      fails_with UnsupportedDtype (neg_out E result self st) \<and>
      fails_with UnsupportedDtype (neg E self st) \<and>
      fails_with UnsupportedDtype (neg_inplace E self st))"
  by (simp add: ceil_def ceil_out_def ceil_inplace_def floor_def floor_out_def floor_inplace_def
      trunc_def trunc_out_def trunc_inplace_def neg_def neg_out_def neg_inplace_def
      unary_op_impl_def unary_op_impl_inplace_def and_then_at_empty fails_with_def
      is_tensor_def)

theorem domain_rejection_witness:
  "(is_tensor example_state 1 \<and> is_complex example_state 1) \<and>
   fails_with UnsupportedDtype (ceil_out example_env 0 1 example_state) \<and>
   fails_with UnsupportedDtype (floor example_env 1 example_state) \<and>
   fails_with UnsupportedDtype (trunc_inplace example_env 1 example_state) \<and>
   (is_tensor example_state 2 \<and> scalar_type (impl example_state 2) = kBool) \<and>
   fails_with UnsupportedDtype (neg_out example_env 0 2 example_state) \<and>
   fails_with UnsupportedDtype (neg example_env 2 example_state) \<and>
   fails_with UnsupportedDtype (neg_inplace example_env 2 example_state)"
proof -
  have c: "is_tensor example_state 1 \<and> is_complex example_state 1"
    by (simp add: example_state_def is_tensor_def is_complex_def impl_def)
  have b: "is_tensor example_state 2 \<and> scalar_type (impl example_state 2) = kBool"
    by (simp add: example_state_def is_tensor_def impl_def)
  show ?thesis
    using c b domain_rejection [of example_state 1 example_env 0]
      domain_rejection [of example_state 2 example_env 0]
    by simp
qed

section \<open>The complex-to-real policy\<close>

text \<open>
  Claim C2.  For the into-buffer forms \<open>abs_out\<close> and \<open>angle_out\<close> on well-formed
  tensors: when the input is complex and the output is not, the call fails with
  \<open>InvalidCast\<close> (leaving the state as it was) unless the real-valued counterpart of the
  input dtype can be cast to the output's dtype; otherwise, given a kernel for the device,
  it returns the caller's output, after computing the kernel into a fresh temporary (a
  new tensor on a new storage, with the input's complex dtype and options, holding the
  kernel's values), giving the output the temporary's shape and storing in it the
  copy-cast of the temporary's elements.  When the input is not complex or the output is
  complex, the call is \<open>unary_op_impl_out\<close>.
\<close>

theorem complex_to_float_out_policy:
  assumes "well_formed st result" and "well_formed st self"
  shows "complex_to_float_policy E abs_stub result self st (abs_out E result self st) \<and>
         complex_to_float_policy E angle_stub result self st (angle_out E result self st)"
  using complex_to_float_out_policy_holds [OF assms]
  by (simp add: abs_out_def angle_out_def)

theorem complex_to_float_out_policy_witness:
  "(well_formed example_state 0 \<and> well_formed example_state 1 \<and>
    is_complex example_state 1 \<and> \<not> is_complex example_state 0 \<and>
    canCast example_env (toValueType (scalar_type (impl example_state 1)))
      (scalar_type (impl example_state 0)) \<and>
    stubs example_env abs_stub (device (impl example_state 1)) \<noteq> None) \<and>
   fst (abs_out example_env 0 1 example_state) = Inr 0 \<and>
   read_tensor (snd (abs_out example_env 0 1 example_state)) 0 =
     map (cast_value example_env (scalar_type (impl example_state 1))
            (scalar_type (impl example_state 0)))
       (read_tensor (snd (abs_out example_env 0 1 example_state)) (length (impls example_state))) \<and>
   (well_formed example_state 6 \<and> \<not> is_complex example_state 6 \<and>
    \<not> canCast example_env (toValueType (scalar_type (impl example_state 1)))
        (scalar_type (impl example_state 6))) \<and>
   fails_with InvalidCast (angle_out example_env 6 1 example_state) \<and>
   snd (angle_out example_env 6 1 example_state) = example_state \<and>
   (well_formed example_state 3 \<and> \<not> is_complex example_state 0) \<and>
   abs_out example_env 3 0 example_state =
     unary_op_impl_out example_env 3 0 abs_stub example_state"
proof -
  have h: "is_complex example_state 1" "\<not> is_complex example_state 0"
    "canCast example_env (toValueType (scalar_type (impl example_state 1)))
      (scalar_type (impl example_state 0))"
    "stubs example_env abs_stub (device (impl example_state 1)) \<noteq> None"
    "well_formed example_state 6" "\<not> is_complex example_state 6"
    "\<not> canCast example_env (toValueType (scalar_type (impl example_state 1)))
        (scalar_type (impl example_state 6))"
    by code_simp+
  show ?thesis
    using h ex_wf
      complex_to_float_out_policy [OF ex_wf(1) ex_wf(2), of example_env]
      complex_to_float_out_policy [OF h(5) ex_wf(2), of example_env]
      complex_to_float_out_policy [OF ex_wf(4) ex_wf(1), of example_env]
    by (simp add: complex_to_float_policy_def Let_def fails_with_def)
qed

text \<open>
  Claim C3.  For a well-formed input \<open>x\<close>, \<open>abs(x)\<close> and \<open>angle(x)\<close> succeed whenever a
  kernel is registered for the device (and, for complex \<open>x\<close>, the real-valued
  counterpart dtype can be cast to itself); whenever they return a tensor, it is a new
  tensor whose dtype is the real-valued counterpart of the input's dtype when \<open>x\<close> is
  complex, and whose options (dtype, layout, device) are the input's own when \<open>x\<close> is not
  complex.
\<close>

theorem complex_input_real_output:
  assumes "well_formed st x"
  shows "returns_value_type E abs_stub x st (abs_op E x st) \<and>
         returns_value_type E angle_stub x st (angle E x st)"
  using returns_value_type_holds [OF assms]
  by (simp add: abs_op_def angle_def abs_out_def [abs_def] angle_out_def [abs_def])

theorem complex_input_real_output_witness:
  "(well_formed example_state 1 \<and> is_complex example_state 1 \<and>
    canCast example_env (toValueType (scalar_type (impl example_state 1)))
      (toValueType (scalar_type (impl example_state 1))) \<and>
    stubs example_env angle_stub (device (impl example_state 1)) \<noteq> None) \<and>
   fst (angle example_env 1 example_state) = Inr 7 \<and>
   scalar_type (impl (snd (angle example_env 1 example_state)) 7) = kFloat \<and>
   (well_formed example_state 0 \<and> \<not> is_complex example_state 0 \<and>
    stubs example_env abs_stub (device (impl example_state 0)) \<noteq> None) \<and>
   fst (abs_op example_env 0 example_state) = Inr 7 \<and>
   options (snd (abs_op example_env 0 example_state)) 7 = options example_state 0"
proof -
  have h: "is_complex example_state 1"
    "canCast example_env (toValueType (scalar_type (impl example_state 1)))
      (toValueType (scalar_type (impl example_state 1)))"
    "stubs example_env angle_stub (device (impl example_state 1)) \<noteq> None"
    "\<not> is_complex example_state 0"
    "stubs example_env abs_stub (device (impl example_state 0)) \<noteq> None"
    by code_simp+
  have n: "length (impls example_state) = 7"
    "toValueType (scalar_type (impl example_state 1)) = kFloat"
    by code_simp+
  have w1: "returns_value_type example_env angle_stub 1 example_state
              (angle example_env 1 example_state)"
    using complex_input_real_output [OF ex_wf(2), of example_env] by (rule conjunct2)
  have w0: "returns_value_type example_env abs_stub 0 example_state
              (abs_op example_env 0 example_state)"
    using complex_input_real_output [OF ex_wf(1), of example_env] by (rule conjunct1)
  have a1: "fst (angle example_env 1 example_state) = Inr 7"
    using w1 h(1-3) unfolding returns_value_type_def Let_def n by blast
  have a0: "fst (abs_op example_env 0 example_state) = Inr 7"
    using w0 h(4,5) unfolding returns_value_type_def Let_def n by blast
  have b1: "scalar_type (impl (snd (angle example_env 1 example_state)) 7) = kFloat"
    using w1 h(1) unfolding returns_value_type_def Let_def n a1 by simp
  have b0: "options (snd (abs_op example_env 0 example_state)) 7 = options example_state 0"
    using w0 h(4) unfolding returns_value_type_def Let_def n a0 by simp
  show ?thesis
    using h ex_wf a1 a0 b1 b0 by blast
qed

section \<open>clamp\<close>

text \<open>
  Claim C4 as stated fails where its cases overlap: the complex check comes first, so a
  complex input with neither bound fails with \<open>UnsupportedDtype\<close>, not with
  \<open>InvalidArgument\<close>.
\<close>

theorem clamp_complex_no_bounds_counterexample:
  "is_complex example_state 1 \<and>
   clamp_out example_env 0 1 None None example_state =
     (Inl (UnsupportedDtype, ''clamp is not yet implemented for complex tensors.''),
      example_state) \<and>
   \<not> fails_with InvalidArgument (clamp_out example_env 0 1 None None example_state) \<and>
   \<not> fails_with InvalidArgument (clamp example_env 1 None None example_state) \<and>
   \<not> fails_with InvalidArgument (clamp_inplace example_env 1 None None example_state)"
  by code_simp

text \<open>
  Claim C4, amended.  In all three call forms, \<open>clamp\<close> fails with \<open>UnsupportedDtype\<close>
  for every complex input; for a non-complex input it fails with \<open>InvalidArgument\<close> when
  neither bound is supplied; for a non-complex input with at least one bound it fails
  with \<open>UnsupportedLayout\<close> when the input's layout is not strided.  For a non-complex
  strided input with both bounds, each of the three forms builds the plan and calls
  \<open>clamp_stub\<close> with both bounds, and nothing else: \<open>clamp_out\<close> on the given output,
  \<open>clamp\<close> on the fresh output that it allocates, \<open>clamp_\<close> on the input itself; with a
  kernel registered this is one invocation of the fused kernel.  For a non-complex input
  with only \<open>max\<close> each form is the matching form of \<open>clamp_max\<close>, and with only \<open>min\<close>
  the matching form of \<open>clamp_min\<close>.
\<close>

theorem clamp_validation_and_dispatch:
  assumes "is_tensor st self"
  shows "(is_complex st self \<longrightarrow>
            fails_with UnsupportedDtype (clamp_out E result self mn mx st) \<and>
            fails_with UnsupportedDtype (clamp E self mn mx st) \<and>
            fails_with UnsupportedDtype (clamp_inplace E self mn mx st)) \<and>
         (\<not> is_complex st self \<and> mn = None \<and> mx = None \<longrightarrow>
            fails_with InvalidArgument (clamp_out E result self mn mx st) \<and>
            fails_with InvalidArgument (clamp E self mn mx st) \<and>
            fails_with InvalidArgument (clamp_inplace E self mn mx st)) \<and>
         (\<not> is_complex st self \<and> (mn \<noteq> None \<or> mx \<noteq> None) \<and>
          layout (impl st self) \<noteq> Strided \<longrightarrow>
            fails_with UnsupportedLayout (clamp_out E result self mn mx st) \<and>
            fails_with UnsupportedLayout (clamp E self mn mx st) \<and>
            fails_with UnsupportedLayout (clamp_inplace E self mn mx st)) \<and>
         (\<not> is_complex st self \<and> layout (impl st self) = Strided \<longrightarrow>
            clamp_out E result self (Some lo) (Some hi) st =
              and_then (TensorIterator_unary_op E result self True)
                (\<lambda>iter. and_then (call_stub E clamp_stub (ClampArgs lo hi) iter)
                   (\<lambda>_. return_ok result)) st \<and>
            clamp E self (Some lo) (Some hi) st =
              and_then (at_empty E [0] (options st self)) (\<lambda>result.
                and_then (TensorIterator_unary_op E result self True) (\<lambda>iter.
                and_then (call_stub E clamp_stub (ClampArgs lo hi) iter) (\<lambda>_.
                return_ok result))) st \<and>
            clamp_inplace E self (Some lo) (Some hi) st =
              and_then (TensorIterator_unary_op E self self True)
                (\<lambda>iter. and_then (call_stub E clamp_stub (ClampArgs lo hi) iter)
                   (\<lambda>_. return_ok self)) st) \<and>
         (\<not> is_complex st self \<longrightarrow>
            clamp_out E result self None (Some hi) st = clamp_max_out E result self hi st \<and>
            clamp E self None (Some hi) st = clamp_max E self hi st \<and>
            clamp_inplace E self None (Some hi) st = clamp_max_inplace E self hi st \<and>
            clamp_out E result self (Some lo) None st = clamp_min_out E result self lo st \<and>
            clamp E self (Some lo) None st = clamp_min E self lo st \<and>
            clamp_inplace E self (Some lo) None st = clamp_min_inplace E self lo st) \<and>
         (\<not> is_complex st self \<and> layout (impl st self) = Strided \<and>
          stubs E clamp_stub (device (impl st self)) \<noteq> None \<longrightarrow>
            clamp_inplace E self (Some lo) (Some hi) st =
              (Inr self, after_unary E clamp_stub (ClampArgs lo hi) self self st) \<and>
            kernel_log (snd (clamp_inplace E self (Some lo) (Some hi) st)) =
              kernel_log st @ [StubKernel clamp_stub (device (impl st self))]) \<and>
         (well_formed st self \<and> \<not> is_complex st self \<and> layout (impl st self) = Strided \<and>
          stubs E clamp_stub (device (impl st self)) \<noteq> None \<longrightarrow>
            clamp E self (Some lo) (Some hi) st =
              (Inr (length (impls st)),
               after_unary E clamp_stub (ClampArgs lo hi) (length (impls st)) self
                 (snd (at_empty E [0] (options st self) st))) \<and>
            kernel_log (snd (clamp E self (Some lo) (Some hi) st)) =
              kernel_log st @ [StubKernel clamp_stub (device (impl st self))])"
    (is "?dtype \<and> ?args \<and> ?layout \<and> ?both \<and> ?single \<and> ?inplace \<and> ?fresh")
proof -
  have x: "self < length (impls st)"
    using assms by (simp add: is_tensor_def)
  have a: ?dtype
    using clamp_out_rejects(1) [of st self E _ mn mx] clamp_rejects(1) [OF assms, of E mn mx]
    by (simp add: clamp_inplace_def)
  have b: ?args
    using clamp_out_rejects(2) [of st self mn mx E] clamp_rejects(2) [OF assms, of mn mx E]
    by (simp add: clamp_inplace_def)
  have c: ?layout
    using clamp_out_rejects(3) [of st self mn mx E] clamp_rejects(3) [OF assms, of mn mx E]
    by (simp add: clamp_inplace_def)
  have d: ?both
    using x by (simp add: clamp_both_unfold clamp_inplace_def clamp_out_cases)
  have e: ?single
    using x
    by (simp add: clamp_inplace_def clamp_out_cases clamp_def clamp_max_def clamp_min_def
        clamp_max_inplace_def clamp_min_inplace_def and_then_at_empty)
  have f: ?inplace
    by (simp add: clamp_inplace_def clamp_out_cases direct_stub_inplace_ok)
  have g: ?fresh
  proof (intro impI, elim conjE)
    assume w: "well_formed st self" and h: "\<not> is_complex st self"
      "layout (impl st self) = Strided" "stubs E clamp_stub (device (impl st self)) \<noteq> None"
    have "clamp E self (Some lo) (Some hi) st =
            (Inr (length (impls st)),
             after_unary E clamp_stub (ClampArgs lo hi) (length (impls st)) self
               (snd (at_empty E [0] (options st self) st)))"
      using x h by (simp add: clamp_both_unfold and_then_at_empty direct_stub_fresh_ok [OF w])
    then show "clamp E self (Some lo) (Some hi) st =
            (Inr (length (impls st)),
             after_unary E clamp_stub (ClampArgs lo hi) (length (impls st)) self
               (snd (at_empty E [0] (options st self) st))) \<and>
          kernel_log (snd (clamp E self (Some lo) (Some hi) st)) =
            kernel_log st @ [StubKernel clamp_stub (device (impl st self))]"
      using x by simp
  qed
  show ?thesis
    using a b c d e f g by (intro conjI)
qed

theorem clamp_validation_and_dispatch_witness:
  "(is_tensor example_state 1 \<and> is_complex example_state 1) \<and>
   fails_with UnsupportedDtype (clamp example_env 1 (Some 0) None example_state) \<and>
   (is_tensor example_state 0 \<and> \<not> is_complex example_state 0) \<and>
   fails_with InvalidArgument (clamp_inplace example_env 0 None None example_state) \<and>
   (is_tensor example_state 4 \<and> \<not> is_complex example_state 4 \<and>
    layout (impl example_state 4) \<noteq> Strided) \<and>
   fails_with UnsupportedLayout (clamp_out example_env 3 4 (Some 0) None example_state) \<and>
   (layout (impl example_state 0) = Strided \<and>
    stubs example_env clamp_stub (device (impl example_state 0)) \<noteq> None) \<and>
   kernel_log (snd (clamp_inplace example_env 0 (Some 0) (Some 2) example_state)) =
     kernel_log example_state @ [StubKernel clamp_stub (device (impl example_state 0))] \<and>
   well_formed example_state 0 \<and>
   kernel_log (snd (clamp example_env 0 (Some 0) (Some 2) example_state)) =
     kernel_log example_state @ [StubKernel clamp_stub (device (impl example_state 0))] \<and>
   clamp_out example_env 3 0 (Some 0) (Some 2) example_state =
     and_then (TensorIterator_unary_op example_env 3 0 True)
       (\<lambda>iter. and_then (call_stub example_env clamp_stub (ClampArgs 0 2) iter)
          (\<lambda>_. return_ok 3)) example_state \<and>
   clamp_out example_env 3 0 None (Some 2) example_state =
     clamp_max_out example_env 3 0 2 example_state"
proof -
  have t: "is_tensor example_state 1" "is_tensor example_state 0" "is_tensor example_state 4"
    by code_simp+
  have h1: "is_complex example_state 1" by code_simp
  have h0: "\<not> is_complex example_state 0" "layout (impl example_state 0) = Strided"
    "stubs example_env clamp_stub (device (impl example_state 0)) \<noteq> None"
    by code_simp+
  have h4: "\<not> is_complex example_state 4" "layout (impl example_state 4) \<noteq> Strided"
    by code_simp+
  have a: "fails_with UnsupportedDtype (clamp example_env 1 (Some 0) None example_state)"
    using clamp_validation_and_dispatch [OF t(1), where E = example_env and mn = "Some 0"
        and mx = None and lo = 1 and hi = 1 and result = 0] h1
    by simp
  have b: "fails_with InvalidArgument (clamp_inplace example_env 0 None None example_state)"
    using clamp_validation_and_dispatch [OF t(2), where E = example_env and mn = None
        and mx = None and lo = 1 and hi = 1 and result = 0] h0
    by simp
  have c: "fails_with UnsupportedLayout (clamp_out example_env 3 4 (Some 0) None example_state)"
    using clamp_validation_and_dispatch [OF t(3), where E = example_env and mn = "Some 0"
        and mx = None and result = 3 and lo = 1 and hi = 1] h4
    by simp
  note u = clamp_validation_and_dispatch [OF t(2), where E = example_env and lo = 0
        and hi = 2 and result = 3 and mn = None and mx = None]
  have d: "kernel_log (snd (clamp_inplace example_env 0 (Some 0) (Some 2) example_state)) =
           kernel_log example_state @ [StubKernel clamp_stub (device (impl example_state 0))]"
    using u h0 by blast
  have e: "kernel_log (snd (clamp example_env 0 (Some 0) (Some 2) example_state)) =
           kernel_log example_state @ [StubKernel clamp_stub (device (impl example_state 0))]"
    using u h0 ex_wf(1) by blast
  have f: "clamp_out example_env 3 0 None (Some 2) example_state =
     clamp_max_out example_env 3 0 2 example_state"
    using u h0 by blast
  have g: "clamp_out example_env 3 0 (Some 0) (Some 2) example_state =
     and_then (TensorIterator_unary_op example_env 3 0 True)
       (\<lambda>iter. and_then (call_stub example_env clamp_stub (ClampArgs 0 2) iter)
          (\<lambda>_. return_ok 3)) example_state"
    using u h0 by blast
  show ?thesis
    using t h1 h0 h4 a b c d e f g ex_wf(1) by blast
qed

section \<open>polygamma and mvlgamma\<close>




section \<open>square\<close>

text \<open>
  Claim C9.  \<open>square(x)\<close> is \<open>at::pow(x, 2)\<close> and \<open>square_(x)\<close> is
  \<open>at::pow_out(x, x, 2)\<close>, result and state; neither depends on the dispatch table of
  this file, whatever its entries.
\<close>

theorem square_is_pow:
  "square E self st = at_pow E self 2 st \<and>
   square_inplace E self st = at_pow_out E self self 2 st \<and>
   square (E\<lparr>stubs := table\<rparr>) self st = at_pow E self 2 st \<and>
   square_inplace (E\<lparr>stubs := table\<rparr>) self st = at_pow_out E self self 2 st"
  by (simp add: square_def square_inplace_def)

section \<open>real and imag\<close>

text \<open>
  Claim C6.  \<open>real\<close> and \<open>imag\<close> fail with \<open>UnsupportedDtype\<close> for every non-complex
  input, leaving the state as it was.  For every well-formed complex input of shape \<open>S\<close>
  they return a new view of the input's storage: the input reinterpreted with the
  real-valued counterpart dtype, shape \<open>S @ [2]\<close>, doubled strides and a trailing stride
  1, of which index 0 (\<open>real\<close>) or 1 (\<open>imag\<close>) of the last dimension is selected.  The
  result has the real dtype and shape \<open>S\<close>, its elements are the real (imaginary) parts of
  the input's elements, and nothing else happens: no storage is allocated or changed, no
  kernel runs, and the existing tensors are as they were.
\<close>

theorem real_imag_views:
  "(\<not> is_complex st self \<longrightarrow>
      real self st =
        (Inl (UnsupportedDtype,
              ''real is not implemented for tensors with non-complex dtypes.''), st) \<and>
      imag self st =
        (Inl (UnsupportedDtype,
              ''imag is not implemented for tensors with non-complex dtypes.''), st)) \<and>
   (well_formed st self \<and> is_complex st self \<longrightarrow>
      component_view 0 st self (real self st) \<and>
      component_view 1 st self (imag self st))"
  using component_view_holds [of st self 0] component_view_holds [of st self 1]
  by (simp add: real_def imag_def)


theorem real_imag_views_witness:
  "\<not> is_complex example_state 0 \<and>
   fails_with UnsupportedDtype (real 0 example_state) \<and>
   snd (imag 0 example_state) = example_state \<and>
   (well_formed example_state 1 \<and> is_complex example_state 1) \<and>
   fst (real 1 example_state) = Inr 8 \<and>
   storages (snd (real 1 example_state)) = storages example_state \<and>
   read_tensor (snd (real 1 example_state)) 8 = map (component 0) (read_tensor example_state 1) \<and>
   read_tensor (snd (imag 1 example_state)) 8 = map (component 1) (read_tensor example_state 1)"
proof -
  have h: "\<not> is_complex example_state 0" "is_complex example_state 1"
    "Suc (length (impls example_state)) = 8"
    by code_simp+
  have a: "fails_with UnsupportedDtype (real 0 example_state)"
    "snd (imag 0 example_state) = example_state"
    using real_imag_views [of example_state 0] h(1) by simp_all
  have "component_view 0 example_state 1 (real 1 example_state) \<and>
        component_view 1 example_state 1 (imag 1 example_state)"
    using real_imag_views [of example_state 1] h(2) ex_wf(2) by blast
  then have b: "fst (real 1 example_state) = Inr 8"
    "storages (snd (real 1 example_state)) = storages example_state"
    "read_tensor (snd (real 1 example_state)) 8 = map (component 0) (read_tensor example_state 1)"
    "read_tensor (snd (imag 1 example_state)) 8 = map (component 1) (read_tensor example_state 1)"
    unfolding component_view_def Let_def h(3) by blast+
  show ?thesis
    using h(1,2) ex_wf(2) a b by blast
qed

section \<open>logical_not\<close>

text \<open>
  Claim C10.  For a well-formed input \<open>x\<close> of any dtype with a kernel registered for its
  device, \<open>logical_not(x)\<close> returns a new tensor of dtype \<open>kBool\<close> (whatever the dtype of
  \<open>x\<close>) holding the kernel's values; \<open>logical_not_(x)\<close> writes into \<open>x\<close>, which keeps its
  dtype; \<open>logical_not_out(result, x)\<close> writes into a well-formed \<open>result\<close> on another
  storage of the same device, whose dtype is kept and need not be that of \<open>x\<close>: a
  \<open>result\<close> of shape \<open>[0]\<close> is given the shape of \<open>x\<close>, any other \<open>result\<close> keeps its shape
  and receives the values of \<open>x\<close> broadcast to it, and a \<open>result\<close> to whose shape \<open>x\<close>
  cannot be broadcast is refused with \<open>ShapeMismatch\<close>.  The plan is built with the
  overlap check on (a partial overlap fails with \<open>UnsafeAliasing\<close>) and the same-dtype
  check off (with that check on, as in \<open>unary_op_impl_out\<close>, an output of another dtype is
  refused).
\<close>

theorem logical_not_dtypes:
  assumes "well_formed st x" and "stubs E logical_not_stub (device (impl st x)) \<noteq> None"
  shows "fst (logical_not E x st) = Inr (length (impls st)) \<and>
         scalar_type (impl (snd (logical_not E x st)) (length (impls st))) = kBool \<and>
         sizes (impl (snd (logical_not E x st)) (length (impls st))) = sizes (impl st x) \<and>
         read_tensor (snd (logical_not E x st)) (length (impls st)) =
           map (kernel_value E logical_not_stub NoArgs (device (impl st x))
                  (scalar_type (impl st x)) kBool)
             (read_tensor st x) \<and>
         fst (logical_not_inplace E x st) = Inr x \<and>
         scalar_type (impl (snd (logical_not_inplace E x st)) x) = scalar_type (impl st x) \<and>
         read_tensor (snd (logical_not_inplace E x st)) x =
           map (kernel_value E logical_not_stub NoArgs (device (impl st x))
                  (scalar_type (impl st x)) (scalar_type (impl st x)))
             (read_tensor st x) \<and>
         (well_formed st result \<and> storage (impl st result) \<noteq> storage (impl st x) \<and>
          device (impl st result) = device (impl st x) \<and> sizes (impl st result) = [0] \<longrightarrow>
            fst (logical_not_out E result x st) = Inr result \<and>
            scalar_type (impl (snd (logical_not_out E result x st)) result) =
              scalar_type (impl st result) \<and>
            sizes (impl (snd (logical_not_out E result x st)) result) = sizes (impl st x) \<and>
            read_tensor (snd (logical_not_out E result x st)) result =
              map (kernel_value E logical_not_stub NoArgs (device (impl st x))
                     (scalar_type (impl st x)) (scalar_type (impl st result)))
                (read_tensor st x)) \<and>
         (well_formed st result \<and> storage (impl st result) \<noteq> storage (impl st x) \<and>
          device (impl st result) = device (impl st x) \<and> sizes (impl st result) \<noteq> [0] \<and>
          broadcast_shapes (sizes (impl st x)) (sizes (impl st result)) =
            Some (sizes (impl st result)) \<longrightarrow>
            fst (logical_not_out E result x st) = Inr result \<and>
            scalar_type (impl (snd (logical_not_out E result x st)) result) =
              scalar_type (impl st result) \<and>
            sizes (impl (snd (logical_not_out E result x st)) result) =
              sizes (impl st result) \<and>
            read_tensor (snd (logical_not_out E result x st)) result =
              map (kernel_value E logical_not_stub NoArgs (device (impl st x))
                     (scalar_type (impl st x)) (scalar_type (impl st result)))
                (read_expanded st x (sizes (impl st result)))) \<and>
         (storage (impl st result) \<noteq> storage (impl st x) \<and>
          device (impl st result) = device (impl st x) \<and> sizes (impl st result) \<noteq> [0] \<and>
          broadcast_shapes (sizes (impl st x)) (sizes (impl st result)) \<noteq>
            Some (sizes (impl st result)) \<longrightarrow>
            logical_not_out E result x st =
              (Inl (ShapeMismatch, ''shapes cannot be broadcast to the shape of the output''),
               st)) \<and>
         (partial_overlap st result x \<longrightarrow>
            fails_with UnsafeAliasing (logical_not_out E result x st)) \<and>
         (\<not> partial_overlap st result x \<and>
          scalar_type (impl st result) \<noteq> scalar_type (impl st x) \<longrightarrow>
            fails_with IncompatibleOutput (unary_op_impl_out E result x logical_not_stub st))"
    (is "?f1 \<and> ?f2 \<and> ?f3 \<and> ?f4 \<and> ?i1 \<and> ?i2 \<and> ?i3 \<and> ?absent \<and> ?keeps \<and> ?mismatch \<and>
         ?overlap \<and> ?dtype")
proof -
  from assms(1) have x: "x < length (impls st)" by (simp add: well_formed_def)
  have fresh: "?f1 \<and> ?f2 \<and> ?f3 \<and> ?f4"
    using x fresh_read [OF assms(1), of E logical_not_stub NoArgs
        "(options st x)\<lparr>opt_dtype := kBool\<rparr>"]
    by (simp add: logical_not_fresh [OF assms])
  have inplace: "?i1 \<and> ?i2 \<and> ?i3"
    using x assms(2) inplace_read [OF assms(1), of E logical_not_stub NoArgs]
    by (simp add: logical_not_inplace_def logical_not_out_ok)
  have absent: ?absent
  proof (intro impI, elim conjE)
    assume w: "well_formed st result"
      and s: "storage (impl st result) \<noteq> storage (impl st x)"
      and d: "device (impl st result) = device (impl st x)"
      and z: "sizes (impl st result) = [0]"
    from w have r: "result < length (impls st)" by (simp add: well_formed_def)
    have eq: "logical_not_out E result x st =
              (Inr result, after_unary E logical_not_stub NoArgs result x st)"
      using s d assms(2) z by (simp add: logical_not_out_ok)
    show "fst (logical_not_out E result x st) = Inr result \<and>
            scalar_type (impl (snd (logical_not_out E result x st)) result) =
              scalar_type (impl st result) \<and>
            sizes (impl (snd (logical_not_out E result x st)) result) = sizes (impl st x) \<and>
            read_tensor (snd (logical_not_out E result x st)) result =
              map (kernel_value E logical_not_stub NoArgs (device (impl st x))
                     (scalar_type (impl st x)) (scalar_type (impl st result)))
                (read_tensor st x)"
      using r s after_unary_read [OF w assms(1), of E logical_not_stub NoArgs]
      by (simp add: eq)
  qed
  have keeps: ?keeps
  proof (intro impI, elim conjE)
    assume w: "well_formed st result"
      and s: "storage (impl st result) \<noteq> storage (impl st x)"
      and d: "device (impl st result) = device (impl st x)"
      and z: "sizes (impl st result) \<noteq> [0]"
      and b: "broadcast_shapes (sizes (impl st x)) (sizes (impl st result)) =
                Some (sizes (impl st result))"
    have eq: "logical_not_out E result x st =
              (Inr result, run_kernel (StubKernel logical_not_stub (device (impl st x)))
                 (the (stubs E logical_not_stub (device (impl st x))) NoArgs) result x st)"
      using s d assms(2) z b by (rule logical_not_out_keeps_shape)
    show "fst (logical_not_out E result x st) = Inr result \<and>
            scalar_type (impl (snd (logical_not_out E result x st)) result) =
              scalar_type (impl st result) \<and>
            sizes (impl (snd (logical_not_out E result x st)) result) =
              sizes (impl st result) \<and>
            read_tensor (snd (logical_not_out E result x st)) result =
              map (kernel_value E logical_not_stub NoArgs (device (impl st x))
                     (scalar_type (impl st x)) (scalar_type (impl st result)))
                (read_expanded st x (sizes (impl st result)))"
      using keeps_shape_read [OF w, of logical_not_stub "device (impl st x)" E NoArgs x]
      by (simp add: eq)
  qed
  have mismatch: ?mismatch
    using logical_not_out_shape_mismatch [of st result x E] by blast
  have ov: ?overlap
    by (simp add: logical_not_out_def and_then_def build_overlap fails_with_def)
  have mm: ?dtype
    by (simp add: unary_op_impl_out_def TensorIterator_unary_op_def and_then_def
        build_dtype_mismatch fails_with_def)
  show ?thesis
    using fresh inplace absent keeps mismatch ov mm by (intro conjI) blast+
qed

theorem logical_not_dtypes_witness:
  "(well_formed example_state 0 \<and>
    stubs example_env logical_not_stub (device (impl example_state 0)) \<noteq> None) \<and>
   scalar_type (impl example_state 0) = kFloat \<and>
   fst (logical_not example_env 0 example_state) = Inr 7 \<and>
   scalar_type (impl (snd (logical_not example_env 0 example_state)) 7) = kBool \<and>
   scalar_type (impl (snd (logical_not_inplace example_env 0 example_state)) 0) = kFloat \<and>
   (storage (impl example_state 6) \<noteq> storage (impl example_state 0) \<and>
    device (impl example_state 6) = device (impl example_state 0) \<and>
    sizes (impl example_state 6) \<noteq> [0] \<and>
    broadcast_shapes (sizes (impl example_state 0)) (sizes (impl example_state 6)) \<noteq>
      Some (sizes (impl example_state 6))) \<and>
   fails_with ShapeMismatch (logical_not_out example_env 6 0 example_state) \<and>
   (\<not> partial_overlap example_state 6 0 \<and>
    scalar_type (impl example_state 6) \<noteq> scalar_type (impl example_state 0)) \<and>
   fails_with IncompatibleOutput (unary_op_impl_out example_env 6 0 logical_not_stub example_state) \<and>
   (well_formed broadcast_state 0 \<and>
    stubs example_env logical_not_stub (device (impl broadcast_state 0)) \<noteq> None \<and>
    well_formed broadcast_state 7 \<and>
    storage (impl broadcast_state 7) \<noteq> storage (impl broadcast_state 0) \<and>
    device (impl broadcast_state 7) = device (impl broadcast_state 0) \<and>
    sizes (impl broadcast_state 7) \<noteq> [0] \<and>
    broadcast_shapes (sizes (impl broadcast_state 0)) (sizes (impl broadcast_state 7)) =
      Some (sizes (impl broadcast_state 7))) \<and>
   scalar_type (impl broadcast_state 7) = kBool \<and>
   fst (logical_not_out example_env 7 0 broadcast_state) = Inr 7 \<and>
   scalar_type (impl (snd (logical_not_out example_env 7 0 broadcast_state)) 7) = kBool \<and>
   sizes (impl (snd (logical_not_out example_env 7 0 broadcast_state)) 7) = [2, 3] \<and>
   read_tensor (snd (logical_not_out example_env 7 0 broadcast_state)) 7 =
     [RealElem 2, RealElem 3, RealElem 4, RealElem 2, RealElem 3, RealElem 4] \<and>
   (well_formed broadcast_state 8 \<and>
    storage (impl broadcast_state 8) \<noteq> storage (impl broadcast_state 0) \<and>
    device (impl broadcast_state 8) = device (impl broadcast_state 0) \<and>
    sizes (impl broadcast_state 8) = [0]) \<and>
   fst (logical_not_out example_env 8 0 broadcast_state) = Inr 8 \<and>
   sizes (impl (snd (logical_not_out example_env 8 0 broadcast_state)) 8) = [3] \<and>
   read_tensor (snd (logical_not_out example_env 8 0 broadcast_state)) 8 =
     [RealElem 2, RealElem 3, RealElem 4] \<and>
   (well_formed overlap_state 0 \<and>
    stubs example_env logical_not_stub (device (impl overlap_state 0)) \<noteq> None \<and>
    partial_overlap overlap_state 7 0) \<and>
   fails_with UnsafeAliasing (logical_not_out example_env 7 0 overlap_state)"
proof -
  have h: "stubs example_env logical_not_stub (device (impl example_state 0)) \<noteq> None"
    "scalar_type (impl example_state 0) = kFloat" "length (impls example_state) = 7"
    "storage (impl example_state 6) \<noteq> storage (impl example_state 0)"
    "device (impl example_state 6) = device (impl example_state 0)"
    "sizes (impl example_state 6) \<noteq> [0]"
    "broadcast_shapes (sizes (impl example_state 0)) (sizes (impl example_state 6)) \<noteq>
       Some (sizes (impl example_state 6))"
    "\<not> partial_overlap example_state 6 0"
    "scalar_type (impl example_state 6) \<noteq> scalar_type (impl example_state 0)"
    by code_simp+
  have o: "well_formed overlap_state 0"
    "stubs example_env logical_not_stub (device (impl overlap_state 0)) \<noteq> None"
    "partial_overlap overlap_state 7 0"
    by code_simp+
  have g: "well_formed broadcast_state 0"
    "stubs example_env logical_not_stub (device (impl broadcast_state 0)) \<noteq> None"
    "well_formed broadcast_state 7"
    "storage (impl broadcast_state 7) \<noteq> storage (impl broadcast_state 0)"
    "device (impl broadcast_state 7) = device (impl broadcast_state 0)"
    "sizes (impl broadcast_state 7) \<noteq> [0]"
    "broadcast_shapes (sizes (impl broadcast_state 0)) (sizes (impl broadcast_state 7)) =
       Some (sizes (impl broadcast_state 7))"
    "well_formed broadcast_state 8"
    "storage (impl broadcast_state 8) \<noteq> storage (impl broadcast_state 0)"
    "device (impl broadcast_state 8) = device (impl broadcast_state 0)"
    "sizes (impl broadcast_state 8) = [0]"
    by code_simp+
  have v: "scalar_type (impl broadcast_state 7) = kBool"
    "sizes (impl broadcast_state 7) = [2, 3]"
    "sizes (impl broadcast_state 0) = [3]"
    "map (kernel_value example_env logical_not_stub NoArgs (device (impl broadcast_state 0))
            (scalar_type (impl broadcast_state 0)) (scalar_type (impl broadcast_state 7)))
       (read_expanded broadcast_state 0 (sizes (impl broadcast_state 7))) =
     [RealElem 2, RealElem 3, RealElem 4, RealElem 2, RealElem 3, RealElem 4]"
    "map (kernel_value example_env logical_not_stub NoArgs (device (impl broadcast_state 0))
            (scalar_type (impl broadcast_state 0)) (scalar_type (impl broadcast_state 8)))
       (read_tensor broadcast_state 0) =
     [RealElem 2, RealElem 3, RealElem 4]"
    by code_simp+
  note t = logical_not_dtypes [OF ex_wf(1) h(1), where result = 6]
  note u = logical_not_dtypes [OF o(1) o(2), where result = 7]
  note b7 = logical_not_dtypes [OF g(1) g(2), where result = 7]
  note b8 = logical_not_dtypes [OF g(1) g(2), where result = 8]
  have a: "fst (logical_not example_env 0 example_state) = Inr 7"
    "scalar_type (impl (snd (logical_not example_env 0 example_state)) 7) = kBool"
    "scalar_type (impl (snd (logical_not_inplace example_env 0 example_state)) 0) = kFloat"
    using t unfolding h(2,3) by blast+
  have "logical_not_out example_env 6 0 example_state =
          (Inl (ShapeMismatch, ''shapes cannot be broadcast to the shape of the output''),
           example_state)"
    using t h(4-7) by blast
  then have b: "fails_with ShapeMismatch (logical_not_out example_env 6 0 example_state)"
    by simp
  have b': "fails_with IncompatibleOutput
       (unary_op_impl_out example_env 6 0 logical_not_stub example_state)"
    using t h(8,9) by blast
  have c: "fails_with UnsafeAliasing (logical_not_out example_env 7 0 overlap_state)"
    using u o(3) by blast
  have k: "fst (logical_not_out example_env 7 0 broadcast_state) = Inr 7 \<and>
           scalar_type (impl (snd (logical_not_out example_env 7 0 broadcast_state)) 7) =
             scalar_type (impl broadcast_state 7) \<and>
           sizes (impl (snd (logical_not_out example_env 7 0 broadcast_state)) 7) =
             sizes (impl broadcast_state 7) \<and>
           read_tensor (snd (logical_not_out example_env 7 0 broadcast_state)) 7 =
             map (kernel_value example_env logical_not_stub NoArgs (device (impl broadcast_state 0))
                    (scalar_type (impl broadcast_state 0)) (scalar_type (impl broadcast_state 7)))
               (read_expanded broadcast_state 0 (sizes (impl broadcast_state 7)))"
    using b7 g(3-7) by blast
  from k have "read_tensor (snd (logical_not_out example_env 7 0 broadcast_state)) 7 =
             map (kernel_value example_env logical_not_stub NoArgs (device (impl broadcast_state 0))
                    (scalar_type (impl broadcast_state 0)) (scalar_type (impl broadcast_state 7)))
               (read_expanded broadcast_state 0 (sizes (impl broadcast_state 7)))"
    by blast
  also note v(4)
  finally have k4: "read_tensor (snd (logical_not_out example_env 7 0 broadcast_state)) 7 =
       [RealElem 2, RealElem 3, RealElem 4, RealElem 2, RealElem 3, RealElem 4]" .
  have k': "fst (logical_not_out example_env 7 0 broadcast_state) = Inr 7"
    "scalar_type (impl (snd (logical_not_out example_env 7 0 broadcast_state)) 7) = kBool"
    "sizes (impl (snd (logical_not_out example_env 7 0 broadcast_state)) 7) = [2, 3]"
    using k unfolding v(1,2) by blast+
  have m: "fst (logical_not_out example_env 8 0 broadcast_state) = Inr 8 \<and>
           scalar_type (impl (snd (logical_not_out example_env 8 0 broadcast_state)) 8) =
             scalar_type (impl broadcast_state 8) \<and>
           sizes (impl (snd (logical_not_out example_env 8 0 broadcast_state)) 8) =
             sizes (impl broadcast_state 0) \<and>
           read_tensor (snd (logical_not_out example_env 8 0 broadcast_state)) 8 =
             map (kernel_value example_env logical_not_stub NoArgs (device (impl broadcast_state 0))
                    (scalar_type (impl broadcast_state 0)) (scalar_type (impl broadcast_state 8)))
               (read_tensor broadcast_state 0)"
    using b8 g(8-11) by blast
  from m have "read_tensor (snd (logical_not_out example_env 8 0 broadcast_state)) 8 =
             map (kernel_value example_env logical_not_stub NoArgs (device (impl broadcast_state 0))
                    (scalar_type (impl broadcast_state 0)) (scalar_type (impl broadcast_state 8)))
               (read_tensor broadcast_state 0)"
    by blast
  also note v(5)
  finally have m4: "read_tensor (snd (logical_not_out example_env 8 0 broadcast_state)) 8 =
       [RealElem 2, RealElem 3, RealElem 4]" .
  have m': "fst (logical_not_out example_env 8 0 broadcast_state) = Inr 8"
    "sizes (impl (snd (logical_not_out example_env 8 0 broadcast_state)) 8) = [3]"
    using m unfolding v(3) by blast+
  show ?thesis
    using ex_wf(1) h o g v(1) a b b' c k' k4 m' m4 by blast
qed

section \<open>Validation failures\<close>





end
